theory Spec2Isabelle
  imports Main "HOL-Library.Finite_Map" "HOL-Library.Word"
begin

section \<open>Data model of the group coordinator\<close>

text \<open>
  The standalone group coordinator (\<^verbatim>\<open>pkg/kafsar/group_coordinator_standalone.go\<close>) keeps
  one \<^verbatim>\<open>Group\<close> per key \<^verbatim>\<open>username+groupId\<close>. Go maps are finite maps; a lookup of a
  missing key yields \<^verbatim>\<open>nil\<close> (here \<open>None\<close>). Byte slices are lists of 8-bit words, a
  \<^verbatim>\<open>nil\<close> slice being the empty list.

  Go's \<^verbatim>\<open>int\<close> is a 64-bit integer. The counters of this file (\<^verbatim>\<open>generationId\<close>,
  \<^verbatim>\<open>joinGenerationId\<close>, \<^verbatim>\<open>syncGenerationId\<close>) start at 0 and are changed only by
  \<^verbatim>\<open>++\<close>, at most once per handler call (lemma \<open>run_generationId_le_calls\<close> below), so
  they cannot wrap around in fewer than \<open>2^63\<close> calls; they are modelled as unbounded
  integers. The remaining integers are only compared.
\<close>

type_synonym bytes = "8 word list"

datatype ErrorCode =
    NONE
  | INVALID_GROUP_ID
  | MEMBER_ID_REQUIRED
  | UNKNOWN_MEMBER_ID
  | INVALID_SESSION_TIMEOUT
  | GROUP_MAX_SIZE_REACHED
  | INCONSISTENT_GROUP_PROTOCOL
  | REBALANCE_IN_PROGRESS
  | COORDINATOR_LOAD_IN_PROGRESS
  | LEADER_NOT_AVAILABLE
  | TOPIC_AUTHORIZATION_FAILED
  | SASL_AUTHENTICATION_FAILED
  | UNKNOWN_SERVER_ERROR

datatype GroupStatus = PreparingRebalance | CompletingRebalance | Stable | Dead | Empty

text \<open>Run-time faults of Go: a handler that hits one does not return a response.\<close>

datatype fault = NilPointerDereference | IndexOutOfRange

text \<open>The errors built with \<^verbatim>\<open>errors.Errorf\<close> by the waiting loops.\<close>

datatype wait_error =
    RebalanceTimeout      \<comment> \<open>"relalance timeout"\<close>
  | CurMemberMissing      \<comment> \<open>"cur member missing when awaitingJoin."\<close>
  | JoinWaitTimeout       \<comment> \<open>"join wait timeout"\<close>
  | SyncWaitTimeout       \<comment> \<open>"sync wait timeout"\<close>

record GroupProtocol =
  ProtocolName :: string
  ProtocolMetadata :: bytes

record GroupAssignment =
  ga_MemberId :: string
  ga_MemberAssignment :: bytes

record LeaveGroupMember =
  lm_MemberId :: string
  lm_GroupInstanceId :: "string option"

record memberMetadata =
  clientId :: string
  memberId :: string
  metadata :: bytes
  memberProtocolType :: string
  protocols :: "(string, bytes) fmap"
  assignment :: bytes
  joinGenerationId :: int
  syncGenerationId :: int

record Group =
  groupId :: string
  groupStatus :: GroupStatus
  protocolType :: string
  supportedProtocol :: string
  generationId :: int
  leader :: string
  members :: "(string, memberMetadata) fmap"
  canRebalance :: bool
  sessionTimeoutMs :: int
  partitionedTopic :: "string list"

record KafsarConfig =
  GroupMinSessionTimeoutMs :: int
  GroupMaxSessionTimeoutMs :: int
  MaxConsumersPerGroup :: int
  RebalanceTickMs :: int
  InitialDelayedJoinMs :: int
  MaxFetchRecord :: int
  MinFetchWaitMs :: int
  MaxFetchWaitMs :: int
  ContinuousOffset :: bool

record GroupCoordinatorStandalone =
  kafsarConfig :: KafsarConfig
  groupManager :: "(string, Group) fmap"

text \<open>
  What a handler call takes from its environment: the string of \<^verbatim>\<open>uuid.New()\<close>, and, for
  each polling loop, how many polls find its timeout not yet elapsed
  (\<^verbatim>\<open>time.Since(start).Milliseconds() >= int64(sessionTimeout)\<close> false) before one finds
  it elapsed. In this section the handlers are taken one call at a time: no other call
  changes the group while a loop polls. Calls that overlap are the subject of the
  section on overlapping calls below.
\<close>

record runtime =
  uuid :: string
  newMemberPolls :: nat   \<comment> \<open>\<^verbatim>\<open>awaitingRebalance\<close> in \<^verbatim>\<open>addNewMemberAndReBalance\<close>\<close>
  rebalancePolls :: nat   \<comment> \<open>\<^verbatim>\<open>awaitingRebalance\<close> in \<^verbatim>\<open>doRebalance\<close>\<close>
  joinPolls :: nat        \<comment> \<open>\<^verbatim>\<open>awaitingJoin\<close>\<close>
  syncPolls :: nat        \<comment> \<open>\<^verbatim>\<open>awaitingSync\<close>\<close>

text \<open>
  The responses of \<^verbatim>\<open>kafka-codec-go\<close>. Fields a handler leaves out keep Go's zero value.
  \<^verbatim>\<open>getLeaderMembers\<close> collects the member list by ranging over a Go map, whose order is
  unspecified, so the list is kept as the finite set of its \<open>(MemberId, Metadata)\<close> entries.
\<close>

record JoinGroupResp =
  jg_ErrorCode :: ErrorCode
  jg_GenerationId :: int
  jg_ProtocolType :: "string option"
  jg_ProtocolName :: string
  jg_LeaderId :: string
  jg_MemberId :: string
  jg_Members :: "(string \<times> bytes) fset"

record SyncGroupResp =
  sg_ErrorCode :: ErrorCode
  sg_MemberAssignment :: bytes

record LeaveGroupResp =
  lg_ErrorCode :: ErrorCode
  lg_Members :: "LeaveGroupMember list"

record HeartbeatResp =
  hb_ErrorCode :: ErrorCode

text \<open>
  The \<^verbatim>\<open>logrus.Errorf\<close> line of \<^verbatim>\<open>HandleJoinGroup\<close>: the source words the failure of the
  admission step ("failed, cause:") and of the await-join barrier ("failed, case:")
  differently.
\<close>

datatype join_log =
    ParamsCheckFailed
  | ProtocolCheckFailed
  | ExceedMaximumMembers
  | GroupStatusDead
  | JoinFailedCause wait_error
  | JoinFailedCase wait_error

section \<open>The group coordinator\<close>

definition EmptyMemberId :: string where
  "EmptyMemberId = []"

definition NewGroupCoordinatorStandalone :: "KafsarConfig \<Rightarrow> GroupCoordinatorStandalone" where
  "NewGroupCoordinatorStandalone config = \<lparr>kafsarConfig = config, groupManager = fmempty\<rparr>"

definition getGroupMembersLen :: "Group \<Rightarrow> int" where
  "getGroupMembersLen grp = int (fcard (fmdom (members grp)))"

definition setGroupStatus :: "Group \<Rightarrow> GroupStatus \<Rightarrow> Group" where
  "setGroupStatus grp status = grp\<lparr>groupStatus := status\<rparr>"

definition isMemberLeader :: "Group \<Rightarrow> string \<Rightarrow> bool" where
  "isMemberLeader grp mId = (leader grp = mId)"

definition setMemberLeader :: "Group \<Rightarrow> string \<Rightarrow> Group" where
  "setMemberLeader grp l = grp\<lparr>leader := l\<rparr>"

definition deleteMember :: "Group \<Rightarrow> string \<Rightarrow> Group" where
  "deleteMember grp mId = grp\<lparr>members := fmdrop mId (members grp)\<rparr>"

definition checkMemberExist :: "Group \<Rightarrow> string \<Rightarrow> bool" where
  "checkMemberExist grp mId = (fmlookup (members grp) mId \<noteq> None)"

definition getLeaderMembers :: "Group \<Rightarrow> string \<Rightarrow> Group \<times> (string \<times> bytes) fset" where
  "getLeaderMembers grp mId =
     (let grp1 = (if leader grp = [] then setMemberLeader grp mId else grp)
      in (grp1,
          if isMemberLeader grp1 mId
          then (\<lambda>member. (memberId member, metadata member)) |`| fmran (members grp1)
          else {||}))"

definition syncGroupParamsCheck :: "string \<Rightarrow> string \<Rightarrow> ErrorCode \<times> bool" where
  "syncGroupParamsCheck gId mId =
     (if gId = [] then (INVALID_GROUP_ID, True)
      else if mId = [] then (MEMBER_ID_REQUIRED, True)
      else (NONE, False))"

definition joinGroupParamsCheck ::
  "string \<Rightarrow> string \<Rightarrow> string \<Rightarrow> int \<Rightarrow> KafsarConfig \<Rightarrow> string \<times> ErrorCode \<times> bool" where
  "joinGroupParamsCheck cId gId mId sessionTimeout config =
     (if gId = [] then (mId, INVALID_GROUP_ID, True)
      else if sessionTimeout < GroupMinSessionTimeoutMs config
              \<or> sessionTimeout > GroupMaxSessionTimeoutMs config
           then (mId, INVALID_SESSION_TIMEOUT, True)
      else (mId, NONE, False))"

definition supportsProtocols :: "GroupProtocol list \<Rightarrow> bool" where
  "supportsProtocols memberProtocols = True"

definition matchProtocols :: "GroupProtocol list \<Rightarrow> bool" where
  "matchProtocols memberProtocols = True"

definition joinGroupProtocolCheck ::
  "Group \<Rightarrow> string \<Rightarrow> GroupProtocol list \<Rightarrow> ErrorCode \<times> bool" where
  "joinGroupProtocolCheck grp pType ps =
     (if groupStatus grp \<noteq> Empty
         \<and> (protocolType grp \<noteq> pType \<or> \<not> supportsProtocols ps)
      then (INCONSISTENT_GROUP_PROTOCOL, True)
      else if groupStatus grp = Empty \<and> (pType = [] \<or> length ps = 0)
      then (INCONSISTENT_GROUP_PROTOCOL, True)
      else (NONE, False))"

text \<open>
  \<^verbatim>\<open>awaitingRebalance\<close>: the loop only reads the grp. The third argument counts the
  polls that find the timeout not yet elapsed; the loop checks its exit condition
  before the clock, so it polls once more than that.
\<close>

fun awaitingRebalance :: "Group \<Rightarrow> GroupStatus \<Rightarrow> nat \<Rightarrow> wait_error option" where
  "awaitingRebalance grp waitForStatus 0 =
     (if groupStatus grp = waitForStatus \<or> getGroupMembersLen grp = 0 then None
      else Some RebalanceTimeout)"
| "awaitingRebalance grp waitForStatus (Suc n) =
     (if groupStatus grp = waitForStatus \<or> getGroupMembersLen grp = 0 then None
      else awaitingRebalance grp waitForStatus n)"

definition prepareRebalance :: "Group \<Rightarrow> Group" where
  "prepareRebalance grp = setGroupStatus grp PreparingRebalance"

definition doRebalance :: "runtime \<Rightarrow> Group \<Rightarrow> Group \<times> wait_error option" where
  "doRebalance rt grp =
     (let grp1 = prepareRebalance grp in
      if canRebalance grp1
      then ((setGroupStatus (grp1\<lparr>canRebalance := False\<rparr>) CompletingRebalance)
              \<lparr>generationId := generationId grp1 + 1, canRebalance := True\<rparr>, None)
      else (grp1, awaitingRebalance grp1 CompletingRebalance (rebalancePolls rt)))"

text \<open>\<^verbatim>\<open>vote\<close> reads \<^verbatim>\<open>protocols[0]\<close>: on an empty slice Go panics.\<close>

definition vote :: "Group \<Rightarrow> GroupProtocol list \<Rightarrow> fault + Group" where
  "vote grp ps =
     (case ps of [] \<Rightarrow> Inl IndexOutOfRange
      | p # _ \<Rightarrow> Inr (grp\<lparr>supportedProtocol := ProtocolName p\<rparr>))"

text \<open>The \<^verbatim>\<open>protocolMap\<close> of \<^verbatim>\<open>addMemberAndRebalance\<close>: a later entry overwrites an earlier one.\<close>

fun protocolMap :: "GroupProtocol list \<Rightarrow> (string, bytes) fmap \<Rightarrow> (string, bytes) fmap" where
  "protocolMap [] acc = acc"
| "protocolMap (p # ps) acc = protocolMap ps (fmupd (ProtocolName p) (ProtocolMetadata p) acc)"

definition addMemberAndRebalance ::
  "runtime \<Rightarrow> Group \<Rightarrow> string \<Rightarrow> string \<Rightarrow> string \<Rightarrow> GroupProtocol list
   \<Rightarrow> Group \<times> (fault + string \<times> wait_error option)" where
  "addMemberAndRebalance rt grp cId mId pType ps =
     (let mId1 = (if mId = EmptyMemberId then cId @ ''-'' @ uuid rt else mId);
          pm = protocolMap ps fmempty
      in case (if groupStatus grp = Empty then vote grp ps else Inr grp) of
           Inl f \<Rightarrow> (grp, Inl f)
         | Inr grp1 \<Rightarrow>
             (let grp2 = grp1\<lparr>members :=
                     fmupd mId1
                       \<lparr>clientId = cId, memberId = mId1,
                        metadata = (case fmlookup pm (supportedProtocol grp1) of
                                      None \<Rightarrow> [] | Some b \<Rightarrow> b),
                        memberProtocolType = pType, protocols = pm, assignment = [],
                        joinGenerationId = 0, syncGenerationId = 0\<rparr>
                       (members grp1)\<rparr>
              in case doRebalance rt grp2 of (grp3, err) \<Rightarrow> (grp3, Inr (mId1, err))))"

definition updateMemberAndRebalance :: "runtime \<Rightarrow> Group \<Rightarrow> Group \<times> wait_error option" where
  "updateMemberAndRebalance rt grp = doRebalance rt grp"

definition addNewMemberAndReBalance ::
  "runtime \<Rightarrow> Group \<Rightarrow> string \<Rightarrow> string \<Rightarrow> string \<Rightarrow> GroupProtocol list
   \<Rightarrow> Group \<times> (fault + string \<times> wait_error option)" where
  "addNewMemberAndReBalance rt grp cId mId pType ps =
     (if getGroupMembersLen grp > 0 \<and> groupStatus grp \<noteq> Stable
      then (case awaitingRebalance grp Stable (newMemberPolls rt) of
              Some err \<Rightarrow> (grp, Inr (mId, Some err))
            | None \<Rightarrow> addMemberAndRebalance rt grp cId mId pType ps)
      else addMemberAndRebalance rt grp cId mId pType ps)"

definition checkJoinMemberGenerationId :: "Group \<Rightarrow> bool" where
  "checkJoinMemberGenerationId grp =
     fmpred (\<lambda>k member. joinGenerationId member = generationId grp) (members grp)"

definition checkSyncMemberGenerationId :: "Group \<Rightarrow> bool" where
  "checkSyncMemberGenerationId grp =
     fmpred (\<lambda>k member. syncGenerationId member = joinGenerationId member) (members grp)"

text \<open>
  \<^verbatim>\<open>awaitingJoin\<close>: every poll reads the member, stores the grp's generation in its
  \<^verbatim>\<open>joinGenerationId\<close> and tests the barrier; only then it looks at the clock.
\<close>

fun awaitingJoin :: "Group \<Rightarrow> string \<Rightarrow> nat \<Rightarrow> Group \<times> wait_error option" where
  "awaitingJoin grp mId 0 =
     (case fmlookup (members grp) mId of
        None \<Rightarrow> (grp, Some CurMemberMissing)
      | Some curMember \<Rightarrow>
          (let grp1 = grp\<lparr>members :=
                  fmupd mId (curMember\<lparr>joinGenerationId := generationId grp\<rparr>) (members grp)\<rparr>
           in if checkJoinMemberGenerationId grp1
              then (setGroupStatus grp1 CompletingRebalance, None)
              else (grp1, Some JoinWaitTimeout)))"
| "awaitingJoin grp mId (Suc n) =
     (case fmlookup (members grp) mId of
        None \<Rightarrow> (grp, Some CurMemberMissing)
      | Some curMember \<Rightarrow>
          (let grp1 = grp\<lparr>members :=
                  fmupd mId (curMember\<lparr>joinGenerationId := generationId grp\<rparr>) (members grp)\<rparr>
           in if checkJoinMemberGenerationId grp1
              then (setGroupStatus grp1 CompletingRebalance, None)
              else awaitingJoin grp1 mId n))"

fun awaitingSync :: "Group \<Rightarrow> nat \<Rightarrow> wait_error option" where
  "awaitingSync grp 0 =
     (if checkSyncMemberGenerationId grp then None else Some SyncWaitTimeout)"
| "awaitingSync grp (Suc n) =
     (if checkSyncMemberGenerationId grp then None else awaitingSync grp n)"

text \<open>
  \<^verbatim>\<open>HandleJoinGroup\<close>. The responses it builds: the error response carries only the
  member id and the code.
\<close>

definition joinErrorResp :: "string \<Rightarrow> ErrorCode \<Rightarrow> JoinGroupResp" where
  "joinErrorResp mId code =
     \<lparr>jg_ErrorCode = code, jg_GenerationId = 0, jg_ProtocolType = None, jg_ProtocolName = [],
      jg_LeaderId = [], jg_MemberId = mId, jg_Members = {||}\<rparr>"

definition joinOkResp :: "Group \<Rightarrow> string \<Rightarrow> (string \<times> bytes) fset \<Rightarrow> JoinGroupResp" where
  "joinOkResp grp mId ms =
     \<lparr>jg_ErrorCode = NONE, jg_GenerationId = generationId grp,
      jg_ProtocolType = Some (protocolType grp), jg_ProtocolName = supportedProtocol grp,
      jg_LeaderId = leader grp, jg_MemberId = mId, jg_Members = ms\<rparr>"

text \<open>
  The end of the PreparingRebalance branch (lines 110-130) and of the Empty/Stable branch
  (lines 202-222): wait at the join barrier; on an error remove the member when
  \<^verbatim>\<open>isNewMember\<close>; otherwise pick the leader and answer.
\<close>

definition awaitJoinThenMembers ::
  "runtime \<Rightarrow> Group \<Rightarrow> string \<Rightarrow> bool \<Rightarrow> Group \<times> join_log option \<times> (fault + JoinGroupResp)" where
  "awaitJoinThenMembers rt grp mId isNewMember =
     (case awaitingJoin grp mId (joinPolls rt) of
        (grp1, Some err) \<Rightarrow>
          (if isNewMember then deleteMember grp1 mId else grp1,
           Some (JoinFailedCase err), Inr (joinErrorResp mId COORDINATOR_LOAD_IN_PROGRESS))
      | (grp1, None) \<Rightarrow>
          (case getLeaderMembers grp1 mId of
             (grp2, ms) \<Rightarrow> (grp2, None, Inr (joinOkResp grp2 mId ms))))"

text \<open>
  The end of the CompletingRebalance branch (lines 156-176): the member list is taken
  (and the leader picked) before the barrier.
\<close>

definition membersThenAwaitJoin ::
  "runtime \<Rightarrow> Group \<Rightarrow> string \<Rightarrow> bool \<Rightarrow> Group \<times> join_log option \<times> (fault + JoinGroupResp)" where
  "membersThenAwaitJoin rt grp mId isNewMember =
     (case getLeaderMembers grp mId of
        (grp1, ms) \<Rightarrow>
          (case awaitingJoin grp1 mId (joinPolls rt) of
             (grp2, Some err) \<Rightarrow>
               (if isNewMember then deleteMember grp2 mId else grp2,
                Some (JoinFailedCase err), Inr (joinErrorResp mId COORDINATOR_LOAD_IN_PROGRESS))
           | (grp2, None) \<Rightarrow> (grp2, None, Inr (joinOkResp grp2 mId ms))))"

text \<open>
  The admission step of the three branches: a caller with the empty member id, or with
  an id the group does not hold, is added through \<^verbatim>\<open>addNewMemberAndReBalance\<close>; the
  flag says whether a known member starts a rebalance through
  \<^verbatim>\<open>updateMemberAndRebalance\<close>. The result is the member id to go on with, or the
  finished call.
\<close>

definition admit ::
  "runtime \<Rightarrow> Group \<Rightarrow> string \<Rightarrow> string \<Rightarrow> string \<Rightarrow> GroupProtocol list \<Rightarrow> bool
   \<Rightarrow> Group \<times> (join_log option \<times> (fault + JoinGroupResp) + string)" where
  "admit rt grp cId mId pType ps knownMemberRebalances =
     (if mId = EmptyMemberId \<or> \<not> checkMemberExist grp mId
      then (case addNewMemberAndReBalance rt grp cId mId pType ps of
              (grp1, Inl f) \<Rightarrow> (grp1, Inl (None, Inl f))
            | (grp1, Inr (mId1, Some err)) \<Rightarrow>
                (grp1, Inl (Some (JoinFailedCause err),
                            Inr (joinErrorResp mId1 COORDINATOR_LOAD_IN_PROGRESS)))
            | (grp1, Inr (mId1, None)) \<Rightarrow> (grp1, Inr mId1))
      else if knownMemberRebalances
      then (case updateMemberAndRebalance rt grp of
              (grp1, Some err) \<Rightarrow>
                (grp1, Inl (Some (JoinFailedCause err),
                            Inr (joinErrorResp mId COORDINATOR_LOAD_IN_PROGRESS)))
            | (grp1, None) \<Rightarrow> (grp1, Inr mId))
      else (grp, Inr mId))"

text \<open>The body of \<^verbatim>\<open>HandleJoinGroup\<close> from line 72 on, for the group found or created.\<close>

definition joinGroup ::
  "KafsarConfig \<Rightarrow> runtime \<Rightarrow> Group \<Rightarrow> string \<Rightarrow> string \<Rightarrow> string \<Rightarrow> GroupProtocol list
   \<Rightarrow> Group \<times> join_log option \<times> (fault + JoinGroupResp)" where
  "joinGroup config rt grp mId cId pType ps =
     (case joinGroupProtocolCheck grp pType ps of
        (code, True) \<Rightarrow> (grp, Some ProtocolCheckFailed, Inr (joinErrorResp mId code))
      | (code, False) \<Rightarrow>
     if MaxConsumersPerGroup config > 0 \<and> getGroupMembersLen grp \<ge> MaxConsumersPerGroup config
     then (grp, Some ExceedMaximumMembers, Inr (joinErrorResp mId GROUP_MAX_SIZE_REACHED))
     else if groupStatus grp = Dead
     then (grp, Some GroupStatusDead, Inr (joinErrorResp mId UNKNOWN_MEMBER_ID))
     else let isNewMember = (mId = EmptyMemberId) in
     if groupStatus grp = PreparingRebalance
     then (case admit rt grp cId mId pType ps False of
             (grp1, Inl done) \<Rightarrow> (grp1, done)
           | (grp1, Inr mId1) \<Rightarrow> awaitJoinThenMembers rt grp1 mId1 isNewMember)
     else if groupStatus grp = CompletingRebalance
     then (case admit rt grp cId mId pType ps (\<not> matchProtocols ps) of
             (grp1, Inl done) \<Rightarrow> (grp1, done)
           | (grp1, Inr mId1) \<Rightarrow> membersThenAwaitJoin rt grp1 mId1 isNewMember)
     else if groupStatus grp = Empty \<or> groupStatus grp = Stable
     then (case admit rt grp cId mId pType ps (isMemberLeader grp mId \<or> \<not> matchProtocols ps) of
             (grp1, Inl done) \<Rightarrow> (grp1, done)
           | (grp1, Inr mId1) \<Rightarrow> awaitJoinThenMembers rt grp1 mId1 isNewMember)
     else (grp, None, Inr (joinErrorResp mId UNKNOWN_SERVER_ERROR)))"

definition newGroup :: "string \<Rightarrow> string \<Rightarrow> int \<Rightarrow> Group" where
  "newGroup gId pType sessionTimeout =
     \<lparr>groupId = gId, groupStatus = Empty, protocolType = pType, supportedProtocol = [],
      generationId = 0, leader = [], members = fmempty, canRebalance = True,
      sessionTimeoutMs = sessionTimeout, partitionedTopic = []\<rparr>"

definition HandleJoinGroup ::
  "GroupCoordinatorStandalone \<Rightarrow> runtime \<Rightarrow> string \<Rightarrow> string \<Rightarrow> string \<Rightarrow> string \<Rightarrow> string
   \<Rightarrow> int \<Rightarrow> GroupProtocol list
   \<Rightarrow> GroupCoordinatorStandalone \<times> join_log option \<times> (fault + JoinGroupResp)" where
  "HandleJoinGroup g rt username gId mId cId pType sessionTimeout ps =
     (case joinGroupParamsCheck cId gId mId sessionTimeout (kafsarConfig g) of
        (mId1, code, True) \<Rightarrow> (g, Some ParamsCheckFailed, Inr (joinErrorResp mId1 code))
      | (mId1, code, False) \<Rightarrow>
          (let grp = (case fmlookup (groupManager g) (username @ gId) of
                        Some grp0 \<Rightarrow> grp0
                      | None \<Rightarrow> newGroup gId pType sessionTimeout)
           in case joinGroup (kafsarConfig g) rt grp mId1 cId pType ps of
                (grp1, out) \<Rightarrow>
                  (g\<lparr>groupManager := fmupd (username @ gId) grp1 (groupManager g)\<rparr>, out)))"

text \<open>
  \<^verbatim>\<open>HandleSyncGroup\<close>. The leader's loop (lines 271-274) writes through
  \<^verbatim>\<open>group.members[...]\<close>: for an id the map does not hold, the map yields \<^verbatim>\<open>nil\<close> and
  the write to \<^verbatim>\<open>.assignment\<close> is a nil-pointer dereference. The assignments stored
  before the fault stay.
\<close>

fun storeAssignments ::
  "(string, memberMetadata) fmap \<Rightarrow> GroupAssignment list
   \<Rightarrow> (string, memberMetadata) fmap \<times> fault option" where
  "storeAssignments ms [] = (ms, None)"
| "storeAssignments ms (a # as) =
     (case fmlookup ms (ga_MemberId a) of
        None \<Rightarrow> (ms, Some NilPointerDereference)
      | Some member \<Rightarrow>
          storeAssignments
            (fmupd (ga_MemberId a) (member\<lparr>assignment := ga_MemberAssignment a\<rparr>) ms) as)"

text \<open>
  The CompletingRebalance branch (lines 268-301). \<^verbatim>\<open>curMember\<close> is the pointer read at
  line 246; were it \<^verbatim>\<open>nil\<close>, the write at line 277 would fault (the handler has returned
  at line 247 in that case).
\<close>

definition syncCompleting ::
  "runtime \<Rightarrow> Group \<Rightarrow> string \<Rightarrow> GroupAssignment list \<Rightarrow> Group \<times> (fault + SyncGroupResp)" where
  "syncCompleting rt grp mId groupAssignments =
     (case (if isMemberLeader grp mId then storeAssignments (members grp) groupAssignments
            else (members grp, None)) of
        (ms1, Some f) \<Rightarrow> (grp\<lparr>members := ms1\<rparr>, Inl f)
      | (ms1, None) \<Rightarrow>
          (case fmlookup ms1 mId of
             None \<Rightarrow> (grp\<lparr>members := ms1\<rparr>, Inl NilPointerDereference)
           | Some curMember \<Rightarrow>
               (let curMember1 = curMember\<lparr>syncGenerationId := joinGenerationId curMember\<rparr>;
                    grp1 = grp\<lparr>members := fmupd mId curMember1 ms1\<rparr>;
                    err = awaitingSync grp1 (syncPolls rt);
                    grp2 = (if isMemberLeader grp1 mId then setGroupStatus grp1 Stable else grp1);
                    curMemberAssignment = assignment curMember1
                in case err of
                     Some e \<Rightarrow>
                       (grp2, Inr \<lparr>sg_ErrorCode = REBALANCE_IN_PROGRESS,
                                  sg_MemberAssignment = curMemberAssignment\<rparr>)
                   | None \<Rightarrow>
                       (if isMemberLeader grp2 mId then setGroupStatus grp2 Stable else grp2,
                        Inr \<lparr>sg_ErrorCode = NONE,
                            sg_MemberAssignment = curMemberAssignment\<rparr>))))"

definition HandleSyncGroup ::
  "GroupCoordinatorStandalone \<Rightarrow> runtime \<Rightarrow> string \<Rightarrow> string \<Rightarrow> string \<Rightarrow> int
   \<Rightarrow> GroupAssignment list \<Rightarrow> GroupCoordinatorStandalone \<times> (fault + SyncGroupResp)" where
  "HandleSyncGroup g rt username gId mId generation groupAssignments =
     (case syncGroupParamsCheck gId mId of
        (code, True) \<Rightarrow> (g, Inr \<lparr>sg_ErrorCode = code, sg_MemberAssignment = []\<rparr>)
      | (code, False) \<Rightarrow>
     (case fmlookup (groupManager g) (username @ gId) of
        None \<Rightarrow> (g, Inr \<lparr>sg_ErrorCode = INVALID_GROUP_ID, sg_MemberAssignment = []\<rparr>)
      | Some grp \<Rightarrow>
     (case fmlookup (members grp) mId of
        None \<Rightarrow> (g, Inr \<lparr>sg_ErrorCode = UNKNOWN_MEMBER_ID, sg_MemberAssignment = []\<rparr>)
      | Some curMember \<Rightarrow>
     if groupStatus grp = Empty \<or> groupStatus grp = Dead
     then (g, Inr \<lparr>sg_ErrorCode = UNKNOWN_MEMBER_ID, sg_MemberAssignment = []\<rparr>)
     else if groupStatus grp = PreparingRebalance
     then (g, Inr \<lparr>sg_ErrorCode = REBALANCE_IN_PROGRESS, sg_MemberAssignment = []\<rparr>)
     else if groupStatus grp = CompletingRebalance
     then (case syncCompleting rt grp mId groupAssignments of
             (grp1, out) \<Rightarrow>
               (g\<lparr>groupManager := fmupd (username @ gId) grp1 (groupManager g)\<rparr>, out))
     else if groupStatus grp = Stable
     then (g, Inr \<lparr>sg_ErrorCode = NONE, sg_MemberAssignment = assignment curMember\<rparr>)
     else (g, Inr \<lparr>sg_ErrorCode = UNKNOWN_SERVER_ERROR, sg_MemberAssignment = []\<rparr>))))"

text \<open>\<^verbatim>\<open>HandleLeaveGroup\<close>: the loop over the listed members (lines 333-339), then the rest.\<close>

fun leaveMembers :: "Group \<Rightarrow> LeaveGroupMember list \<Rightarrow> Group" where
  "leaveMembers grp [] = grp"
| "leaveMembers grp (m # ms) =
     leaveMembers
       (deleteMember (if lm_MemberId m = leader grp then setMemberLeader grp [] else grp)
          (lm_MemberId m))
       ms"

definition HandleLeaveGroup ::
  "GroupCoordinatorStandalone \<Rightarrow> string \<Rightarrow> string \<Rightarrow> LeaveGroupMember list
   \<Rightarrow> GroupCoordinatorStandalone \<times> LeaveGroupResp" where
  "HandleLeaveGroup g username gId ms =
     (if gId = [] then (g, \<lparr>lg_ErrorCode = INVALID_GROUP_ID, lg_Members = []\<rparr>)
      else case fmlookup (groupManager g) (username @ gId) of
        None \<Rightarrow> (g, \<lparr>lg_ErrorCode = INVALID_GROUP_ID, lg_Members = []\<rparr>)
      | Some grp \<Rightarrow>
          (let grp1 = leaveMembers grp ms;
               grp2 = grp1\<lparr>generationId := generationId grp1 + 1\<rparr>;
               grp3 = (if fcard (fmdom (members grp2)) = 0 then setGroupStatus grp2 Empty
                       else setGroupStatus grp2 PreparingRebalance)
           in (g\<lparr>groupManager := fmupd (username @ gId) grp3 (groupManager g)\<rparr>,
               \<lparr>lg_ErrorCode = NONE, lg_Members = ms\<rparr>)))"

definition HandleHeartBeat ::
  "GroupCoordinatorStandalone \<Rightarrow> string \<Rightarrow> string \<Rightarrow> string \<Rightarrow> HeartbeatResp" where
  "HandleHeartBeat g username gId mId =
     (if gId = [] then \<lparr>hb_ErrorCode = INVALID_GROUP_ID\<rparr>
      else case fmlookup (groupManager g) (username @ gId) of
        None \<Rightarrow> \<lparr>hb_ErrorCode = REBALANCE_IN_PROGRESS\<rparr>
      | Some grp \<Rightarrow>
          (if fmlookup (members grp) mId = None then \<lparr>hb_ErrorCode = REBALANCE_IN_PROGRESS\<rparr>
           else if groupStatus grp = PreparingRebalance \<or> groupStatus grp = CompletingRebalance
                   \<or> groupStatus grp = Dead
           then \<lparr>hb_ErrorCode = REBALANCE_IN_PROGRESS\<rparr>
           else \<lparr>hb_ErrorCode = NONE\<rparr>))"

definition GetGroup :: "GroupCoordinatorStandalone \<Rightarrow> string \<Rightarrow> string \<Rightarrow> Group option" where
  "GetGroup g username gId = fmlookup (groupManager g) (username @ gId)"

subsection \<open>Sequences of coordinator calls\<close>

datatype request =
    JoinGroup string string string string string int "GroupProtocol list"
      \<comment> \<open>username, groupId, memberId, clientId, protocolType, sessionTimeoutMs, protocols\<close>
  | SyncGroup string string string int "GroupAssignment list"
      \<comment> \<open>username, groupId, memberId, generation, groupAssignments\<close>
  | Heartbeat string string string
      \<comment> \<open>username, groupId, memberId\<close>
  | LeaveGroup string string "LeaveGroupMember list"
      \<comment> \<open>username, groupId, members\<close>

text \<open>The coordinator after one call, whatever the call answered.\<close>

fun handle :: "GroupCoordinatorStandalone \<Rightarrow> runtime \<times> request \<Rightarrow> GroupCoordinatorStandalone" where
  "handle g (rt, JoinGroup username gId mId cId pType sessionTimeout ps) =
     fst (HandleJoinGroup g rt username gId mId cId pType sessionTimeout ps)"
| "handle g (rt, SyncGroup username gId mId generation groupAssignments) =
     fst (HandleSyncGroup g rt username gId mId generation groupAssignments)"
| "handle g (rt, Heartbeat username gId mId) = g"
| "handle g (rt, LeaveGroup username gId ms) = fst (HandleLeaveGroup g username gId ms)"

fun run ::
  "GroupCoordinatorStandalone \<Rightarrow> (runtime \<times> request) list \<Rightarrow> GroupCoordinatorStandalone" where
  "run g [] = g"
| "run g (call # calls) = run (handle g call) calls"

subsection \<open>Invariants of a group\<close>

text \<open>
  A group without members is Empty or Dead. Calls that are taken one after the other
  keep this (lemma \<open>run_members_status_inv\<close> below).
\<close>

definition members_status_inv :: "Group \<Rightarrow> bool" where
  "members_status_inv grp \<longleftrightarrow>
     (members grp = fmempty \<longrightarrow> groupStatus grp = Empty \<or> groupStatus grp = Dead)"

text \<open>Whether the group of a user holds a member id.\<close>

definition groupHasMember ::
  "GroupCoordinatorStandalone \<Rightarrow> string \<Rightarrow> string \<Rightarrow> string \<Rightarrow> bool" where
  "groupHasMember g username gId mId =
     (case GetGroup g username gId of None \<Rightarrow> False | Some grp \<Rightarrow> checkMemberExist grp mId)"

section \<open>The broker: produce, fetch and offset commit\<close>

text \<open>
  The second source file holds the \<^verbatim>\<open>Broker\<close>. Its state is kept per network address
  (\<^verbatim>\<open>addr.String()\<close>) and per partitioned topic and client id. Kafka offsets are
  \<^verbatim>\<open>int64\<close>; they are compared, and subtracted once (\<^verbatim>\<open>offset - baseOffset\<close>), where the
  wrap-around is written out. A backend message id is opaque to the broker and is a
  number here.
\<close>

type_synonym MessageID = nat

record Message =
  msgID :: MessageID
  msgPayload :: bytes
  msgKey :: "bytes option"

record MessageIdPair =
  MessageId :: MessageID
  Offset :: int

record userInfo =
  userUsername :: string
  userClientId :: string

record ReaderMetadata =
  readerGroupId :: string
  messageIds :: "MessageIdPair list"

type_synonym Producer = string

text \<open>One call of \<^verbatim>\<open>OffsetManager.CommitOffset\<close> that was persisted.\<close>

record Commit =
  commitUsername :: string
  commitKafkaTopic :: string
  commitGroupId :: string
  commitPartitionId :: int
  commitPair :: MessageIdPair

record Broker =
  brokerConfig :: KafsarConfig
  groupCoordinator :: GroupCoordinatorStandalone
  userInfoManager :: "(string, userInfo) fmap"
  readerManager :: "(string, ReaderMetadata) fmap"
  topicGroupManager :: "(string, string) fmap"
  producerManager :: "(string, Producer) fmap"
  offsetManager :: "Commit list"

text \<open>
  What the broker calls but this repository's two files do not define: the hooks of the
  \<^verbatim>\<open>Server\<close> interface, the helpers of \<^verbatim>\<open>utils\<close> and \<^verbatim>\<open>constant\<close>, the backend client and
  the offset manager. They are parameters. An \<^verbatim>\<open>error\<close> result is \<open>None\<close>, or a
  predicate saying that the call fails.
\<close>

record externals =
  PulsarTopic :: "string \<Rightarrow> string \<Rightarrow> string option"
  PartitionSuffix :: "int \<Rightarrow> string"
  convOffset :: "Message \<Rightarrow> bool \<Rightarrow> int"
  ConvertMsgId :: "MessageID \<Rightarrow> int"
  CalculateMsgLength :: "Message \<Rightarrow> int"
  CreateProducerFails :: "string \<Rightarrow> bool"
  SendAsync :: "Producer \<Rightarrow> bytes \<Rightarrow> bytes option \<Rightarrow> MessageID"
  CommitOffsetFails :: "Commit \<Rightarrow> bool"

definition wrap64 :: "int \<Rightarrow> int" where
  "wrap64 x = (x + 2 ^ 63) mod 2 ^ 64 - 2 ^ 63"

definition partitionedTopicOf :: "externals \<Rightarrow> userInfo \<Rightarrow> string \<Rightarrow> int \<Rightarrow> string option" where
  "partitionedTopicOf ext user kafkaTopic partitionId =
     (case PulsarTopic ext (userUsername user) kafkaTopic of
        None \<Rightarrow> None
      | Some pulsarTopic \<Rightarrow> Some (pulsarTopic @ PartitionSuffix ext partitionId))"

subsection \<open>OffsetCommitPartition\<close>

record OffsetCommitPartitionReq =
  oc_PartitionId :: int
  oc_Offset :: int

record OffsetCommitPartitionResp =
  ocr_PartitionId :: int
  ocr_ErrorCode :: ErrorCode

text \<open>
  Modelled from the spec: the offset manager is not in the two source files. Its
  \<^verbatim>\<open>CommitOffset(username, kafkaTopic, groupId, partitionId, pair)\<close> persists the ack, or
  returns an error and persists nothing; which of the two is a parameter.
\<close>

definition CommitOffset :: "externals \<Rightarrow> Commit list \<Rightarrow> Commit \<Rightarrow> Commit list \<times> bool" where
  "CommitOffset ext om c = (if CommitOffsetFails ext c then (om, True) else (om @ [c], False))"

text \<open>
  The loop of lines 583-613: \<open>i\<close> and \<open>len\<close> are the loop counter and the length read
  before the loop, the list is the FIFO from its front. The result is the FIFO, the
  offset manager and whether \<^verbatim>\<open>CommitOffset\<close> returned an error.
\<close>

function commitLoop ::
  "externals \<Rightarrow> string \<Rightarrow> string \<Rightarrow> string \<Rightarrow> OffsetCommitPartitionReq \<Rightarrow> nat \<Rightarrow> nat
   \<Rightarrow> MessageIdPair list \<Rightarrow> Commit list \<Rightarrow> MessageIdPair list \<times> Commit list \<times> bool" where
  "commitLoop ext user kafkaTopic gId req i len fifo om =
     (if i < len then
        (case fifo of
           [] \<Rightarrow> (fifo, om, False)
         | messageIdPair # rest \<Rightarrow>
             if Offset messageIdPair = oc_Offset req
                \<or> (Offset messageIdPair < oc_Offset req \<and> i = len - 1)
             then (case CommitOffset ext om
                          \<lparr>commitUsername = user, commitKafkaTopic = kafkaTopic,
                           commitGroupId = gId, commitPartitionId = oc_PartitionId req,
                           commitPair = messageIdPair\<rparr> of
                     (om1, True) \<Rightarrow> (fifo, om1, True)
                   | (om1, False) \<Rightarrow> (rest, om1, False))
             else if Offset messageIdPair > oc_Offset req then (fifo, om, False)
             else commitLoop ext user kafkaTopic gId req (i + 1) len rest om)
      else (fifo, om, False))"
  by pat_completeness auto
termination
  by (relation "measure (\<lambda>(ext, user, kafkaTopic, gId, req, i, len, fifo, om). len - i)") auto

declare commitLoop.simps [simp del]

definition OffsetCommitPartition ::
  "externals \<Rightarrow> Broker \<Rightarrow> string \<Rightarrow> string \<Rightarrow> string \<Rightarrow> OffsetCommitPartitionReq
   \<Rightarrow> Broker \<times> OffsetCommitPartitionResp" where
  "OffsetCommitPartition ext b addr kafkaTopic clientID req =
     (case fmlookup (userInfoManager b) addr of
        None \<Rightarrow> (b, \<lparr>ocr_PartitionId = oc_PartitionId req,
                      ocr_ErrorCode = UNKNOWN_SERVER_ERROR\<rparr>)
      | Some user \<Rightarrow>
     (case partitionedTopicOf ext user kafkaTopic (oc_PartitionId req) of
        None \<Rightarrow> (b, \<lparr>ocr_PartitionId = oc_PartitionId req,
                      ocr_ErrorCode = UNKNOWN_SERVER_ERROR\<rparr>)
      | Some pTopic \<Rightarrow>
     (case fmlookup (readerManager b) (pTopic @ clientID) of
        None \<Rightarrow>
          (case fmlookup (topicGroupManager b) pTopic of
             None \<Rightarrow> (b, \<lparr>ocr_PartitionId = 0, ocr_ErrorCode = REBALANCE_IN_PROGRESS\<rparr>)
           | Some gId \<Rightarrow>
               (case GetGroup (groupCoordinator b) (userUsername user) gId of
                  None \<Rightarrow> (b, \<lparr>ocr_PartitionId = 0, ocr_ErrorCode = REBALANCE_IN_PROGRESS\<rparr>)
                | Some grp \<Rightarrow>
                    if groupStatus grp \<noteq> Stable
                    then (b, \<lparr>ocr_PartitionId = 0, ocr_ErrorCode = REBALANCE_IN_PROGRESS\<rparr>)
                    else (b, \<lparr>ocr_PartitionId = 0, ocr_ErrorCode = REBALANCE_IN_PROGRESS\<rparr>)))
      | Some readerMessages \<Rightarrow>
          (case commitLoop ext (userUsername user) kafkaTopic (readerGroupId readerMessages) req
                  0 (length (messageIds readerMessages)) (messageIds readerMessages)
                  (offsetManager b) of
             (fifo, om, failed) \<Rightarrow>
               (b\<lparr>readerManager := fmupd (pTopic @ clientID)
                      (readerMessages\<lparr>messageIds := fifo\<rparr>) (readerManager b),
                  offsetManager := om\<rparr>,
                \<lparr>ocr_PartitionId = oc_PartitionId req,
                 ocr_ErrorCode = (if failed then UNKNOWN_SERVER_ERROR else NONE)\<rparr>)))))"

text \<open>
  The walk as the spec words it: entries below the target that are not the last are
  dropped; an entry equal to the target, or below it and the last, is the one to
  persist and is removed; an entry above the target stops the walk and stays. The
  result is the FIFO left and the entry to persist, if any.
\<close>

fun commitWalk :: "int \<Rightarrow> MessageIdPair list \<Rightarrow> MessageIdPair list \<times> MessageIdPair option" where
  "commitWalk target [] = ([], None)"
| "commitWalk target [p] = (if Offset p \<le> target then ([], Some p) else ([p], None))"
| "commitWalk target (p # q # rest) =
     (if Offset p = target then (q # rest, Some p)
      else if Offset p < target then commitWalk target (q # rest)
      else (p # q # rest, None))"

subsection \<open>FetchPartition\<close>

record FetchPartitionReq =
  fr_PartitionId :: int

record KafkaRecord =
  Value :: bytes
  RelativeOffset :: int

record RecordBatch =
  rb_Offset :: int
  rb_Records :: "KafkaRecord list"

record FetchPartitionResp =
  fp_PartitionIndex :: int
  fp_ErrorCode :: ErrorCode
  fp_LastStableOffset :: int
  fp_LogStartOffset :: int
  fp_RecordBatch :: RecordBatch

text \<open>
  What one iteration of the read loop (lines 274-315) observes: the clock at the head
  of the loop, the answer of \<^verbatim>\<open>HasFlowQuota\<close>, the result of \<^verbatim>\<open>reader.Next(ctx)\<close> (a
  message, an error with the context's deadline expired, or another error), and the
  clock after a message was taken. Clock readings are \<^verbatim>\<open>time.Since(start).Milliseconds()\<close>.
\<close>

datatype read_result = NextMessage Message | NextDeadline | NextError

record tick =
  elapsedAtHead :: int
  flowQuota :: bool
  nextResult :: read_result
  elapsedAfterRead :: int

text \<open>The variables of the loop, with the FIFO of the reader.\<close>

record fetch_state =
  records :: "KafkaRecord list"
  byteLength :: int
  baseOffset :: int
  fistMessage :: bool
  pendingMessageIds :: "MessageIdPair list"

text \<open>Lines 290-308: a message is taken into the batch and pushed on the FIFO.\<close>

definition accept :: "externals \<Rightarrow> KafsarConfig \<Rightarrow> fetch_state \<Rightarrow> Message \<Rightarrow> fetch_state" where
  "accept ext config st message =
     (let offset = convOffset ext message (ContinuousOffset config);
          base = (if fistMessage st then offset else baseOffset st)
      in \<lparr>records = records st @ [\<lparr>Value = msgPayload message,
                                     RelativeOffset = wrap64 (offset - base)\<rparr>],
          byteLength = wrap64 (byteLength st + CalculateMsgLength ext message),
          baseOffset = base,
          fistMessage = False,
          pendingMessageIds = pendingMessageIds st @ [\<lparr>MessageId = msgID message, Offset = offset\<rparr>]\<rparr>)"

text \<open>
  The loop. Every iteration takes one observation; when the observations end while the
  loop is still running, there is no result.
\<close>

fun fetchLoop ::
  "externals \<Rightarrow> KafsarConfig \<Rightarrow> int \<Rightarrow> int \<Rightarrow> int \<Rightarrow> tick list \<Rightarrow> fetch_state
   \<Rightarrow> fetch_state option" where
  "fetchLoop ext config maxBytes minBytes maxWaitMs [] st = None"
| "fetchLoop ext config maxBytes minBytes maxWaitMs (t # ts) st =
     (if elapsedAtHead t \<ge> maxWaitMs \<or> int (length (records st)) \<ge> MaxFetchRecord config
      then Some st
      else if \<not> flowQuota t then Some st
      else case nextResult t of
             NextDeadline \<Rightarrow> Some st
           | NextError \<Rightarrow> fetchLoop ext config maxBytes minBytes maxWaitMs ts st
           | NextMessage message \<Rightarrow>
               (let st1 = accept ext config st message
                in if byteLength st1 > minBytes \<and> elapsedAfterRead t \<ge> MinFetchWaitMs config
                   then Some st1
                   else if byteLength st1 > maxBytes then Some st1
                   else fetchLoop ext config maxBytes minBytes maxWaitMs ts st1))"

text \<open>The variables before the loop (lines 219-220 and 268-270).\<close>

definition fetchStart :: "ReaderMetadata \<Rightarrow> fetch_state" where
  "fetchStart readerMetadata =
     \<lparr>records = [], byteLength = 0, baseOffset = 0, fistMessage = True,
      pendingMessageIds = messageIds readerMetadata\<rparr>"

definition emptyBatchResp :: "int \<Rightarrow> ErrorCode \<Rightarrow> FetchPartitionResp" where
  "emptyBatchResp partitionId code =
     \<lparr>fp_PartitionIndex = partitionId, fp_ErrorCode = code, fp_LastStableOffset = 0,
      fp_LogStartOffset = 0, fp_RecordBatch = \<lparr>rb_Offset = 0, rb_Records = []\<rparr>\<rparr>"

definition FetchPartition ::
  "externals \<Rightarrow> Broker \<Rightarrow> string \<Rightarrow> string \<Rightarrow> string \<Rightarrow> FetchPartitionReq \<Rightarrow> int \<Rightarrow> int \<Rightarrow> int
   \<Rightarrow> tick list \<Rightarrow> (Broker \<times> FetchPartitionResp) option" where
  "FetchPartition ext b addr kafkaTopic clientID req maxBytes minBytes maxWaitMs ticks =
     (case fmlookup (userInfoManager b) addr of
        None \<Rightarrow> Some (b, emptyBatchResp (fr_PartitionId req) UNKNOWN_SERVER_ERROR)
      | Some user \<Rightarrow>
     (case partitionedTopicOf ext user kafkaTopic (fr_PartitionId req) of
        None \<Rightarrow> Some (b, emptyBatchResp (fr_PartitionId req) UNKNOWN_SERVER_ERROR)
      | Some pTopic \<Rightarrow>
     (case fmlookup (readerManager b) (pTopic @ clientID) of
        None \<Rightarrow>
          (case fmlookup (topicGroupManager b) pTopic of
             None \<Rightarrow> Some (b, emptyBatchResp (fr_PartitionId req) NONE)
           | Some gId \<Rightarrow>
               (case GetGroup (groupCoordinator b) (userUsername user) gId of
                  None \<Rightarrow> Some (b, emptyBatchResp (fr_PartitionId req) NONE)
                | Some grp \<Rightarrow>
                    if groupStatus grp \<noteq> Stable
                    then Some (b, emptyBatchResp (fr_PartitionId req) NONE)
                    else Some (b, emptyBatchResp (fr_PartitionId req) NONE)))
      | Some readerMetadata \<Rightarrow>
          (case fetchLoop ext (brokerConfig b) maxBytes minBytes maxWaitMs ticks
                  (fetchStart readerMetadata) of
             None \<Rightarrow> None
           | Some st \<Rightarrow>
               Some (b\<lparr>readerManager := fmupd (pTopic @ clientID)
                          (readerMetadata\<lparr>messageIds := pendingMessageIds st\<rparr>)
                          (readerManager b)\<rparr>,
                     \<lparr>fp_PartitionIndex = fr_PartitionId req, fp_ErrorCode = NONE,
                      fp_LastStableOffset = 0, fp_LogStartOffset = 0,
                      fp_RecordBatch = \<lparr>rb_Offset = baseOffset st,
                                        rb_Records = records st\<rparr>\<rparr>)))))"

text \<open>
  The messages among the results of the reads of a list of iterations, and the bytes
  the loop has counted once it has taken the messages \<open>ms\<close> in: the sum of their
  lengths, added up one by one in a Go \<^verbatim>\<open>int\<close>.
\<close>

fun messagesOf :: "tick list \<Rightarrow> Message list" where
  "messagesOf [] = []"
| "messagesOf (t # ts) =
     (case nextResult t of NextMessage message \<Rightarrow> message # messagesOf ts | _ \<Rightarrow> messagesOf ts)"

definition bytesOf :: "externals \<Rightarrow> Message list \<Rightarrow> int" where
  "bytesOf ext ms = foldl (\<lambda>total message. wrap64 (total + CalculateMsgLength ext message)) 0 ms"

text \<open>
  The exit conditions as the spec lists them, for the messages \<open>ms\<close> taken so far, the
  elapsed time and the flow quota; and the loop that ends as soon as one of them holds:
  at the head of an iteration, while it waits for the read (the message that arrives
  then is not taken), or after it has taken a message. Its result is the list of the
  messages taken.
\<close>

definition exitCondition ::
  "externals \<Rightarrow> KafsarConfig \<Rightarrow> int \<Rightarrow> int \<Rightarrow> int \<Rightarrow> Message list \<Rightarrow> int \<Rightarrow> bool \<Rightarrow> bool" where
  "exitCondition ext config maxBytes minBytes maxWaitMs ms elapsed quota \<longleftrightarrow>
     int (length ms) \<ge> MaxFetchRecord config
     \<or> bytesOf ext ms > maxBytes
     \<or> (bytesOf ext ms > minBytes \<and> elapsed \<ge> MinFetchWaitMs config)
     \<or> elapsed \<ge> maxWaitMs
     \<or> \<not> quota"

fun fetchLoopSpec ::
  "externals \<Rightarrow> KafsarConfig \<Rightarrow> int \<Rightarrow> int \<Rightarrow> int \<Rightarrow> tick list \<Rightarrow> Message list
   \<Rightarrow> Message list option" where
  "fetchLoopSpec ext config maxBytes minBytes maxWaitMs [] ms = None"
| "fetchLoopSpec ext config maxBytes minBytes maxWaitMs (t # ts) ms =
     (if exitCondition ext config maxBytes minBytes maxWaitMs ms (elapsedAtHead t) (flowQuota t)
      then Some ms
      else case nextResult t of
             NextDeadline \<Rightarrow> Some ms
           | NextError \<Rightarrow> fetchLoopSpec ext config maxBytes minBytes maxWaitMs ts ms
           | NextMessage message \<Rightarrow>
               if exitCondition ext config maxBytes minBytes maxWaitMs ms (elapsedAfterRead t) True
               then Some ms
               else if exitCondition ext config maxBytes minBytes maxWaitMs (ms @ [message])
                         (elapsedAfterRead t) True
               then Some (ms @ [message])
               else fetchLoopSpec ext config maxBytes minBytes maxWaitMs ts (ms @ [message]))"

text \<open>
  The tests of the source loop, each at the place where the source makes it, for an
  iteration that observes \<open>t\<close> when the messages \<open>ms\<close> have been taken: before a message
  is taken (lines 275-289: deadline, record count, flow quota, the read's deadline
  error), and right after one was taken (lines 309-314: the two tests on the bytes).
\<close>

definition stopsBeforeRead :: "KafsarConfig \<Rightarrow> int \<Rightarrow> Message list \<Rightarrow> tick \<Rightarrow> bool" where
  "stopsBeforeRead config maxWaitMs ms t \<longleftrightarrow>
     elapsedAtHead t \<ge> maxWaitMs \<or> int (length ms) \<ge> MaxFetchRecord config
     \<or> \<not> flowQuota t \<or> nextResult t = NextDeadline"

definition stopsAfterAccept ::
  "externals \<Rightarrow> KafsarConfig \<Rightarrow> int \<Rightarrow> int \<Rightarrow> Message list \<Rightarrow> tick \<Rightarrow> bool" where
  "stopsAfterAccept ext config maxBytes minBytes ms t \<longleftrightarrow>
     (case nextResult t of
        NextMessage message \<Rightarrow>
          (bytesOf ext (ms @ [message]) > minBytes \<and> elapsedAfterRead t \<ge> MinFetchWaitMs config)
          \<or> bytesOf ext (ms @ [message]) > maxBytes
      | _ \<Rightarrow> False)"

definition leavesLoop ::
  "externals \<Rightarrow> KafsarConfig \<Rightarrow> int \<Rightarrow> int \<Rightarrow> int \<Rightarrow> Message list \<Rightarrow> tick \<Rightarrow> bool" where
  "leavesLoop ext config maxBytes minBytes maxWaitMs ms t \<longleftrightarrow>
     stopsBeforeRead config maxWaitMs ms t \<or> stopsAfterAccept ext config maxBytes minBytes ms t"

text \<open>The variables of the loop after the messages \<open>ms\<close> were taken in, one after the other.\<close>

fun acceptAll :: "externals \<Rightarrow> KafsarConfig \<Rightarrow> fetch_state \<Rightarrow> Message list \<Rightarrow> fetch_state" where
  "acceptAll ext config st [] = st"
| "acceptAll ext config st (message # ms) = acceptAll ext config (accept ext config st message) ms"

text \<open>
  The batch and the FIFO entries that a list of accepted messages makes: a record per
  message with its payload and its offset relative to the first message, and the pair
  of message id and converted offset.
\<close>

definition recordsFor :: "externals \<Rightarrow> KafsarConfig \<Rightarrow> Message list \<Rightarrow> KafkaRecord list" where
  "recordsFor ext config ms =
     map (\<lambda>message.
            \<lparr>Value = msgPayload message,
             RelativeOffset = wrap64 (convOffset ext message (ContinuousOffset config)
                                      - convOffset ext (hd ms) (ContinuousOffset config))\<rparr>) ms"

definition pairsFor :: "externals \<Rightarrow> KafsarConfig \<Rightarrow> Message list \<Rightarrow> MessageIdPair list" where
  "pairsFor ext config ms =
     map (\<lambda>message. \<lparr>MessageId = msgID message,
                      Offset = convOffset ext message (ContinuousOffset config)\<rparr>) ms"

subsection \<open>Produce\<close>

record ProduceRecord =
  pr_Key :: "bytes option"
  pr_Value :: bytes

record ProducePartitionResp =
  pp_PartitionId :: int
  pp_ErrorCode :: ErrorCode
  pp_Offset :: int
  pp_Time :: int
  pp_LogStartOffset :: int

datatype produce_outcome =
    Panics fault
  | NeverReturns
  | Returns ProducePartitionResp

definition getProducer ::
  "externals \<Rightarrow> Broker \<Rightarrow> string \<Rightarrow> string \<Rightarrow> string \<Rightarrow> Broker \<times> Producer option" where
  "getProducer ext b addr user topic =
     (case PulsarTopic ext user topic of
        None \<Rightarrow> (b, None)
      | Some pulsarTopic \<Rightarrow>
          (case fmlookup (producerManager b) addr of
             Some producer \<Rightarrow> (b, Some producer)
           | None \<Rightarrow>
               if CreateProducerFails ext pulsarTopic then (b, None)
               else (b\<lparr>producerManager := fmupd addr pulsarTopic (producerManager b)\<rparr>,
                     Some pulsarTopic)))"

text \<open>
  \<^verbatim>\<open>Produce\<close>. At line 140 the argument \<^verbatim>\<open>user.username\<close> of the log call is evaluated
  with \<^verbatim>\<open>user\<close> the \<^verbatim>\<open>nil\<close> that the map yields for a missing address. The callbacks of
  \<^verbatim>\<open>SendAsync\<close> are taken in the order of the sends: the last one sees the counter reach
  the batch size, converts its message id and signals the channel; with an empty batch
  no callback runs and the receive at line 173 never returns.
\<close>

definition Produce ::
  "externals \<Rightarrow> Broker \<Rightarrow> string \<Rightarrow> string \<Rightarrow> int \<Rightarrow> ProduceRecord list
   \<Rightarrow> Broker \<times> produce_outcome" where
  "Produce ext b addr kafkaTopic partitionId batch =
     (case fmlookup (userInfoManager b) addr of
        None \<Rightarrow> (b, Panics NilPointerDereference)
      | Some user \<Rightarrow>
          (case getProducer ext b addr (userUsername user) kafkaTopic of
             (b1, None) \<Rightarrow>
               (b1, Returns \<lparr>pp_PartitionId = 0, pp_ErrorCode = TOPIC_AUTHORIZATION_FAILED,
                             pp_Offset = 0, pp_Time = 0, pp_LogStartOffset = 0\<rparr>)
           | (b1, Some producer) \<Rightarrow>
               (case rev (map (\<lambda>kafkaMsg. SendAsync ext producer (pr_Value kafkaMsg)
                                            (pr_Key kafkaMsg)) batch) of
                  [] \<Rightarrow> (b1, NeverReturns)
                | lastId # _ \<Rightarrow>
                    (b1, Returns \<lparr>pp_PartitionId = partitionId, pp_ErrorCode = NONE,
                                  pp_Offset = ConvertMsgId ext lastId, pp_Time = - 1,
                                  pp_LogStartOffset = 0\<rparr>))))"

section \<open>The coordinator under overlapping calls\<close>

text \<open>
  Every request is served by a goroutine of its own, and no lock of the coordinator is
  held for the length of a handler: \<^verbatim>\<open>g.mutex\<close> guards the lookup in \<^verbatim>\<open>groupManager\<close>,
  and the locks of a group (\<^verbatim>\<open>groupStatusLock\<close>, \<^verbatim>\<open>groupMemberLock\<close>, \<^verbatim>\<open>groupLock\<close>,
  \<^verbatim>\<open>groupNewMemberLock\<close>) guard single accesses or short regions. So the calls on a group
  overlap. Here a call is a thread with a program counter and its local variables; it
  takes one step for each access to the group (one read, one write, or one locked
  region), and between two steps of a thread the other threads may take steps. An
  access is taken as atomic, also the few that the source makes without a lock
  (\<^verbatim>\<open>group.members[memberId]\<close>, \<^verbatim>\<open>len(group.members)\<close>, \<^verbatim>\<open>group.generationId\<close> in the
  answers), and a \<^verbatim>\<open>range\<close> over the member map reads the map at once. A waiting loop
  reads the clock once per iteration; whether the timeout has elapsed then is an input
  of the step. \<^verbatim>\<open>time.Sleep\<close> is no step.

  The member map holds pointers. A handler that has read \<^verbatim>\<open>group.members[memberId]\<close>
  keeps the pointer, and reads and writes the object through it also after the entry
  was deleted or replaced. So a group comes with the address of the object of each
  entry and with the objects that the map does not point to any more. Of the locks,
  \<^verbatim>\<open>groupNewMemberLock\<close> and \<^verbatim>\<open>groupLock\<close> are held over several steps; a thread that
  needs one of them while it is held does not move.
\<close>

record GroupCell =
  theGroup :: Group
  memberObject :: "(string, nat) fmap"
  detached :: "(nat, memberMetadata) fmap"
  allocated :: nat
  groupNewMemberLock :: bool
  groupLock :: bool

definition newCell :: "Group \<Rightarrow> GroupCell" where
  "newCell grp = \<lparr>theGroup = grp, memberObject = fmempty, detached = fmempty, allocated = 0,
                  groupNewMemberLock = False, groupLock = False\<rparr>"

definition onGroup :: "(Group \<Rightarrow> Group) \<Rightarrow> GroupCell \<Rightarrow> GroupCell" where
  "onGroup f c = c\<lparr>theGroup := f (theGroup c)\<rparr>"

text \<open>\<^verbatim>\<open>delete(group.members, memberId)\<close>: the object of the entry stays where it is.\<close>

definition removeMember :: "GroupCell \<Rightarrow> string \<Rightarrow> GroupCell" where
  "removeMember c mId =
     c\<lparr>theGroup := deleteMember (theGroup c) mId,
       memberObject := fmdrop mId (memberObject c),
       detached := (case (fmlookup (memberObject c) mId, fmlookup (members (theGroup c)) mId) of
                      (Some p, Some member) \<Rightarrow> fmupd p member (detached c)
                    | _ \<Rightarrow> detached c)\<rparr>"

text \<open>\<^verbatim>\<open>group.members[memberId] = &memberMetadata{...}\<close>: a new object.\<close>

definition insertMember :: "GroupCell \<Rightarrow> string \<Rightarrow> memberMetadata \<Rightarrow> GroupCell" where
  "insertMember c mId member =
     (let c1 = removeMember c mId
      in c1\<lparr>theGroup := (theGroup c1)\<lparr>members := fmupd mId member (members (theGroup c1))\<rparr>,
            memberObject := fmupd mId (allocated c1) (memberObject c1),
            allocated := Suc (allocated c1)\<rparr>)"

text \<open>
  The pointer that \<^verbatim>\<open>group.members[memberId]\<close> yields, the object behind a pointer read
  under that id, and a write to it.
\<close>

definition memberPointer :: "GroupCell \<Rightarrow> string \<Rightarrow> nat option" where
  "memberPointer c mId =
     (if fmlookup (members (theGroup c)) mId = None then None else fmlookup (memberObject c) mId)"

definition memberAt :: "GroupCell \<Rightarrow> string \<Rightarrow> nat option \<Rightarrow> memberMetadata option" where
  "memberAt c mId pointer =
     (case pointer of
        None \<Rightarrow> None
      | Some p \<Rightarrow> if fmlookup (memberObject c) mId = Some p
                  then fmlookup (members (theGroup c)) mId
                  else fmlookup (detached c) p)"

definition updateAt ::
  "GroupCell \<Rightarrow> string \<Rightarrow> nat option \<Rightarrow> (memberMetadata \<Rightarrow> memberMetadata) \<Rightarrow> GroupCell" where
  "updateAt c mId pointer f =
     (case pointer of
        None \<Rightarrow> c
      | Some p \<Rightarrow>
          if fmlookup (memberObject c) mId = Some p
          then (case fmlookup (members (theGroup c)) mId of
                  None \<Rightarrow> c
                | Some member \<Rightarrow>
                    onGroup (\<lambda>grp. grp\<lparr>members := fmupd mId (f member) (members grp)\<rparr>) c)
          else (case fmlookup (detached c) p of
                  None \<Rightarrow> c
                | Some member \<Rightarrow> c\<lparr>detached := fmupd p (f member) (detached c)\<rparr>))"

subsection \<open>A JoinGroup call, step by step\<close>

text \<open>
  The request, with the string that \<^verbatim>\<open>uuid.New()\<close> returns in this call, and the places
  of \<^verbatim>\<open>HandleJoinGroup\<close> and of the functions it calls at which a thread can be. The
  three branches on the group status (lines 99, 133 and 179) share the functions they
  call; the thread remembers its branch.
\<close>

record JoinGroupCall =
  jc_username :: string
  jc_groupId :: string
  jc_memberId :: string
  jc_clientId :: string
  jc_protocolType :: string
  jc_sessionTimeoutMs :: int
  jc_protocols :: "GroupProtocol list"
  jc_uuid :: string

datatype branch = OnPreparing | OnCompleting | OnStable

datatype rebalance_caller = FromAddMember | FromUpdateMember

datatype join_pc =
    JoinStart             \<comment> \<open>lines 47-70: the parameter check, the group found or made\<close>
  | ProtocolStatus1       \<comment> \<open>line 524, in \<^verbatim>\<open>joinGroupProtocolCheck\<close>\<close>
  | ProtocolStatus2       \<comment> \<open>line 534\<close>
  | MembersLen            \<comment> \<open>line 81\<close>
  | StatusDead            \<comment> \<open>line 91\<close>
  | StatusPreparing       \<comment> \<open>line 99\<close>
  | StatusCompleting      \<comment> \<open>line 133\<close>
  | StatusEmpty           \<comment> \<open>line 179, left of \<^verbatim>\<open>||\<close>\<close>
  | StatusStable          \<comment> \<open>line 179, right of \<^verbatim>\<open>||\<close>\<close>
  | MemberExist           \<comment> \<open>\<^verbatim>\<open>checkMemberExist\<close>, lines 100, 134, 180\<close>
  | IsLeader              \<comment> \<open>line 191\<close>
  | NewMemberLock         \<comment> \<open>line 658, \<^verbatim>\<open>addNewMemberAndReBalance\<close>\<close>
  | NewMemberLen          \<comment> \<open>line 659, left of \<^verbatim>\<open>&&\<close>\<close>
  | NewMemberStatus       \<comment> \<open>line 659, right of \<^verbatim>\<open>&&\<close>\<close>
  | WaitStableStatus      \<comment> \<open>line 459, \<^verbatim>\<open>awaitingRebalance\<close> called at line 661\<close>
  | WaitStableLen
  | WaitStableClock       \<comment> \<open>line 462\<close>
  | NewMemberFailed       \<comment> \<open>lines 664-668\<close>
  | VoteStatus            \<comment> \<open>lines 363-370, \<^verbatim>\<open>addMemberAndRebalance\<close>\<close>
  | Vote                  \<comment> \<open>lines 451-453\<close>
  | InsertProtocol        \<comment> \<open>line 377: \<^verbatim>\<open>group.supportedProtocol\<close> is read\<close>
  | InsertMember          \<comment> \<open>lines 373-381\<close>
  | RebalanceLock         \<comment> \<open>line 431, \<^verbatim>\<open>doRebalance\<close>\<close>
  | RebalancePrepare      \<comment> \<open>lines 432-434, or 444\<close>
  | RebalanceComplete     \<comment> \<open>line 437\<close>
  | RebalanceGeneration   \<comment> \<open>lines 438-441\<close>
  | WaitCompletingStatus  \<comment> \<open>line 459, \<^verbatim>\<open>awaitingRebalance\<close> called at line 445\<close>
  | WaitCompletingLen
  | WaitCompletingClock
  | NewMemberUnlock       \<comment> \<open>line 672\<close>
  | LeaderRead            \<comment> \<open>line 578, \<^verbatim>\<open>getLeaderMembers\<close>\<close>
  | LeaderSet             \<comment> \<open>line 579\<close>
  | LeaderIs              \<comment> \<open>line 581\<close>
  | LeaderCollect         \<comment> \<open>lines 582-584\<close>
  | JoinGeneration        \<comment> \<open>line 597, \<^verbatim>\<open>awaitingJoin\<close>\<close>
  | JoinMember            \<comment> \<open>line 598\<close>
  | JoinStore             \<comment> \<open>lines 602-606\<close>
  | JoinCheck             \<comment> \<open>line 607, \<^verbatim>\<open>checkJoinMemberGenerationId\<close>\<close>
  | JoinSetStatus         \<comment> \<open>line 608\<close>
  | JoinClock             \<comment> \<open>line 611\<close>
  | Evict wait_error      \<comment> \<open>\<^verbatim>\<open>deleteMember\<close> at lines 114, 161, 206\<close>
  | RespondGeneration     \<comment> \<open>\<^verbatim>\<open>group.generationId\<close> of the answer\<close>
  | RespondProtocol       \<comment> \<open>\<^verbatim>\<open>group.supportedProtocol\<close> of the answer\<close>
  | RespondLeader         \<comment> \<open>\<^verbatim>\<open>getMemberLeader\<close> of the answer\<close>
  | JoinDone "join_log option" "fault + JoinGroupResp"

record join_thread =
  j_call :: JoinGroupCall
  j_pc :: join_pc
  j_memberId :: string                  \<comment> \<open>the variable \<^verbatim>\<open>memberId\<close>\<close>
  j_branch :: branch
  j_rebalance :: rebalance_caller       \<comment> \<open>who called \<^verbatim>\<open>doRebalance\<close>\<close>
  j_err :: "wait_error option"          \<comment> \<open>the error of \<^verbatim>\<open>doRebalance\<close>\<close>
  j_metadata :: bytes                   \<comment> \<open>\<^verbatim>\<open>protocolMap[group.supportedProtocol]\<close>\<close>
  j_generation :: int                   \<comment> \<open>\<^verbatim>\<open>groupGenerationId\<close> in \<^verbatim>\<open>awaitingJoin\<close>\<close>
  j_curMember :: "nat option"           \<comment> \<open>\<^verbatim>\<open>curMember\<close> in \<^verbatim>\<open>awaitingJoin\<close>\<close>
  j_members :: "(string \<times> bytes) fset"  \<comment> \<open>\<^verbatim>\<open>members\<close>, from \<^verbatim>\<open>getLeaderMembers\<close>\<close>
  j_respGeneration :: int
  j_respProtocolName :: string

definition joinThread :: "JoinGroupCall \<Rightarrow> join_thread" where
  "joinThread call =
     \<lparr>j_call = call, j_pc = JoinStart, j_memberId = jc_memberId call, j_branch = OnStable,
      j_rebalance = FromAddMember, j_err = None, j_metadata = [], j_generation = 0,
      j_curMember = None, j_members = {||}, j_respGeneration = 0, j_respProtocolName = []\<rparr>"

definition joinKey :: "join_thread \<Rightarrow> string" where
  "joinKey t = jc_username (j_call t) @ jc_groupId (j_call t)"

text \<open>Line 98: \<^verbatim>\<open>isNewMember := memberId == EmptyMemberId\<close>, on the id of the request.\<close>

definition isNewMember :: "join_thread \<Rightarrow> bool" where
  "isNewMember t \<longleftrightarrow> jc_memberId (j_call t) = EmptyMemberId"

definition jump :: "join_pc \<Rightarrow> join_thread \<Rightarrow> join_thread" where
  "jump pc t = t\<lparr>j_pc := pc\<rparr>"

definition joinReturn :: "join_log option \<Rightarrow> ErrorCode \<Rightarrow> join_thread \<Rightarrow> join_thread" where
  "joinReturn log code t = t\<lparr>j_pc := JoinDone log (Inr (joinErrorResp (j_memberId t) code))\<rparr>"

text \<open>
  Where a thread goes on: into a branch (the test \<^verbatim>\<open>isNewMember || !checkMemberExist\<close>
  reads the map only for a caller with an id); after the admission step of its branch
  (the CompletingRebalance branch takes the member list first, line 156, the others
  wait at the barrier); after \<^verbatim>\<open>doRebalance\<close>; after the barrier; after
  \<^verbatim>\<open>getLeaderMembers\<close>.
\<close>

definition enterBranch :: "branch \<Rightarrow> join_thread \<Rightarrow> join_thread" where
  "enterBranch b t = t\<lparr>j_branch := b, j_pc := (if isNewMember t then NewMemberLock else MemberExist)\<rparr>"

definition admitted :: "join_thread \<Rightarrow> join_thread" where
  "admitted t = jump (case j_branch t of OnCompleting \<Rightarrow> LeaderRead | _ \<Rightarrow> JoinGeneration) t"

definition rebalanced :: "join_thread \<Rightarrow> join_thread" where
  "rebalanced t =
     (case j_rebalance t of
        FromAddMember \<Rightarrow> jump NewMemberUnlock t
      | FromUpdateMember \<Rightarrow>
          (case j_err t of
             Some e \<Rightarrow> joinReturn (Some (JoinFailedCause e)) COORDINATOR_LOAD_IN_PROGRESS t
           | None \<Rightarrow> admitted t))"

definition barrierFailed :: "wait_error \<Rightarrow> join_thread \<Rightarrow> join_thread" where
  "barrierFailed e t =
     (if isNewMember t then jump (Evict e) t
      else joinReturn (Some (JoinFailedCase e)) COORDINATOR_LOAD_IN_PROGRESS t)"

definition barrierPassed :: "join_thread \<Rightarrow> join_thread" where
  "barrierPassed t =
     jump (case j_branch t of OnCompleting \<Rightarrow> RespondGeneration | _ \<Rightarrow> LeaderRead) t"

definition leaderPicked :: "join_thread \<Rightarrow> join_thread" where
  "leaderPicked t =
     jump (case j_branch t of OnCompleting \<Rightarrow> JoinGeneration | _ \<Rightarrow> RespondGeneration) t"

text \<open>
  One step of a JoinGroup thread on its group, from each place. \<open>expired\<close> is the answer
  of the clock, used by the steps that read it.
\<close>

primrec joinAt ::
  "join_pc \<Rightarrow> KafsarConfig \<Rightarrow> bool \<Rightarrow> GroupCell \<Rightarrow> join_thread \<Rightarrow> GroupCell \<times> join_thread" where
  "joinAt JoinStart config expired c t = (c, t)"
| "joinAt ProtocolStatus1 config expired c t =
     (if groupStatus (theGroup c) \<noteq> Empty
         \<and> (protocolType (theGroup c) \<noteq> jc_protocolType (j_call t)
            \<or> \<not> supportsProtocols (jc_protocols (j_call t)))
      then (c, joinReturn (Some ProtocolCheckFailed) INCONSISTENT_GROUP_PROTOCOL t)
      else (c, jump ProtocolStatus2 t))"
| "joinAt ProtocolStatus2 config expired c t =
     (if groupStatus (theGroup c) = Empty
         \<and> (jc_protocolType (j_call t) = [] \<or> length (jc_protocols (j_call t)) = 0)
      then (c, joinReturn (Some ProtocolCheckFailed) INCONSISTENT_GROUP_PROTOCOL t)
      else (c, jump MembersLen t))"
| "joinAt MembersLen config expired c t =
     (if MaxConsumersPerGroup config > 0
         \<and> getGroupMembersLen (theGroup c) \<ge> MaxConsumersPerGroup config
      then (c, joinReturn (Some ExceedMaximumMembers) GROUP_MAX_SIZE_REACHED t)
      else (c, jump StatusDead t))"
| "joinAt StatusDead config expired c t =
     (if groupStatus (theGroup c) = Dead
      then (c, joinReturn (Some GroupStatusDead) UNKNOWN_MEMBER_ID t)
      else (c, jump StatusPreparing t))"
| "joinAt StatusPreparing config expired c t =
     (if groupStatus (theGroup c) = PreparingRebalance then (c, enterBranch OnPreparing t)
      else (c, jump StatusCompleting t))"
| "joinAt StatusCompleting config expired c t =
     (if groupStatus (theGroup c) = CompletingRebalance then (c, enterBranch OnCompleting t)
      else (c, jump StatusEmpty t))"
| "joinAt StatusEmpty config expired c t =
     (if groupStatus (theGroup c) = Empty then (c, enterBranch OnStable t)
      else (c, jump StatusStable t))"
| "joinAt StatusStable config expired c t =
     (if groupStatus (theGroup c) = Stable then (c, enterBranch OnStable t)
      else (c, joinReturn None UNKNOWN_SERVER_ERROR t))"
| "joinAt MemberExist config expired c t =
     (if \<not> checkMemberExist (theGroup c) (j_memberId t) then (c, jump NewMemberLock t)
      else case j_branch t of
             OnPreparing \<Rightarrow> (c, admitted t)
           | OnCompleting \<Rightarrow>
               if \<not> matchProtocols (jc_protocols (j_call t))
               then (c, jump RebalanceLock (t\<lparr>j_rebalance := FromUpdateMember, j_err := None\<rparr>))
               else (c, admitted t)
           | OnStable \<Rightarrow> (c, jump IsLeader t))"
| "joinAt IsLeader config expired c t =
     (if isMemberLeader (theGroup c) (j_memberId t) \<or> \<not> matchProtocols (jc_protocols (j_call t))
      then (c, jump RebalanceLock (t\<lparr>j_rebalance := FromUpdateMember, j_err := None\<rparr>))
      else (c, admitted t))"
| "joinAt NewMemberLock config expired c t =
     (if groupNewMemberLock c then (c, t)
      else (c\<lparr>groupNewMemberLock := True\<rparr>, jump NewMemberLen t))"
| "joinAt NewMemberLen config expired c t =
     (if getGroupMembersLen (theGroup c) > 0 then (c, jump NewMemberStatus t)
      else (c, jump VoteStatus t))"
| "joinAt NewMemberStatus config expired c t =
     (if groupStatus (theGroup c) \<noteq> Stable then (c, jump WaitStableStatus t)
      else (c, jump VoteStatus t))"
| "joinAt WaitStableStatus config expired c t =
     (if groupStatus (theGroup c) = Stable then (c, jump VoteStatus t)
      else (c, jump WaitStableLen t))"
| "joinAt WaitStableLen config expired c t =
     (if getGroupMembersLen (theGroup c) = 0 then (c, jump VoteStatus t)
      else (c, jump WaitStableClock t))"
| "joinAt WaitStableClock config expired c t =
     (if expired then (c, jump NewMemberFailed t) else (c, jump WaitStableStatus t))"
| "joinAt NewMemberFailed config expired c t =
     (c\<lparr>groupNewMemberLock := False\<rparr>,
      joinReturn (Some (JoinFailedCause RebalanceTimeout)) COORDINATOR_LOAD_IN_PROGRESS t)"
| "joinAt VoteStatus config expired c t =
     (let t1 = t\<lparr>j_memberId := (if j_memberId t = EmptyMemberId
                                 then jc_clientId (j_call t) @ ''-'' @ jc_uuid (j_call t)
                                 else j_memberId t)\<rparr>
      in if groupStatus (theGroup c) = Empty then (c, jump Vote t1)
         else (c, jump InsertProtocol t1))"
| "joinAt Vote config expired c t =
     (if groupLock c then (c, t)
      else case vote (theGroup c) (jc_protocols (j_call t)) of
             Inl f \<Rightarrow> (c\<lparr>groupLock := True\<rparr>, t\<lparr>j_pc := JoinDone None (Inl f)\<rparr>)
           | Inr grp \<Rightarrow> (c\<lparr>theGroup := grp\<rparr>, jump InsertProtocol t))"
| "joinAt InsertProtocol config expired c t =
     (c, jump InsertMember
           (t\<lparr>j_metadata :=
                 (case fmlookup (protocolMap (jc_protocols (j_call t)) fmempty)
                         (supportedProtocol (theGroup c)) of
                    None \<Rightarrow> [] | Some b \<Rightarrow> b)\<rparr>))"
| "joinAt InsertMember config expired c t =
     (insertMember c (j_memberId t)
        \<lparr>clientId = jc_clientId (j_call t), memberId = j_memberId t, metadata = j_metadata t,
         memberProtocolType = jc_protocolType (j_call t),
         protocols = protocolMap (jc_protocols (j_call t)) fmempty, assignment = [],
         joinGenerationId = 0, syncGenerationId = 0\<rparr>,
      jump RebalanceLock (t\<lparr>j_rebalance := FromAddMember, j_err := None\<rparr>))"
| "joinAt RebalanceLock config expired c t =
     (if groupLock c then (c, t) else (c\<lparr>groupLock := True\<rparr>, jump RebalancePrepare t))"
| "joinAt RebalancePrepare config expired c t =
     (let c1 = onGroup prepareRebalance c
      in if canRebalance (theGroup c1)
         then (onGroup (\<lambda>grp. grp\<lparr>canRebalance := False\<rparr>) c1, jump RebalanceComplete t)
         else (c1\<lparr>groupLock := False\<rparr>, jump WaitCompletingStatus t))"
| "joinAt RebalanceComplete config expired c t =
     (onGroup (\<lambda>grp. setGroupStatus grp CompletingRebalance) c, jump RebalanceGeneration t)"
| "joinAt RebalanceGeneration config expired c t =
     ((onGroup (\<lambda>grp. grp\<lparr>generationId := generationId grp + 1, canRebalance := True\<rparr>) c)
        \<lparr>groupLock := False\<rparr>,
      rebalanced (t\<lparr>j_err := None\<rparr>))"
| "joinAt WaitCompletingStatus config expired c t =
     (if groupStatus (theGroup c) = CompletingRebalance then (c, rebalanced (t\<lparr>j_err := None\<rparr>))
      else (c, jump WaitCompletingLen t))"
| "joinAt WaitCompletingLen config expired c t =
     (if getGroupMembersLen (theGroup c) = 0 then (c, rebalanced (t\<lparr>j_err := None\<rparr>))
      else (c, jump WaitCompletingClock t))"
| "joinAt WaitCompletingClock config expired c t =
     (if expired then (c, rebalanced (t\<lparr>j_err := Some RebalanceTimeout\<rparr>))
      else (c, jump WaitCompletingStatus t))"
| "joinAt NewMemberUnlock config expired c t =
     (c\<lparr>groupNewMemberLock := False\<rparr>,
      case j_err t of
        Some e \<Rightarrow> joinReturn (Some (JoinFailedCause e)) COORDINATOR_LOAD_IN_PROGRESS t
      | None \<Rightarrow> admitted t)"
| "joinAt LeaderRead config expired c t =
     (if leader (theGroup c) = [] then (c, jump LeaderSet t) else (c, jump LeaderIs t))"
| "joinAt LeaderSet config expired c t =
     (onGroup (\<lambda>grp. setMemberLeader grp (j_memberId t)) c, jump LeaderIs t)"
| "joinAt LeaderIs config expired c t =
     (if isMemberLeader (theGroup c) (j_memberId t) then (c, jump LeaderCollect t)
      else (c, leaderPicked (t\<lparr>j_members := {||}\<rparr>)))"
| "joinAt LeaderCollect config expired c t =
     (c, leaderPicked
           (t\<lparr>j_members := (\<lambda>member. (memberId member, metadata member))
                              |`| fmran (members (theGroup c))\<rparr>))"
| "joinAt JoinGeneration config expired c t =
     (if groupLock c then (c, t)
      else (c, jump JoinMember (t\<lparr>j_generation := generationId (theGroup c)\<rparr>)))"
| "joinAt JoinMember config expired c t =
     (if fmlookup (members (theGroup c)) (j_memberId t) = None
      then (c, barrierFailed CurMemberMissing t)
      else (c, jump JoinStore (t\<lparr>j_curMember := memberPointer c (j_memberId t)\<rparr>)))"
| "joinAt JoinStore config expired c t =
     (updateAt c (j_memberId t) (j_curMember t)
        (\<lambda>member. if joinGenerationId member \<noteq> j_generation t
                   then member\<lparr>joinGenerationId := j_generation t\<rparr> else member),
      jump JoinCheck t)"
| "joinAt JoinCheck config expired c t =
     (if members (theGroup c) = fmempty then (c, jump JoinSetStatus t)
      else if groupLock c then (c, t)
      else if checkJoinMemberGenerationId (theGroup c) then (c, jump JoinSetStatus t)
      else (c, jump JoinClock t))"
| "joinAt JoinSetStatus config expired c t =
     (onGroup (\<lambda>grp. setGroupStatus grp CompletingRebalance) c, barrierPassed t)"
| "joinAt JoinClock config expired c t =
     (if expired then (c, barrierFailed JoinWaitTimeout t) else (c, jump JoinGeneration t))"
| "joinAt (Evict e) config expired c t =
     (removeMember c (j_memberId t),
      joinReturn (Some (JoinFailedCase e)) COORDINATOR_LOAD_IN_PROGRESS t)"
| "joinAt RespondGeneration config expired c t =
     (c, jump RespondProtocol (t\<lparr>j_respGeneration := generationId (theGroup c)\<rparr>))"
| "joinAt RespondProtocol config expired c t =
     (c, jump RespondLeader (t\<lparr>j_respProtocolName := supportedProtocol (theGroup c)\<rparr>))"
| "joinAt RespondLeader config expired c t =
     (c, t\<lparr>j_pc := JoinDone None
                     (Inr \<lparr>jg_ErrorCode = NONE, jg_GenerationId = j_respGeneration t,
                           jg_ProtocolType = Some (protocolType (theGroup c)),
                           jg_ProtocolName = j_respProtocolName t,
                           jg_LeaderId = leader (theGroup c), jg_MemberId = j_memberId t,
                           jg_Members = j_members t\<rparr>)\<rparr>)"
| "joinAt (JoinDone log out) config expired c t = (c, t)"

text \<open>
  The first step (lines 47-70): the parameters are checked, and under \<^verbatim>\<open>g.mutex\<close> the
  group is looked up and, when there is none, made.
\<close>

definition joinStart ::
  "KafsarConfig \<Rightarrow> (string, GroupCell) fmap \<Rightarrow> join_thread
   \<Rightarrow> (string, GroupCell) fmap \<times> join_thread" where
  "joinStart config groups t =
     (case joinGroupParamsCheck (jc_clientId (j_call t)) (jc_groupId (j_call t))
             (jc_memberId (j_call t)) (jc_sessionTimeoutMs (j_call t)) config of
        (mId1, code, True) \<Rightarrow>
          (groups, t\<lparr>j_pc := JoinDone (Some ParamsCheckFailed) (Inr (joinErrorResp mId1 code))\<rparr>)
      | (mId1, code, False) \<Rightarrow>
          ((case fmlookup groups (joinKey t) of
              Some c \<Rightarrow> groups
            | None \<Rightarrow>
                fmupd (joinKey t)
                  (newCell (newGroup (jc_groupId (j_call t)) (jc_protocolType (j_call t))
                              (jc_sessionTimeoutMs (j_call t))))
                  groups),
           t\<lparr>j_memberId := mId1, j_pc := ProtocolStatus1\<rparr>))"

definition joinFinished :: "join_thread \<Rightarrow> bool" where
  "joinFinished t = (case j_pc t of JoinDone log out \<Rightarrow> True | _ \<Rightarrow> False)"

definition joinStep ::
  "KafsarConfig \<Rightarrow> bool \<Rightarrow> (string, GroupCell) fmap \<Rightarrow> join_thread
   \<Rightarrow> (string, GroupCell) fmap \<times> join_thread" where
  "joinStep config expired groups t =
     (if j_pc t = JoinStart then joinStart config groups t
      else case fmlookup groups (joinKey t) of
             None \<Rightarrow> (groups, t)
           | Some c \<Rightarrow>
               (case joinAt (j_pc t) config expired c t of
                  (c1, t1) \<Rightarrow> (fmupd (joinKey t) c1 groups, t1)))"

text \<open>
  A JoinGroup call among other callers, whoever they are: before each step of the
  thread the others change the groups in some way. The run ends when the thread has
  returned; its result is the groups right after the last step of the thread, and the
  thread.
\<close>

fun joinRun ::
  "KafsarConfig \<Rightarrow> (bool \<times> ((string, GroupCell) fmap \<Rightarrow> (string, GroupCell) fmap)) list
   \<Rightarrow> (string, GroupCell) fmap \<Rightarrow> join_thread \<Rightarrow> (string, GroupCell) fmap \<times> join_thread" where
  "joinRun config [] groups t = (groups, t)"
| "joinRun config ((expired, others) # rest) groups t =
     (if joinFinished t then (groups, t)
      else case joinStep config expired (others groups) t of
             (groups1, t1) \<Rightarrow> joinRun config rest groups1 t1)"

subsection \<open>A SyncGroup call, step by step\<close>

record SyncGroupCall =
  sc_username :: string
  sc_groupId :: string
  sc_memberId :: string
  sc_generation :: int
  sc_groupAssignments :: "GroupAssignment list"

datatype sync_pc =
    SyncStart             \<comment> \<open>lines 232-245\<close>
  | SyncMember            \<comment> \<open>line 246\<close>
  | SyncEmpty             \<comment> \<open>line 255, left of \<^verbatim>\<open>||\<close>\<close>
  | SyncDead              \<comment> \<open>line 255, right of \<^verbatim>\<open>||\<close>\<close>
  | SyncPreparing         \<comment> \<open>line 262\<close>
  | SyncCompleting        \<comment> \<open>line 268\<close>
  | SyncIsLeader1         \<comment> \<open>line 270\<close>
  | SyncAssign            \<comment> \<open>line 273, one assignment\<close>
  | SyncStore             \<comment> \<open>lines 276-278\<close>
  | SyncCheck             \<comment> \<open>line 634, \<^verbatim>\<open>awaitingSync\<close>\<close>
  | SyncClock             \<comment> \<open>line 637\<close>
  | SyncIsLeader2         \<comment> \<open>line 280\<close>
  | SyncSetStable1        \<comment> \<open>line 281\<close>
  | SyncReadAssignment    \<comment> \<open>lines 283-285\<close>
  | SyncIsLeader3         \<comment> \<open>line 293\<close>
  | SyncSetStable2        \<comment> \<open>line 294\<close>
  | SyncStable            \<comment> \<open>line 304\<close>
  | SyncStableRead        \<comment> \<open>line 307\<close>
  | SyncDone "fault + SyncGroupResp"

record sync_thread =
  s_call :: SyncGroupCall
  s_pc :: sync_pc
  s_curMember :: "nat option"            \<comment> \<open>\<^verbatim>\<open>curMember\<close>\<close>
  s_pending :: "GroupAssignment list"    \<comment> \<open>the assignments the loop has not stored yet\<close>
  s_err :: "wait_error option"           \<comment> \<open>the error of \<^verbatim>\<open>awaitingSync\<close>\<close>
  s_assignment :: bytes                  \<comment> \<open>\<^verbatim>\<open>curMemberAssignment\<close>\<close>

definition syncThread :: "SyncGroupCall \<Rightarrow> sync_thread" where
  "syncThread call =
     \<lparr>s_call = call, s_pc = SyncStart, s_curMember = None, s_pending = [], s_err = None,
      s_assignment = []\<rparr>"

definition syncKey :: "sync_thread \<Rightarrow> string" where
  "syncKey t = sc_username (s_call t) @ sc_groupId (s_call t)"

definition syncJump :: "sync_pc \<Rightarrow> sync_thread \<Rightarrow> sync_thread" where
  "syncJump pc t = t\<lparr>s_pc := pc\<rparr>"

definition syncReturn :: "ErrorCode \<Rightarrow> bytes \<Rightarrow> sync_thread \<Rightarrow> sync_thread" where
  "syncReturn code a t =
     t\<lparr>s_pc := SyncDone (Inr \<lparr>sg_ErrorCode = code, sg_MemberAssignment = a\<rparr>)\<rparr>"

text \<open>\<^verbatim>\<open>curMember.assignment\<close>, read through the pointer of line 246.\<close>

definition curMemberAssignment :: "GroupCell \<Rightarrow> sync_thread \<Rightarrow> bytes" where
  "curMemberAssignment c t =
     (case memberAt c (sc_memberId (s_call t)) (s_curMember t) of
        None \<Rightarrow> [] | Some member \<Rightarrow> assignment member)"

primrec syncAt :: "sync_pc \<Rightarrow> bool \<Rightarrow> GroupCell \<Rightarrow> sync_thread \<Rightarrow> GroupCell \<times> sync_thread" where
  "syncAt SyncStart expired c t = (c, t)"
| "syncAt SyncMember expired c t =
     (if fmlookup (members (theGroup c)) (sc_memberId (s_call t)) = None
      then (c, syncReturn UNKNOWN_MEMBER_ID [] t)
      else (c, syncJump SyncEmpty (t\<lparr>s_curMember := memberPointer c (sc_memberId (s_call t))\<rparr>)))"
| "syncAt SyncEmpty expired c t =
     (if groupStatus (theGroup c) = Empty then (c, syncReturn UNKNOWN_MEMBER_ID [] t)
      else (c, syncJump SyncDead t))"
| "syncAt SyncDead expired c t =
     (if groupStatus (theGroup c) = Dead then (c, syncReturn UNKNOWN_MEMBER_ID [] t)
      else (c, syncJump SyncPreparing t))"
| "syncAt SyncPreparing expired c t =
     (if groupStatus (theGroup c) = PreparingRebalance
      then (c, syncReturn REBALANCE_IN_PROGRESS [] t)
      else (c, syncJump SyncCompleting t))"
| "syncAt SyncCompleting expired c t =
     (if groupStatus (theGroup c) = CompletingRebalance then (c, syncJump SyncIsLeader1 t)
      else (c, syncJump SyncStable t))"
| "syncAt SyncIsLeader1 expired c t =
     (if isMemberLeader (theGroup c) (sc_memberId (s_call t))
         \<and> sc_groupAssignments (s_call t) \<noteq> []
      then (c, syncJump SyncAssign (t\<lparr>s_pending := sc_groupAssignments (s_call t)\<rparr>))
      else (c, syncJump SyncStore t))"
| "syncAt SyncAssign expired c t =
     (case s_pending t of
        [] \<Rightarrow> (c, syncJump SyncStore t)
      | a # as \<Rightarrow>
          (case fmlookup (members (theGroup c)) (ga_MemberId a) of
             None \<Rightarrow> (c, t\<lparr>s_pc := SyncDone (Inl NilPointerDereference)\<rparr>)
           | Some member \<Rightarrow>
               (onGroup (\<lambda>grp. grp\<lparr>members :=
                           fmupd (ga_MemberId a) (member\<lparr>assignment := ga_MemberAssignment a\<rparr>)
                             (members grp)\<rparr>) c,
                syncJump (if as = [] then SyncStore else SyncAssign) (t\<lparr>s_pending := as\<rparr>))))"
| "syncAt SyncStore expired c t =
     (updateAt c (sc_memberId (s_call t)) (s_curMember t)
        (\<lambda>member. member\<lparr>syncGenerationId := joinGenerationId member\<rparr>),
      syncJump SyncCheck t)"
| "syncAt SyncCheck expired c t =
     (if checkSyncMemberGenerationId (theGroup c)
      then (c, syncJump SyncIsLeader2 (t\<lparr>s_err := None\<rparr>))
      else (c, syncJump SyncClock t))"
| "syncAt SyncClock expired c t =
     (if expired then (c, syncJump SyncIsLeader2 (t\<lparr>s_err := Some SyncWaitTimeout\<rparr>))
      else (c, syncJump SyncCheck t))"
| "syncAt SyncIsLeader2 expired c t =
     (if isMemberLeader (theGroup c) (sc_memberId (s_call t)) then (c, syncJump SyncSetStable1 t)
      else (c, syncJump SyncReadAssignment t))"
| "syncAt SyncSetStable1 expired c t =
     (onGroup (\<lambda>grp. setGroupStatus grp Stable) c, syncJump SyncReadAssignment t)"
| "syncAt SyncReadAssignment expired c t =
     (case s_err t of
        Some e \<Rightarrow> (c, syncReturn REBALANCE_IN_PROGRESS (curMemberAssignment c t) t)
      | None \<Rightarrow> (c, syncJump SyncIsLeader3 (t\<lparr>s_assignment := curMemberAssignment c t\<rparr>)))"
| "syncAt SyncIsLeader3 expired c t =
     (if isMemberLeader (theGroup c) (sc_memberId (s_call t)) then (c, syncJump SyncSetStable2 t)
      else (c, syncReturn NONE (s_assignment t) t))"
| "syncAt SyncSetStable2 expired c t =
     (onGroup (\<lambda>grp. setGroupStatus grp Stable) c, syncReturn NONE (s_assignment t) t)"
| "syncAt SyncStable expired c t =
     (if groupStatus (theGroup c) = Stable then (c, syncJump SyncStableRead t)
      else (c, syncReturn UNKNOWN_SERVER_ERROR [] t))"
| "syncAt SyncStableRead expired c t = (c, syncReturn NONE (curMemberAssignment c t) t)"
| "syncAt (SyncDone out) expired c t = (c, t)"

definition syncStart ::
  "(string, GroupCell) fmap \<Rightarrow> sync_thread \<Rightarrow> (string, GroupCell) fmap \<times> sync_thread" where
  "syncStart groups t =
     (case syncGroupParamsCheck (sc_groupId (s_call t)) (sc_memberId (s_call t)) of
        (code, True) \<Rightarrow> (groups, syncReturn code [] t)
      | (code, False) \<Rightarrow>
          (case fmlookup groups (syncKey t) of
             None \<Rightarrow> (groups, syncReturn INVALID_GROUP_ID [] t)
           | Some c \<Rightarrow> (groups, syncJump SyncMember t)))"

definition syncStep ::
  "bool \<Rightarrow> (string, GroupCell) fmap \<Rightarrow> sync_thread \<Rightarrow> (string, GroupCell) fmap \<times> sync_thread" where
  "syncStep expired groups t =
     (if s_pc t = SyncStart then syncStart groups t
      else case fmlookup groups (syncKey t) of
             None \<Rightarrow> (groups, t)
           | Some c \<Rightarrow>
               (case syncAt (s_pc t) expired c t of
                  (c1, t1) \<Rightarrow> (fmupd (syncKey t) c1 groups, t1)))"

subsection \<open>A LeaveGroup call, step by step\<close>

record LeaveGroupCall =
  lc_username :: string
  lc_groupId :: string
  lc_members :: "LeaveGroupMember list"

datatype leave_pc =
    LeaveStart            \<comment> \<open>lines 318-332\<close>
  | LeaveLeader           \<comment> \<open>line 334\<close>
  | LeaveClear            \<comment> \<open>line 335\<close>
  | LeaveDelete           \<comment> \<open>line 337\<close>
  | LeaveGeneration       \<comment> \<open>lines 340-342\<close>
  | LeaveLen              \<comment> \<open>line 343\<close>
  | LeaveSetEmpty         \<comment> \<open>line 344\<close>
  | LeaveSetPreparing     \<comment> \<open>line 347\<close>
  | LeaveDone LeaveGroupResp

record leave_thread =
  l_call :: LeaveGroupCall
  l_pc :: leave_pc
  l_pending :: "LeaveGroupMember list"   \<comment> \<open>the members the loop has not removed yet\<close>

definition leaveThread :: "LeaveGroupCall \<Rightarrow> leave_thread" where
  "leaveThread call = \<lparr>l_call = call, l_pc = LeaveStart, l_pending = []\<rparr>"

definition leaveKey :: "leave_thread \<Rightarrow> string" where
  "leaveKey t = lc_username (l_call t) @ lc_groupId (l_call t)"

definition leaveJump :: "leave_pc \<Rightarrow> leave_thread \<Rightarrow> leave_thread" where
  "leaveJump pc t = t\<lparr>l_pc := pc\<rparr>"

primrec leaveAt :: "leave_pc \<Rightarrow> GroupCell \<Rightarrow> leave_thread \<Rightarrow> GroupCell \<times> leave_thread" where
  "leaveAt LeaveStart c t = (c, t)"
| "leaveAt LeaveLeader c t =
     (case l_pending t of
        [] \<Rightarrow> (c, leaveJump LeaveGeneration t)
      | m # ms \<Rightarrow>
          if lm_MemberId m = leader (theGroup c) then (c, leaveJump LeaveClear t)
          else (c, leaveJump LeaveDelete t))"
| "leaveAt LeaveClear c t =
     (onGroup (\<lambda>grp. setMemberLeader grp []) c, leaveJump LeaveDelete t)"
| "leaveAt LeaveDelete c t =
     (case l_pending t of
        [] \<Rightarrow> (c, leaveJump LeaveGeneration t)
      | m # ms \<Rightarrow>
          (removeMember c (lm_MemberId m),
           leaveJump (if ms = [] then LeaveGeneration else LeaveLeader) (t\<lparr>l_pending := ms\<rparr>)))"
| "leaveAt LeaveGeneration c t =
     (if groupLock c then (c, t)
      else (onGroup (\<lambda>grp. grp\<lparr>generationId := generationId grp + 1\<rparr>) c, leaveJump LeaveLen t))"
| "leaveAt LeaveLen c t =
     (if fcard (fmdom (members (theGroup c))) = 0 then (c, leaveJump LeaveSetEmpty t)
      else (c, leaveJump LeaveSetPreparing t))"
| "leaveAt LeaveSetEmpty c t =
     (onGroup (\<lambda>grp. setGroupStatus grp Empty) c,
      t\<lparr>l_pc := LeaveDone \<lparr>lg_ErrorCode = NONE, lg_Members = lc_members (l_call t)\<rparr>\<rparr>)"
| "leaveAt LeaveSetPreparing c t =
     (onGroup (\<lambda>grp. setGroupStatus grp PreparingRebalance) c,
      t\<lparr>l_pc := LeaveDone \<lparr>lg_ErrorCode = NONE, lg_Members = lc_members (l_call t)\<rparr>\<rparr>)"
| "leaveAt (LeaveDone out) c t = (c, t)"

definition leaveStart ::
  "(string, GroupCell) fmap \<Rightarrow> leave_thread \<Rightarrow> (string, GroupCell) fmap \<times> leave_thread" where
  "leaveStart groups t =
     (if lc_groupId (l_call t) = []
      then (groups, t\<lparr>l_pc := LeaveDone \<lparr>lg_ErrorCode = INVALID_GROUP_ID, lg_Members = []\<rparr>\<rparr>)
      else case fmlookup groups (leaveKey t) of
             None \<Rightarrow>
               (groups, t\<lparr>l_pc := LeaveDone \<lparr>lg_ErrorCode = INVALID_GROUP_ID, lg_Members = []\<rparr>\<rparr>)
           | Some c \<Rightarrow>
               (groups,
                leaveJump (if lc_members (l_call t) = [] then LeaveGeneration else LeaveLeader)
                  (t\<lparr>l_pending := lc_members (l_call t)\<rparr>)))"

definition leaveStep ::
  "(string, GroupCell) fmap \<Rightarrow> leave_thread \<Rightarrow> (string, GroupCell) fmap \<times> leave_thread" where
  "leaveStep groups t =
     (if l_pc t = LeaveStart then leaveStart groups t
      else case fmlookup groups (leaveKey t) of
             None \<Rightarrow> (groups, t)
           | Some c \<Rightarrow>
               (case leaveAt (l_pc t) c t of
                  (c1, t1) \<Rightarrow> (fmupd (leaveKey t) c1 groups, t1)))"

subsection \<open>The callers together\<close>

text \<open>
  The coordinator with the calls in flight. A schedule says which thread takes the next
  step, with the answer of the clock for that step. \<^verbatim>\<open>HandleHeartBeat\<close> only reads and
  is left out.
\<close>

datatype thread = Joining join_thread | Syncing sync_thread | Leaving leave_thread

fun threadStep ::
  "KafsarConfig \<Rightarrow> bool \<Rightarrow> (string, GroupCell) fmap \<Rightarrow> thread
   \<Rightarrow> (string, GroupCell) fmap \<times> thread" where
  "threadStep config expired groups (Joining t) =
     (case joinStep config expired groups t of (groups1, t1) \<Rightarrow> (groups1, Joining t1))"
| "threadStep config expired groups (Syncing t) =
     (case syncStep expired groups t of (groups1, t1) \<Rightarrow> (groups1, Syncing t1))"
| "threadStep config expired groups (Leaving t) =
     (case leaveStep groups t of (groups1, t1) \<Rightarrow> (groups1, Leaving t1))"

fun schedule ::
  "KafsarConfig \<Rightarrow> (nat \<times> bool) list \<Rightarrow> (string, GroupCell) fmap \<times> thread list
   \<Rightarrow> (string, GroupCell) fmap \<times> thread list" where
  "schedule config [] system = system"
| "schedule config ((i, expired) # turns) (groups, threads) =
     (if i < length threads
      then case threadStep config expired groups (threads ! i) of
             (groups1, t1) \<Rightarrow> schedule config turns (groups1, threads[i := t1])
      else schedule config turns (groups, threads))"

text \<open>The coordinator that the groups make, and what a thread has answered.\<close>

definition coordinatorOf :: "KafsarConfig \<Rightarrow> (string, GroupCell) fmap \<Rightarrow> GroupCoordinatorStandalone" where
  "coordinatorOf config groups = \<lparr>kafsarConfig = config, groupManager = fmmap theGroup groups\<rparr>"

datatype answer =
    Running
  | JoinAnswer "fault + JoinGroupResp"
  | SyncAnswer "fault + SyncGroupResp"
  | LeaveAnswer LeaveGroupResp

fun answerOf :: "thread \<Rightarrow> answer" where
  "answerOf (Joining t) = (case j_pc t of JoinDone log out \<Rightarrow> JoinAnswer out | _ \<Rightarrow> Running)"
| "answerOf (Syncing t) = (case s_pc t of SyncDone out \<Rightarrow> SyncAnswer out | _ \<Rightarrow> Running)"
| "answerOf (Leaving t) = (case l_pc t of LeaveDone out \<Rightarrow> LeaveAnswer out | _ \<Rightarrow> Running)"

text \<open>The place at which a JoinGroup thread is.\<close>

fun joinPlace :: "thread \<Rightarrow> join_pc option" where
  "joinPlace (Joining t) = Some (j_pc t)"
| "joinPlace (Syncing t) = None"
| "joinPlace (Leaving t) = None"

subsection \<open>The id of a caller with the empty member id\<close>

text \<open>
  A caller with the empty member id goes through \<^verbatim>\<open>addNewMemberAndReBalance\<close> in every
  branch and gets its id, \<^verbatim>\<open>clientId-uuid\<close>, at line 364. These are the places of such a
  thread before that line; at the other places, until it has answered, the variable
  \<^verbatim>\<open>memberId\<close> holds the generated id.
\<close>

definition beforeNewId :: "join_pc \<Rightarrow> bool" where
  "beforeNewId pc \<longleftrightarrow>
     pc \<in> {JoinStart, ProtocolStatus1, ProtocolStatus2, MembersLen, StatusDead, StatusPreparing,
           StatusCompleting, StatusEmpty, StatusStable, NewMemberLock, NewMemberLen,
           NewMemberStatus, WaitStableStatus, WaitStableLen, WaitStableClock, NewMemberFailed,
           VoteStatus}"

definition newIdInv :: "join_thread \<Rightarrow> bool" where
  "newIdInv t \<longleftrightarrow>
     j_pc t \<noteq> MemberExist \<and> j_pc t \<noteq> IsLeader
     \<and> (if beforeNewId (j_pc t) then j_memberId t = EmptyMemberId
         else joinFinished t
              \<or> j_memberId t = jc_clientId (j_call t) @ ''-'' @ jc_uuid (j_call t))"

section \<open>Concrete configurations and states\<close>

text \<open>
  The configuration of the spec's first scenario (minimum and maximum session timeout
  6000 and 30000 ms), a fresh coordinator, the coordinator after a first member has joined
  group \<^verbatim>\<open>g\<close> of user \<^verbatim>\<open>usr\<close>, and after that member, the leader, has synced.
\<close>

definition config0 :: KafsarConfig where
  "config0 = \<lparr>GroupMinSessionTimeoutMs = 6000, GroupMaxSessionTimeoutMs = 30000,
     MaxConsumersPerGroup = 0, RebalanceTickMs = 50, InitialDelayedJoinMs = 500,
     MaxFetchRecord = 10, MinFetchWaitMs = 100, MaxFetchWaitMs = 500,
     ContinuousOffset = False\<rparr>"

definition runtime0 :: "string \<Rightarrow> runtime" where
  "runtime0 u = \<lparr>uuid = u, newMemberPolls = 2, rebalancePolls = 2, joinPolls = 2, syncPolls = 2\<rparr>"

definition range1 :: "GroupProtocol list" where
  "range1 = [\<lparr>ProtocolName = ''range'', ProtocolMetadata = [1]\<rparr>]"

definition coordinator0 :: GroupCoordinatorStandalone where
  "coordinator0 = NewGroupCoordinatorStandalone config0"

definition coordinator1 :: GroupCoordinatorStandalone where
  "coordinator1 = fst (HandleJoinGroup coordinator0 (runtime0 ''u1'') ''usr'' ''g'' [] ''c''
                        ''consumer'' 10000 range1)"

definition coordinator2 :: GroupCoordinatorStandalone where
  "coordinator2 = fst (HandleSyncGroup coordinator1 (runtime0 ''u1'') ''usr'' ''g'' ''c-u1'' 1
                        [\<lparr>ga_MemberId = ''c-u1'', ga_MemberAssignment = [7]\<rparr>])"

text \<open>
  A sequence of calls on the fresh coordinator: the first member joins and syncs, a
  second new member joins and is evicted when its join barrier times out (the first
  member does not rejoin), then the first member leaves.
\<close>

definition calls0 :: "(runtime \<times> request) list" where
  "calls0 =
     [(runtime0 ''u1'', JoinGroup ''usr'' ''g'' [] ''c'' ''consumer'' 10000 range1),
      (runtime0 ''u1'', SyncGroup ''usr'' ''g'' ''c-u1'' 1
                          [\<lparr>ga_MemberId = ''c-u1'', ga_MemberAssignment = [7]\<rparr>]),
      (runtime0 ''u2'', JoinGroup ''usr'' ''g'' [] ''c'' ''consumer'' 10000 range1)]"

definition leave1 :: "LeaveGroupMember list" where
  "leave1 = [\<lparr>lm_MemberId = ''c-u1'', lm_GroupInstanceId = None\<rparr>]"

definition group1 :: Group where
  "group1 = \<lparr>groupId = ''g'', groupStatus = CompletingRebalance, protocolType = ''consumer'',
           supportedProtocol = ''range'', generationId = 1, leader = ''c-u1'',
           members = fmupd ''c-u1''
             \<lparr>clientId = ''c'', memberId = ''c-u1'', metadata = [1],
              memberProtocolType = ''consumer'',
              protocols = fmupd ''range'' [1] fmempty, assignment = [],
              joinGenerationId = 1, syncGenerationId = 0\<rparr> fmempty,
           canRebalance = True, sessionTimeoutMs = 10000, partitionedTopic = []\<rparr>"

definition group2 :: Group where
  "group2 = \<lparr>groupId = ''g'', groupStatus = Stable, protocolType = ''consumer'',
           supportedProtocol = ''range'', generationId = 1, leader = ''c-u1'',
           members = fmupd ''c-u1''
             \<lparr>clientId = ''c'', memberId = ''c-u1'', metadata = [1],
              memberProtocolType = ''consumer'',
              protocols = fmupd ''range'' [1] fmempty, assignment = [7],
              joinGenerationId = 1, syncGenerationId = 1\<rparr> fmempty,
           canRebalance = True, sessionTimeoutMs = 10000, partitionedTopic = []\<rparr>"



text \<open>A coordinator that holds one group, under the key of user \<^verbatim>\<open>usr\<close> and group \<^verbatim>\<open>g\<close>.\<close>

definition coordinatorWith :: "Group \<Rightarrow> GroupCoordinatorStandalone" where
  "coordinatorWith grp = \<lparr>kafsarConfig = config0, groupManager = fmupd ''usrg'' grp fmempty\<rparr>"

definition assign1 :: "GroupAssignment list" where
  "assign1 = [\<lparr>ga_MemberId = ''c-u1'', ga_MemberAssignment = [7]\<rparr>]"

definition assignGhost :: "GroupAssignment list" where
  "assignGhost = [\<lparr>ga_MemberId = ''ghost'', ga_MemberAssignment = [7]\<rparr>]"

text \<open>
  A broker: the hooks of the integration test (\<^verbatim>\<open>ItKafsaImpl\<close>) for the topic name, one
  authenticated connection of user \<^verbatim>\<open>usr\<close>, and a reader of client \<^verbatim>\<open>c\<close> on partition 0 of
  topic \<^verbatim>\<open>t\<close> whose FIFO holds the offsets 3, 5 and 7.
\<close>

definition externals0 :: externals where
  "externals0 =
     \<lparr>PulsarTopic = (\<lambda>user topic. Some (''persistent://public/default/'' @ topic)),
      PartitionSuffix = (\<lambda>partitionId. ''-partition-0''),
      convOffset = (\<lambda>message continuous. int (msgID message)),
      ConvertMsgId = int,
      CalculateMsgLength = (\<lambda>message. int (length (msgPayload message))),
      CreateProducerFails = (\<lambda>topic. False),
      SendAsync = (\<lambda>producer payload key. length payload),
      CommitOffsetFails = (\<lambda>c. False)\<rparr>"

definition externalsCommitFails :: externals where
  "externalsCommitFails = externals0\<lparr>CommitOffsetFails := (\<lambda>c. True)\<rparr>"

definition reader0 :: ReaderMetadata where
  "reader0 = \<lparr>readerGroupId = ''g'',
              messageIds = [\<lparr>MessageId = 1, Offset = 3\<rparr>, \<lparr>MessageId = 2, Offset = 5\<rparr>,
                            \<lparr>MessageId = 3, Offset = 7\<rparr>]\<rparr>"

definition broker0 :: Broker where
  "broker0 =
     \<lparr>brokerConfig = config0, groupCoordinator = coordinatorWith group2,
      userInfoManager = fmupd ''10.0.0.1:4000'' \<lparr>userUsername = ''usr'', userClientId = ''c''\<rparr> fmempty,
      readerManager = fmupd ''persistent://public/default/t-partition-0c'' reader0 fmempty,
      topicGroupManager = fmupd ''persistent://public/default/t-partition-0'' ''g'' fmempty,
      producerManager = fmempty,
      offsetManager = []\<rparr>"

definition commitReq5 :: OffsetCommitPartitionReq where
  "commitReq5 = \<lparr>oc_PartitionId = 0, oc_Offset = 5\<rparr>"

text \<open>
  Two iterations of the read loop of that reader, with \<^verbatim>\<open>minBytes\<close> 1, \<^verbatim>\<open>maxBytes\<close> 1000
  and a wait of at most 500 ms (\<^verbatim>\<open>MinFetchWaitMs\<close> is 100): a message of three bytes
  arrives after 10 ms; the loop is back at its head at once and waits in the read
  until the next message arrives after 300 ms.
\<close>

definition message1 :: Message where
  "message1 = \<lparr>msgID = 11, msgPayload = [1, 2, 3], msgKey = None\<rparr>"

definition message2 :: Message where
  "message2 = \<lparr>msgID = 12, msgPayload = [4], msgKey = None\<rparr>"

definition ticks0 :: "tick list" where
  "ticks0 =
     [\<lparr>elapsedAtHead = 0, flowQuota = True, nextResult = NextMessage message1,
       elapsedAfterRead = 10\<rparr>,
      \<lparr>elapsedAtHead = 10, flowQuota = True, nextResult = NextMessage message2,
       elapsedAfterRead = 300\<rparr>]"

definition fetchReq0 :: FetchPartitionReq where
  "fetchReq0 = \<lparr>fr_PartitionId = 0\<rparr>"

text \<open>
  Overlapping calls on group \<^verbatim>\<open>g\<close> of user \<^verbatim>\<open>usr\<close>: JoinGroup calls of client \<^verbatim>\<open>c\<close>, the
  SyncGroup call of the first member, LeaveGroup calls; \<open>turns i n expired\<close> lets caller
  \<open>i\<close> take \<open>n\<close> steps in a row, each clock read of which gives \<open>expired\<close>.
\<close>

definition joinAs :: "string \<Rightarrow> string \<Rightarrow> JoinGroupCall" where
  "joinAs mId u = \<lparr>jc_username = ''usr'', jc_groupId = ''g'', jc_memberId = mId,
                   jc_clientId = ''c'', jc_protocolType = ''consumer'',
                   jc_sessionTimeoutMs = 10000, jc_protocols = range1, jc_uuid = u\<rparr>"

definition sync1 :: SyncGroupCall where
  "sync1 = \<lparr>sc_username = ''usr'', sc_groupId = ''g'', sc_memberId = ''c-u1'', sc_generation = 1,
            sc_groupAssignments = assign1\<rparr>"

definition leaveCall :: "LeaveGroupMember list \<Rightarrow> LeaveGroupCall" where
  "leaveCall ms = \<lparr>lc_username = ''usr'', lc_groupId = ''g'', lc_members = ms\<rparr>"


definition turns :: "nat \<Rightarrow> nat \<Rightarrow> bool \<Rightarrow> (nat \<times> bool) list" where
  "turns i n expired = replicate n (i, expired)"

text \<open>
  A first consumer joins and syncs; a second consumer joins with the empty id and its
  barrier times out; before it is removed, a LeaveGroup call for the first consumer
  runs from its first step to its last; then the second consumer is removed.
\<close>

definition callersEvict :: "thread list" where
  "callersEvict =
     [Joining (joinThread (joinAs [] ''u1'')), Syncing (syncThread sync1),
      Joining (joinThread (joinAs [] ''u2'')), Leaving (leaveThread (leaveCall leave1))]"

definition scheduleBarrier :: "(nat \<times> bool) list" where
  "scheduleBarrier = turns 0 31 False @ turns 1 15 False @ turns 2 24 False @ turns 2 1 True"

definition scheduleEvict :: "(nat \<times> bool) list" where
  "scheduleEvict = scheduleBarrier @ turns 3 7 False @ turns 2 1 False"




text \<open>
  The group after the first consumer has joined and synced, as a group of the
  coordinator under overlapping calls (lemma \<open>schedule_one_at_a_time\<close> below).
\<close>

definition cell2 :: GroupCell where
  "cell2 = \<lparr>theGroup = group2, memberObject = fmupd ''c-u1'' 0 fmempty, detached = fmempty,
            allocated = 1, groupNewMemberLock = False, groupLock = False\<rparr>"

definition groups2 :: "(string, GroupCell) fmap" where
  "groups2 = fmupd ''usrg'' cell2 fmempty"

text \<open>
  The first consumer joins again, as the leader, which starts a rebalance: the groups
  while its call sleeps in \<^verbatim>\<open>doRebalance\<close> (line 436), with the status
  PreparingRebalance, the thread of that call at this place, and the groups when the
  call has answered, with the status CompletingRebalance. Its next SyncGroup call makes
  the group Stable again.
\<close>

definition sync2 :: SyncGroupCall where
  "sync2 = \<lparr>sc_username = ''usr'', sc_groupId = ''g'', sc_memberId = ''c-u1'', sc_generation = 2,
            sc_groupAssignments = assign1\<rparr>"

definition callersRejoin :: "thread list" where
  "callersRejoin =
     [Joining (joinThread (joinAs [] ''u1'')), Syncing (syncThread sync1),
      Joining (joinThread (joinAs ''c-u1'' ''u9''))]"

definition groupsPreparing :: "(string, GroupCell) fmap" where
  "groupsPreparing =
     fst (schedule config0 (turns 0 31 False @ turns 1 15 False @ turns 2 13 False)
            (fmempty, callersRejoin))"

definition rejoining :: thread where
  "rejoining =
     snd (schedule config0 (turns 0 31 False @ turns 1 15 False @ turns 2 13 False)
            (fmempty, callersRejoin)) ! 2"

definition groupsCompleting :: "(string, GroupCell) fmap" where
  "groupsCompleting =
     fst (schedule config0 (turns 0 31 False @ turns 1 15 False @ turns 2 26 False)
            (fmempty, callersRejoin))"

text \<open>
  What other callers do to the groups while a JoinGroup call is under way: nothing
  (\<open>quiet\<close>), or the steps of their own calls (\<open>meanwhile\<close>).
\<close>

definition quiet ::
  "nat \<Rightarrow> bool \<Rightarrow> (bool \<times> ((string, GroupCell) fmap \<Rightarrow> (string, GroupCell) fmap)) list" where
  "quiet n expired = replicate n (expired, id)"

definition meanwhile ::
  "thread list \<Rightarrow> (nat \<times> bool) list \<Rightarrow> (string, GroupCell) fmap \<Rightarrow> (string, GroupCell) fmap" where
  "meanwhile threads ts groups = fst (schedule config0 ts (groups, threads))"

definition leave2 :: "LeaveGroupMember list" where
  "leave2 = [\<lparr>lm_MemberId = ''c-u2'', lm_GroupInstanceId = None\<rparr>]"

text \<open>
  Four runs of a JoinGroup call with the empty member id among other callers. In the
  first the group is Stable and nobody else does anything: the first consumer does not
  rejoin and the barrier times out. In the second the call finds the group in
  PreparingRebalance (\<open>groupsPreparing\<close>) and waits in \<^verbatim>\<open>addNewMemberAndReBalance\<close>
  while the rejoining consumer finishes its JoinGroup call and syncs; in the third it
  finds the group in CompletingRebalance (\<open>groupsCompleting\<close>) and waits while that
  consumer syncs; both times the call is then added and its barrier times out. In the
  fourth the group is Stable, and a LeaveGroup call removes the member the call has
  added before the barrier reads it.
\<close>

definition othersStable ::
  "(bool \<times> ((string, GroupCell) fmap \<Rightarrow> (string, GroupCell) fmap)) list" where
  "othersStable = quiet 24 False @ quiet 2 True"

definition othersPreparing ::
  "(bool \<times> ((string, GroupCell) fmap \<Rightarrow> (string, GroupCell) fmap)) list" where
  "othersPreparing =
     quiet 9 False
     @ [(False, meanwhile [rejoining, Syncing (syncThread sync2)]
                  (turns 0 13 False @ turns 1 15 False))]
     @ quiet 12 False @ quiet 2 True"

definition othersCompleting ::
  "(bool \<times> ((string, GroupCell) fmap \<Rightarrow> (string, GroupCell) fmap)) list" where
  "othersCompleting =
     quiet 10 False
     @ [(False, meanwhile [Syncing (syncThread sync2)] (turns 0 15 False))]
     @ quiet 14 False @ quiet 2 True"

definition othersMemberGone ::
  "(bool \<times> ((string, GroupCell) fmap \<Rightarrow> (string, GroupCell) fmap)) list" where
  "othersMemberGone =
     quiet 21 False
     @ [(False, meanwhile [Leaving (leaveThread (leaveCall leave2))] (turns 0 7 False))]
     @ quiet 1 False"

section \<open>Facts about the functions of the coordinator\<close>

lemma fmdom_empty_iff: "fmdom m = {||} \<longleftrightarrow> m = fmempty"
  by (metis fmdom_empty fmrestrict_fset_dom fmrestrict_fset_null)

lemma getGroupMembersLen_0: "getGroupMembersLen grp = 0 \<longleftrightarrow> members grp = fmempty"
  by (simp add: getGroupMembersLen_def fcard_0_eq fmdom_empty_iff)

lemma getGroupMembersLen_pos: "getGroupMembersLen grp > 0 \<longleftrightarrow> members grp \<noteq> fmempty"
proof -
  have "0 \<le> getGroupMembersLen grp"
    by (simp add: getGroupMembersLen_def)
  then have "(0 < getGroupMembersLen grp) = (getGroupMembersLen grp \<noteq> 0)"
    by linarith
  then show ?thesis
    by (simp add: getGroupMembersLen_0)
qed

lemma awaitingRebalance_result:
  "awaitingRebalance grp w n =
     (if groupStatus grp = w \<or> members grp = fmempty then None else Some RebalanceTimeout)"
  by (induction n) (simp_all add: getGroupMembersLen_0)

lemma awaitingSync_result:
  "awaitingSync grp n = (if checkSyncMemberGenerationId grp then None else Some SyncWaitTimeout)"
  by (induction n) simp_all

text \<open>awaitingJoin\<close>

lemma awaitingJoin_fields:
  "awaitingJoin grp mId n = (grp', r) \<Longrightarrow>
     generationId grp' = generationId grp \<and> leader grp' = leader grp
     \<and> fmdom (members grp') = fmdom (members grp)
     \<and> canRebalance grp' = canRebalance grp"
proof (induction n arbitrary: grp)
  case 0
  then show ?case
    by (auto simp: setGroupStatus_def Let_def fmdomI finsert_absorb split: option.splits if_splits)
next
  case (Suc n)
  show ?case
  proof (cases "fmlookup (members grp) mId")
    case None
    with Suc.prems show ?thesis by simp
  next
    case (Some cur)
    let ?g1 = "grp\<lparr>members := fmupd mId (cur\<lparr>joinGenerationId := generationId grp\<rparr>) (members grp)\<rparr>"
    have inDom: "mId |\<in>| fmdom (members grp)"
      using Some by (simp add: fmdomI)
    show ?thesis
    proof (cases "checkJoinMemberGenerationId ?g1")
      case True
      with Suc.prems Some have "grp' = setGroupStatus ?g1 CompletingRebalance"
        by (simp add: Let_def)
      with inDom show ?thesis
        by (simp add: setGroupStatus_def finsert_absorb)
    next
      case False
      with Suc.prems Some have "awaitingJoin ?g1 mId n = (grp', r)"
        by (simp add: Let_def)
      from Suc.IH [OF this] inDom show ?thesis
        by (simp add: finsert_absorb)
    qed
  qed
qed

lemma awaitingJoin_error:
  "awaitingJoin grp mId n = (grp', Some e) \<Longrightarrow>
     groupStatus grp' = groupStatus grp
     \<and> ((e = CurMemberMissing \<and> fmlookup (members grp) mId = None \<and> grp' = grp)
        \<or> (e = JoinWaitTimeout \<and> (\<exists>k. k \<noteq> mId \<and> k |\<in>| fmdom (members grp'))))"
proof (induction n arbitrary: grp)
  case 0
  show ?case
  proof (cases "fmlookup (members grp) mId")
    case None
    with "0.prems" show ?thesis by simp
  next
    case (Some cur)
    let ?g1 = "grp\<lparr>members := fmupd mId (cur\<lparr>joinGenerationId := generationId grp\<rparr>) (members grp)\<rparr>"
    from "0.prems" Some have stale: "\<not> checkJoinMemberGenerationId ?g1" and res: "grp' = ?g1" "e = JoinWaitTimeout"
      by (auto simp: Let_def split: if_splits)
    from stale obtain k m where "fmlookup (members ?g1) k = Some m"
        and "joinGenerationId m \<noteq> generationId ?g1"
      by (auto simp: checkJoinMemberGenerationId_def fmpred_iff)
    then have "k \<noteq> mId" and "k |\<in>| fmdom (members ?g1)"
      by (auto simp: fmdomI split: if_splits)
    with res show ?thesis by auto
  qed
next
  case (Suc n)
  show ?case
  proof (cases "fmlookup (members grp) mId")
    case None
    with Suc.prems show ?thesis by simp
  next
    case (Some cur)
    let ?g1 = "grp\<lparr>members := fmupd mId (cur\<lparr>joinGenerationId := generationId grp\<rparr>) (members grp)\<rparr>"
    from Suc.prems Some have rec: "awaitingJoin ?g1 mId n = (grp', Some e)"
      by (auto simp: Let_def split: if_splits)
    have "fmlookup (members ?g1) mId \<noteq> None" by simp
    with Suc.IH [OF rec] show ?thesis by auto
  qed
qed

lemma awaitingJoin_ok:
  "awaitingJoin grp mId n = (grp', None) \<Longrightarrow>
     groupStatus grp' = CompletingRebalance \<and> mId |\<in>| fmdom (members grp)"
proof (induction n arbitrary: grp)
  case 0
  then show ?case
    by (auto simp: Let_def setGroupStatus_def fmdomI split: option.splits if_splits)
next
  case (Suc n)
  show ?case
  proof (cases "fmlookup (members grp) mId")
    case None
    with Suc.prems show ?thesis by simp
  next
    case (Some cur)
    let ?g1 = "grp\<lparr>members := fmupd mId (cur\<lparr>joinGenerationId := generationId grp\<rparr>) (members grp)\<rparr>"
    have inDom: "mId |\<in>| fmdom (members grp)"
      using Some by (simp add: fmdomI)
    show ?thesis
    proof (cases "checkJoinMemberGenerationId ?g1")
      case True
      with Suc.prems Some have "grp' = setGroupStatus ?g1 CompletingRebalance"
        by (simp add: Let_def)
      with inDom show ?thesis
        by (simp add: setGroupStatus_def)
    next
      case False
      with Suc.prems Some have "awaitingJoin ?g1 mId n = (grp', None)"
        by (simp add: Let_def)
      from Suc.IH [OF this] inDom show ?thesis
        by simp
    qed
  qed
qed

lemma doRebalance_fields:
  "doRebalance rt grp = (grp', r) \<Longrightarrow>
     members grp' = members grp \<and> leader grp' = leader grp
     \<and> (generationId grp' = generationId grp \<or> generationId grp' = generationId grp + 1)
     \<and> (groupStatus grp' = PreparingRebalance \<or> groupStatus grp' = CompletingRebalance)
     \<and> canRebalance grp' = canRebalance grp
     \<and> (canRebalance grp \<longrightarrow> r = None)"
  by (auto simp: doRebalance_def prepareRebalance_def setGroupStatus_def Let_def split: if_splits)

lemma addMemberAndRebalance_fault:
  "addMemberAndRebalance rt grp cId mId pType ps = (grp', Inl f) \<Longrightarrow> grp' = grp"
  by (auto simp: addMemberAndRebalance_def Let_def split: sum.splits prod.splits)

lemma addMemberAndRebalance_added:
  "addMemberAndRebalance rt grp cId mId pType ps = (grp', Inr (mId1, r)) \<Longrightarrow>
     mId1 = (if mId = [] then cId @ ''-'' @ uuid rt else mId)
     \<and> fmdom (members grp') = finsert mId1 (fmdom (members grp))
     \<and> leader grp' = leader grp
     \<and> (generationId grp' = generationId grp \<or> generationId grp' = generationId grp + 1)
     \<and> (groupStatus grp' = PreparingRebalance \<or> groupStatus grp' = CompletingRebalance)
     \<and> canRebalance grp' = canRebalance grp
     \<and> (canRebalance grp \<longrightarrow> r = None)"
  unfolding addMemberAndRebalance_def Let_def EmptyMemberId_def vote_def
  by (auto split: sum.splits prod.splits if_splits list.splits dest!: doRebalance_fields)

lemma addNewMemberAndReBalance_fault:
  "addNewMemberAndReBalance rt grp cId mId pType ps = (grp', Inl f) \<Longrightarrow> grp' = grp"
  by (auto simp: addNewMemberAndReBalance_def split: if_splits option.splits
           dest: addMemberAndRebalance_fault)

lemma addNewMemberAndReBalance_result:
  "addNewMemberAndReBalance rt grp cId mId pType ps = (grp', Inr (mId1, r)) \<Longrightarrow>
     (grp' = grp \<and> mId1 = mId \<and> r = Some RebalanceTimeout
        \<and> members grp \<noteq> fmempty \<and> groupStatus grp \<noteq> Stable)
     \<or> ((members grp = fmempty \<or> groupStatus grp = Stable)
        \<and> mId1 = (if mId = [] then cId @ ''-'' @ uuid rt else mId)
        \<and> fmdom (members grp') = finsert mId1 (fmdom (members grp))
        \<and> leader grp' = leader grp
        \<and> (generationId grp' = generationId grp \<or> generationId grp' = generationId grp + 1)
        \<and> (groupStatus grp' = PreparingRebalance \<or> groupStatus grp' = CompletingRebalance)
        \<and> canRebalance grp' = canRebalance grp
        \<and> (canRebalance grp \<longrightarrow> r = None))"
  unfolding addNewMemberAndReBalance_def
  by (auto simp: awaitingRebalance_result getGroupMembersLen_pos
           split: if_splits option.splits dest!: addMemberAndRebalance_added)

text \<open>What admission does to the group.\<close>

lemma admit_effect:
  assumes "admit rt grp cId mId pType ps b = (grp', r)"
  shows "leader grp' = leader grp"
    and "generationId grp' = generationId grp \<or> generationId grp' = generationId grp + 1"
    and "members grp' = fmempty \<Longrightarrow> grp' = grp"
    and "r = Inr mId1 \<Longrightarrow> mId1 |\<in>| fmdom (members grp')"
    and "fmdom (members grp') = fmdom (members grp)
         \<or> ((members grp = fmempty \<or> groupStatus grp = Stable)
            \<and> fmdom (members grp')
                = finsert (if mId = [] then cId @ ''-'' @ uuid rt else mId) (fmdom (members grp)))"
    and "r = Inr mId1 \<Longrightarrow> mId = [] \<Longrightarrow>
           mId1 = cId @ ''-'' @ uuid rt \<and> (members grp = fmempty \<or> groupStatus grp = Stable)
           \<and> fmdom (members grp') = finsert mId1 (fmdom (members grp))"
    and "r = Inr mId1 \<Longrightarrow> mId \<noteq> [] \<Longrightarrow> mId1 = mId"
proof -
  consider (new) "mId = [] \<or> \<not> checkMemberExist grp mId"
    | (upd) "mId \<noteq> []" "checkMemberExist grp mId" "b"
    | (keep) "mId \<noteq> []" "checkMemberExist grp mId" "\<not> b"
    by blast
  then have "leader grp' = leader grp
      \<and> (generationId grp' = generationId grp \<or> generationId grp' = generationId grp + 1)
      \<and> (members grp' = fmempty \<longrightarrow> grp' = grp)
      \<and> (r = Inr mId1 \<longrightarrow> mId1 |\<in>| fmdom (members grp'))
      \<and> (fmdom (members grp') = fmdom (members grp)
         \<or> ((members grp = fmempty \<or> groupStatus grp = Stable)
            \<and> fmdom (members grp')
                = finsert (if mId = [] then cId @ ''-'' @ uuid rt else mId) (fmdom (members grp))))
      \<and> (r = Inr mId1 \<longrightarrow> mId = [] \<longrightarrow>
           mId1 = cId @ ''-'' @ uuid rt \<and> (members grp = fmempty \<or> groupStatus grp = Stable)
           \<and> fmdom (members grp') = finsert mId1 (fmdom (members grp)))
      \<and> (r = Inr mId1 \<longrightarrow> mId \<noteq> [] \<longrightarrow> mId1 = mId)"
  proof cases
    case new
    obtain g1 r1 where a: "addNewMemberAndReBalance rt grp cId mId pType ps = (g1, r1)"
      by (cases "addNewMemberAndReBalance rt grp cId mId pType ps")
    show ?thesis
    proof (cases r1)
      case (Inl f)
      with a assms new have "grp' = g1" "r = Inl (None, Inl f)"
        by (auto simp: admit_def EmptyMemberId_def)
      moreover from a Inl have "g1 = grp"
        by (auto dest: addNewMemberAndReBalance_fault)
      ultimately show ?thesis by simp
    next
      case (Inr p)
      obtain m1 e where p: "p = (m1, e)" by (cases p)
      from a assms new Inr p have g: "grp' = g1"
        and r: "r = (case e of Some err \<Rightarrow> Inl (Some (JoinFailedCause err),
                       Inr (joinErrorResp m1 COORDINATOR_LOAD_IN_PROGRESS)) | None \<Rightarrow> Inr m1)"
        by (auto simp: admit_def EmptyMemberId_def split: option.splits)
      from addNewMemberAndReBalance_result [OF a [unfolded Inr p]]
      consider (wait) "g1 = grp" "e = Some RebalanceTimeout"
        | (added) "members grp = fmempty \<or> groupStatus grp = Stable"
            "m1 = (if mId = [] then cId @ ''-'' @ uuid rt else mId)"
            "fmdom (members g1) = finsert m1 (fmdom (members grp))"
            "leader g1 = leader grp"
            "generationId g1 = generationId grp \<or> generationId g1 = generationId grp + 1"
        by blast
      then show ?thesis
      proof cases
        case wait
        with g r show ?thesis by simp
      next
        case added
        from added(3) have ne: "members g1 \<noteq> fmempty"
          by (metis fmdom_empty finsert_not_fempty)
        from added(3) have inD: "m1 |\<in>| fmdom (members g1)"
          by simp
        have rr: "(r = Inr mId1) = (e = None \<and> mId1 = m1)"
          using r by (cases e) auto
        have c1: "leader g1 = leader grp" using added by simp
        have c2: "generationId g1 = generationId grp \<or> generationId g1 = generationId grp + 1"
          using added by simp
        have c3: "members g1 = fmempty \<longrightarrow> g1 = grp" using ne by simp
        have c4: "r = Inr mId1 \<longrightarrow> mId1 |\<in>| fmdom (members g1)"
          unfolding rr using inD by blast
        have c5: "fmdom (members g1) = fmdom (members grp)
         \<or> ((members grp = fmempty \<or> groupStatus grp = Stable)
            \<and> fmdom (members g1)
                = finsert (if mId = [] then cId @ ''-'' @ uuid rt else mId) (fmdom (members grp)))"
          using added(1) added(3) unfolding added(2) by blast
        have c6: "r = Inr mId1 \<longrightarrow> mId = [] \<longrightarrow>
           mId1 = cId @ ''-'' @ uuid rt \<and> (members grp = fmempty \<or> groupStatus grp = Stable)
           \<and> fmdom (members g1) = finsert mId1 (fmdom (members grp))"
          unfolding rr using added(1) added(2) added(3) by auto
        have c7: "r = Inr mId1 \<longrightarrow> mId \<noteq> [] \<longrightarrow> mId1 = mId"
          unfolding rr using added(2) by auto
        show ?thesis
          unfolding g using c1 c2 c3 c4 c5 c6 c7 by blast
      qed
    qed
  next
    case upd
    obtain g1 e where d: "doRebalance rt grp = (g1, e)"
      by (cases "doRebalance rt grp")
    from upd assms d have g: "grp' = g1"
      and r: "r = (case e of Some err \<Rightarrow> Inl (Some (JoinFailedCause err),
                     Inr (joinErrorResp mId COORDINATOR_LOAD_IN_PROGRESS)) | None \<Rightarrow> Inr mId)"
      by (auto simp: admit_def EmptyMemberId_def updateMemberAndRebalance_def split: option.splits)
    from upd have "members grp \<noteq> fmempty" "mId |\<in>| fmdom (members grp)"
      by (auto simp: checkMemberExist_def fmdomI)
    with doRebalance_fields [OF d] g r upd show ?thesis
      by (cases e) auto
  next
    case keep
    with assms have "grp' = grp" "r = Inr mId"
      by (auto simp: admit_def EmptyMemberId_def)
    with keep show ?thesis
      by (auto simp: checkMemberExist_def fmdomI)
  qed
  then show "leader grp' = leader grp"
    and "generationId grp' = generationId grp \<or> generationId grp' = generationId grp + 1"
    and "members grp' = fmempty \<Longrightarrow> grp' = grp"
    and "r = Inr mId1 \<Longrightarrow> mId1 |\<in>| fmdom (members grp')"
    and "fmdom (members grp') = fmdom (members grp)
         \<or> ((members grp = fmempty \<or> groupStatus grp = Stable)
            \<and> fmdom (members grp')
                = finsert (if mId = [] then cId @ ''-'' @ uuid rt else mId) (fmdom (members grp)))"
    and "r = Inr mId1 \<Longrightarrow> mId = [] \<Longrightarrow>
           mId1 = cId @ ''-'' @ uuid rt \<and> (members grp = fmempty \<or> groupStatus grp = Stable)
           \<and> fmdom (members grp') = finsert mId1 (fmdom (members grp))"
    and "r = Inr mId1 \<Longrightarrow> mId \<noteq> [] \<Longrightarrow> mId1 = mId"
    by simp_all
qed

lemma getLeaderMembers_effect:
  "getLeaderMembers grp mId = (grp', ms) \<Longrightarrow>
     grp' = grp\<lparr>leader := (if leader grp = [] then mId else leader grp)\<rparr>"
  by (auto simp: getLeaderMembers_def setMemberLeader_def Let_def split: if_splits)

lemma awaitJoinThenMembers_effect:
  assumes "awaitJoinThenMembers rt grp mId isNew = (grp', lg, out)"
    and "mId |\<in>| fmdom (members grp)"
  shows "generationId grp' = generationId grp \<and> members grp' \<noteq> fmempty
    \<and> ((lg = None \<and> fmdom (members grp') = fmdom (members grp)
          \<and> leader grp' = (if leader grp = [] then mId else leader grp)
          \<and> groupStatus grp' = CompletingRebalance)
       \<or> ((\<exists>e. lg = Some (JoinFailedCase e))
          \<and> out = Inr (joinErrorResp mId COORDINATOR_LOAD_IN_PROGRESS)
          \<and> fmdom (members grp') = (if isNew then fmdom (members grp) |-| {|mId|}
                                      else fmdom (members grp))
          \<and> leader grp' = leader grp \<and> groupStatus grp' = groupStatus grp))"
proof -
  obtain g1 r where aw: "awaitingJoin grp mId (joinPolls rt) = (g1, r)"
    by (cases "awaitingJoin grp mId (joinPolls rt)")
  note f = awaitingJoin_fields [OF aw]
  show ?thesis
  proof (cases r)
    case None
    from awaitingJoin_ok [OF aw [unfolded None]] have st: "groupStatus g1 = CompletingRebalance"
      by simp
    obtain g2 ms where gl: "getLeaderMembers g1 mId = (g2, ms)"
      by (cases "getLeaderMembers g1 mId")
    from assms(1) aw None gl have "grp' = g2" "lg = None"
      by (auto simp: awaitJoinThenMembers_def)
    with getLeaderMembers_effect [OF gl] f st assms(2) show ?thesis
      by auto
  next
    case (Some e)
    from assms(1) aw Some have res: "grp' = (if isNew then deleteMember g1 mId else g1)"
        "lg = Some (JoinFailedCase e)" "out = Inr (joinErrorResp mId COORDINATOR_LOAD_IN_PROGRESS)"
      by (auto simp: awaitJoinThenMembers_def)
    from awaitingJoin_error [OF aw [unfolded Some]] assms(2) f
    obtain k where k: "k \<noteq> mId" "k |\<in>| fmdom (members g1)" and st: "groupStatus g1 = groupStatus grp"
      by (auto simp: fmlookup_dom_iff)
    from k have "k |\<in>| fmdom (members grp')"
      by (simp add: res deleteMember_def)
    then have "members grp' \<noteq> fmempty"
      by auto
    with res f st show ?thesis
      by (simp add: deleteMember_def)
  qed
qed

lemma membersThenAwaitJoin_effect:
  assumes "membersThenAwaitJoin rt grp mId isNew = (grp', lg, out)"
    and "mId |\<in>| fmdom (members grp)"
  shows "generationId grp' = generationId grp \<and> members grp' \<noteq> fmempty
    \<and> leader grp' = (if leader grp = [] then mId else leader grp)
    \<and> ((lg = None \<and> fmdom (members grp') = fmdom (members grp)
          \<and> groupStatus grp' = CompletingRebalance)
       \<or> ((\<exists>e. lg = Some (JoinFailedCase e))
          \<and> out = Inr (joinErrorResp mId COORDINATOR_LOAD_IN_PROGRESS)
          \<and> fmdom (members grp') = (if isNew then fmdom (members grp) |-| {|mId|}
                                      else fmdom (members grp))
          \<and> groupStatus grp' = groupStatus grp))"
proof -
  obtain g1 ms where gl: "getLeaderMembers grp mId = (g1, ms)"
    by (cases "getLeaderMembers grp mId")
  note g1 = getLeaderMembers_effect [OF gl]
  obtain g2 r where aw: "awaitingJoin g1 mId (joinPolls rt) = (g2, r)"
    by (cases "awaitingJoin g1 mId (joinPolls rt)")
  note f = awaitingJoin_fields [OF aw]
  from g1 assms(2) have in1: "mId |\<in>| fmdom (members g1)"
    by simp
  show ?thesis
  proof (cases r)
    case None
    from awaitingJoin_ok [OF aw [unfolded None]] have st: "groupStatus g2 = CompletingRebalance"
      by simp
    from assms(1) gl aw None have "grp' = g2" "lg = None"
      by (auto simp: membersThenAwaitJoin_def)
    with g1 f st assms(2) show ?thesis
      by auto
  next
    case (Some e)
    from assms(1) gl aw Some have res: "grp' = (if isNew then deleteMember g2 mId else g2)"
        "lg = Some (JoinFailedCase e)" "out = Inr (joinErrorResp mId COORDINATOR_LOAD_IN_PROGRESS)"
      by (auto simp: membersThenAwaitJoin_def)
    from awaitingJoin_error [OF aw [unfolded Some]] in1 f
    obtain k where k: "k \<noteq> mId" "k |\<in>| fmdom (members g2)" and st: "groupStatus g2 = groupStatus g1"
      by (auto simp: fmlookup_dom_iff)
    from k have "k |\<in>| fmdom (members grp')"
      by (simp add: res deleteMember_def)
    then have "members grp' \<noteq> fmempty"
      by auto
    with res f st g1 show ?thesis
      by (simp add: deleteMember_def)
  qed
qed

lemma admit_fail_log:
  "admit rt grp cId mId pType ps b = (g1, Inl (lg, out)) \<Longrightarrow>
     lg = None \<or> (\<exists>e. lg = Some (JoinFailedCause e))"
  by (auto simp: admit_def updateMemberAndRebalance_def
           split: if_splits prod.splits sum.splits option.splits)

lemma joinGroup_cases:
  assumes "joinGroup config rt grp mId cId pType ps = (grp', lg, out)"
  obtains
    (rejected) "grp' = grp"
      "lg = None \<or> lg = Some ProtocolCheckFailed \<or> lg = Some ExceedMaximumMembers
       \<or> lg = Some GroupStatusDead"
  | (not_admitted) b where "admit rt grp cId mId pType ps b = (grp', Inl (lg, out))"
  | (await) b g1 mId1 where "admit rt grp cId mId pType ps b = (g1, Inr mId1)"
      "groupStatus grp \<noteq> CompletingRebalance"
      "awaitJoinThenMembers rt g1 mId1 (mId = []) = (grp', lg, out)"
  | (completing) b g1 mId1 where "admit rt grp cId mId pType ps b = (g1, Inr mId1)"
      "groupStatus grp = CompletingRebalance"
      "membersThenAwaitJoin rt g1 mId1 (mId = []) = (grp', lg, out)"
proof -
  obtain code failed where pc: "joinGroupProtocolCheck grp pType ps = (code, failed)"
    by (cases "joinGroupProtocolCheck grp pType ps")
  show thesis
  proof (cases "failed \<or> (MaxConsumersPerGroup config > 0
                  \<and> getGroupMembersLen grp \<ge> MaxConsumersPerGroup config)
                \<or> groupStatus grp = Dead")
    case True
    with assms pc have "grp' = grp"
      "lg = None \<or> lg = Some ProtocolCheckFailed \<or> lg = Some ExceedMaximumMembers
       \<or> lg = Some GroupStatusDead"
      by (auto simp: joinGroup_def split: if_splits bool.splits)
    then show thesis by (rule rejected)
  next
    case False
    then have nf: "\<not> failed"
      and nm: "\<not> (MaxConsumersPerGroup config > 0
                  \<and> getGroupMembersLen grp \<ge> MaxConsumersPerGroup config)"
      and nd: "groupStatus grp \<noteq> Dead"
      by auto
    define b where "b = (if groupStatus grp = PreparingRebalance then False
                         else if groupStatus grp = CompletingRebalance then \<not> matchProtocols ps
                         else (isMemberLeader grp mId \<or> \<not> matchProtocols ps))"
    obtain g1 r where ad: "admit rt grp cId mId pType ps b = (g1, r)"
      by (cases "admit rt grp cId mId pType ps b")
    show thesis
    proof (cases r)
      case (Inl d)
      obtain lg0 out0 where d: "d = (lg0, out0)" by (cases d)
      from assms pc nf nm nd ad Inl d have "grp' = g1" "lg = lg0" "out = out0"
        by (cases "groupStatus grp"; simp add: joinGroup_def b_def Let_def EmptyMemberId_def)+
      with ad Inl d show thesis
        by (auto intro: not_admitted)
    next
      case (Inr mId1)
      show thesis
      proof (cases "groupStatus grp = CompletingRebalance")
        case True
        with assms pc nf nm nd ad Inr
        have "membersThenAwaitJoin rt g1 mId1 (mId = []) = (grp', lg, out)"
          by (simp add: joinGroup_def b_def Let_def EmptyMemberId_def)
        with ad Inr True show thesis
          by (auto intro: completing)
      next
        case False
        with assms pc nf nm nd ad Inr
        have "awaitJoinThenMembers rt g1 mId1 (mId = []) = (grp', lg, out)"
          by (cases "groupStatus grp"; simp add: joinGroup_def b_def Let_def EmptyMemberId_def)
        with ad Inr False show thesis
          by (auto intro: await)
      qed
    qed
  qed
qed

lemma joinGroup_generationId:
  assumes "joinGroup config rt grp mId cId pType ps = (grp', lg, out)"
  shows "generationId grp' = generationId grp \<or> generationId grp' = generationId grp + 1"
  using assms
proof (cases rule: joinGroup_cases)
  case rejected
  then show ?thesis by simp
next
  case (not_admitted b)
  from admit_effect(2) [OF this] show ?thesis .
next
  case (await b g1 mId1)
  from admit_effect(4) [OF await(1)] have "mId1 |\<in>| fmdom (members g1)" by simp
  from awaitJoinThenMembers_effect [OF await(3) this] admit_effect(2) [OF await(1)]
  show ?thesis by simp
next
  case (completing b g1 mId1)
  from admit_effect(4) [OF completing(1)] have "mId1 |\<in>| fmdom (members g1)" by simp
  from membersThenAwaitJoin_effect [OF completing(3) this] admit_effect(2) [OF completing(1)]
  show ?thesis by simp
qed

lemma joinGroup_members_status_inv:
  assumes "joinGroup config rt grp mId cId pType ps = (grp', lg, out)"
    and "members_status_inv grp"
  shows "members_status_inv grp'"
  using assms(1)
proof (cases rule: joinGroup_cases)
  case rejected
  with assms(2) show ?thesis by simp
next
  case (not_admitted b)
  from admit_effect(3) [OF this] assms(2) show ?thesis
    by (auto simp: members_status_inv_def)
next
  case (await b g1 mId1)
  from admit_effect(4) [OF await(1)] have "mId1 |\<in>| fmdom (members g1)" by simp
  from awaitJoinThenMembers_effect [OF await(3) this]
  show ?thesis by (simp add: members_status_inv_def)
next
  case (completing b g1 mId1)
  from admit_effect(4) [OF completing(1)] have "mId1 |\<in>| fmdom (members g1)" by simp
  from membersThenAwaitJoin_effect [OF completing(3) this]
  show ?thesis by (simp add: members_status_inv_def)
qed

lemma HandleJoinGroup_cases:
  assumes "HandleJoinGroup g rt username gId mId cId pType sessionTimeout ps = (g', lg, out)"
  obtains
    (params) "g' = g" "lg = Some ParamsCheckFailed"
      "gId = [] \<or> sessionTimeout < GroupMinSessionTimeoutMs (kafsarConfig g)
       \<or> sessionTimeout > GroupMaxSessionTimeoutMs (kafsarConfig g)"
  | (joined) grp grp' where
      "grp = (case fmlookup (groupManager g) (username @ gId) of
                Some grp0 \<Rightarrow> grp0 | None \<Rightarrow> newGroup gId pType sessionTimeout)"
      "joinGroup (kafsarConfig g) rt grp mId cId pType ps = (grp', lg, out)"
      "g' = g\<lparr>groupManager := fmupd (username @ gId) grp' (groupManager g)\<rparr>"
proof (cases "gId = [] \<or> sessionTimeout < GroupMinSessionTimeoutMs (kafsarConfig g)
                \<or> sessionTimeout > GroupMaxSessionTimeoutMs (kafsarConfig g)")
  case True
  with assms have "g' = g" "lg = Some ParamsCheckFailed"
    by (auto simp: HandleJoinGroup_def joinGroupParamsCheck_def split: if_splits)
  with True show thesis by (auto intro: params)
next
  case False
  then have pc: "joinGroupParamsCheck cId gId mId sessionTimeout (kafsarConfig g) = (mId, NONE, False)"
    by (simp add: joinGroupParamsCheck_def)
  define grp where "grp = (case fmlookup (groupManager g) (username @ gId) of
                Some grp0 \<Rightarrow> grp0 | None \<Rightarrow> newGroup gId pType sessionTimeout)"
  obtain grp' o' where jg: "joinGroup (kafsarConfig g) rt grp mId cId pType ps = (grp', o')"
    by (cases "joinGroup (kafsarConfig g) rt grp mId cId pType ps")
  from assms have "g' = g\<lparr>groupManager := fmupd (username @ gId) grp' (groupManager g)\<rparr>"
    and "o' = (lg, out)"
    unfolding HandleJoinGroup_def pc grp_def [symmetric] by (simp_all add: Let_def jg)
  with jg grp_def show thesis
    by (auto intro: joined)
qed

lemma newGroup_inv: "members_status_inv (newGroup gId pType t)"
  by (simp add: newGroup_def members_status_inv_def)

text \<open>SyncGroup\<close>

lemma storeAssignments_dom:
  "storeAssignments ms as = (ms', f) \<Longrightarrow> fmdom ms' = fmdom ms"
proof (induction as arbitrary: ms)
  case Nil
  then show ?case by simp
next
  case (Cons a as)
  show ?case
  proof (cases "fmlookup ms (ga_MemberId a)")
    case None
    with Cons.prems show ?thesis by simp
  next
    case (Some member)
    with Cons.prems have
      "storeAssignments (fmupd (ga_MemberId a) (member\<lparr>assignment := ga_MemberAssignment a\<rparr>) ms) as
         = (ms', f)"
      by simp
    from Cons.IH [OF this] Some show ?thesis
      by (simp add: fmdomI finsert_absorb)
  qed
qed

lemma syncCompleting_effect:
  assumes "syncCompleting rt grp mId groupAssignments = (grp', out)"
    and "mId |\<in>| fmdom (members grp)"
  shows "generationId grp' = generationId grp \<and> leader grp' = leader grp
         \<and> fmdom (members grp') = fmdom (members grp)
         \<and> (groupStatus grp' = groupStatus grp \<or> groupStatus grp' = Stable)"
proof -
  obtain ms1 f where st: "(if isMemberLeader grp mId
                           then storeAssignments (members grp) groupAssignments
                           else (members grp, None)) = (ms1, f)"
    by (cases "if isMemberLeader grp mId then storeAssignments (members grp) groupAssignments
               else (members grp, None)")
  then have dom1: "fmdom ms1 = fmdom (members grp)"
    by (auto split: if_splits dest: storeAssignments_dom)
  note sc = assms(1) [unfolded syncCompleting_def st]
  show ?thesis
  proof (cases f)
    case (Some flt)
    with sc have "grp' = grp\<lparr>members := ms1\<rparr>"
      by simp
    with dom1 show ?thesis by simp
  next
    case None
    from assms(2) dom1 obtain cur where cur: "fmlookup ms1 mId = Some cur"
      by (metis fmlookup_dom_iff)
    define g1 where
      "g1 = grp\<lparr>members := fmupd mId (cur\<lparr>syncGenerationId := joinGenerationId cur\<rparr>) ms1\<rparr>"
    have g1: "generationId g1 = generationId grp" "leader g1 = leader grp"
      "fmdom (members g1) = fmdom (members grp)" "groupStatus g1 = groupStatus grp"
      using dom1 assms(2) by (simp_all add: g1_def finsert_absorb)
    from sc None cur have "grp' = g1 \<or> grp' = setGroupStatus g1 Stable"
      unfolding g1_def [symmetric] Let_def
      by (cases "awaitingSync g1 (syncPolls rt)"; cases "isMemberLeader g1 mId")
         (auto simp: g1_def [symmetric] setGroupStatus_def isMemberLeader_def)
    then show ?thesis
    proof
      assume "grp' = g1"
      then show ?thesis
        by (simp only: g1 simp_thms)
    next
      assume "grp' = setGroupStatus g1 Stable"
      then have "generationId grp' = generationId g1" "leader grp' = leader g1"
        "fmdom (members grp') = fmdom (members g1)" "groupStatus grp' = Stable"
        by (simp_all add: setGroupStatus_def)
      then show ?thesis
        by (simp only: g1 simp_thms)
    qed
  qed
qed

lemma HandleSyncGroup_cases:
  assumes "HandleSyncGroup g rt username gId mId generation groupAssignments = (g', out)"
  obtains
    (same) "g' = g"
  | (completing) grp grp' where
      "fmlookup (groupManager g) (username @ gId) = Some grp"
      "mId |\<in>| fmdom (members grp)"
      "groupStatus grp = CompletingRebalance"
      "syncCompleting rt grp mId groupAssignments = (grp', out)"
      "g' = g\<lparr>groupManager := fmupd (username @ gId) grp' (groupManager g)\<rparr>"
proof (cases "gId \<noteq> [] \<and> mId \<noteq> []")
  case False
  with assms have "g' = g"
    by (auto simp: HandleSyncGroup_def syncGroupParamsCheck_def split: if_splits)
  then show thesis by (rule same)
next
  case True
  then have pc: "syncGroupParamsCheck gId mId = (NONE, False)"
    by (simp add: syncGroupParamsCheck_def)
  show thesis
  proof (cases "fmlookup (groupManager g) (username @ gId)")
    case None
    with assms pc have "g' = g" by (simp add: HandleSyncGroup_def)
    then show thesis by (rule same)
  next
    case (Some grp)
    show thesis
    proof (cases "fmlookup (members grp) mId")
      case None
      with assms pc Some have "g' = g" by (simp add: HandleSyncGroup_def)
      then show thesis by (rule same)
    next
      case cur: (Some curMember)
      show thesis
      proof (cases "groupStatus grp = CompletingRebalance")
        case False
        with assms pc Some cur have "g' = g"
          by (cases "groupStatus grp") (simp_all add: HandleSyncGroup_def)
        then show thesis by (rule same)
      next
        case True
        obtain grp' o' where sc: "syncCompleting rt grp mId groupAssignments = (grp', o')"
          by (cases "syncCompleting rt grp mId groupAssignments")
        with assms pc Some cur True
        have "g' = g\<lparr>groupManager := fmupd (username @ gId) grp' (groupManager g)\<rparr>" "o' = out"
          by (simp_all add: HandleSyncGroup_def)
        with Some cur True sc show thesis
          by (auto intro: completing simp: fmdomI)
      qed
    qed
  qed
qed

text \<open>LeaveGroup\<close>

lemma fmfilter_fmdrop_insert:
  "fmfilter (\<lambda>k. k \<notin> S) (fmdrop a m) = fmfilter (\<lambda>k. k \<notin> insert a S) m"
  by (rule fmap_ext) auto

lemma leaveMembers_fields:
  "members (leaveMembers grp ms) = fmfilter (\<lambda>k. k \<notin> lm_MemberId ` set ms) (members grp)
   \<and> leader (leaveMembers grp ms)
       = (if leader grp \<in> lm_MemberId ` set ms then [] else leader grp)
   \<and> generationId (leaveMembers grp ms) = generationId grp
   \<and> groupStatus (leaveMembers grp ms) = groupStatus grp
   \<and> Group.more (leaveMembers grp ms) = Group.more grp
   \<and> groupId (leaveMembers grp ms) = groupId grp
   \<and> protocolType (leaveMembers grp ms) = protocolType grp
   \<and> supportedProtocol (leaveMembers grp ms) = supportedProtocol grp
   \<and> canRebalance (leaveMembers grp ms) = canRebalance grp
   \<and> sessionTimeoutMs (leaveMembers grp ms) = sessionTimeoutMs grp
   \<and> partitionedTopic (leaveMembers grp ms) = partitionedTopic grp"
proof (induction ms arbitrary: grp)
  case Nil
  show ?case by simp
next
  case (Cons m ms)
  let ?g1 = "deleteMember (if lm_MemberId m = leader grp then setMemberLeader grp [] else grp)
               (lm_MemberId m)"
  have m1: "members ?g1 = fmdrop (lm_MemberId m) (members grp)"
    by (simp add: deleteMember_def setMemberLeader_def)
  have l1: "leader ?g1 = (if lm_MemberId m = leader grp then [] else leader grp)"
    by (simp add: deleteMember_def setMemberLeader_def)
  have o1: "generationId ?g1 = generationId grp" "groupStatus ?g1 = groupStatus grp"
    "Group.more ?g1 = Group.more grp" "groupId ?g1 = groupId grp"
    "protocolType ?g1 = protocolType grp" "supportedProtocol ?g1 = supportedProtocol grp"
    "canRebalance ?g1 = canRebalance grp" "sessionTimeoutMs ?g1 = sessionTimeoutMs grp"
    "partitionedTopic ?g1 = partitionedTopic grp"
    by (simp_all add: deleteMember_def setMemberLeader_def)
  have step: "leaveMembers grp (m # ms) = leaveMembers ?g1 ms"
    by simp
  have l2: "(if (if lm_MemberId m = leader grp then [] else leader grp) \<in> lm_MemberId ` set ms
             then [] else (if lm_MemberId m = leader grp then [] else leader grp))
            = (if leader grp \<in> lm_MemberId ` set (m # ms) then [] else leader grp)"
    by auto
  show ?case
    unfolding step using Cons.IH [of ?g1] l2
    by (simp only: m1 l1 o1 fmfilter_fmdrop_insert list.set image_insert simp_thms)
qed

lemma leaveMembers_effect:
  "leaveMembers grp ms =
     grp\<lparr>leader := (if leader grp \<in> lm_MemberId ` set ms then [] else leader grp),
         members := fmfilter (\<lambda>k. k \<notin> lm_MemberId ` set ms) (members grp)\<rparr>"
  by (rule Group.equality) (simp_all add: leaveMembers_fields)

lemma HandleLeaveGroup_left:
  assumes "gId \<noteq> []" and "fmlookup (groupManager g) (username @ gId) = Some grp"
  shows "HandleLeaveGroup g username gId ms =
     (g\<lparr>groupManager := fmupd (username @ gId)
          (grp\<lparr>leader := (if leader grp \<in> lm_MemberId ` set ms then [] else leader grp),
               members := fmfilter (\<lambda>k. k \<notin> lm_MemberId ` set ms) (members grp),
               generationId := generationId grp + 1,
               groupStatus := (if fmfilter (\<lambda>k. k \<notin> lm_MemberId ` set ms) (members grp) = fmempty
                               then Empty else PreparingRebalance)\<rparr>)
          (groupManager g)\<rparr>,
      \<lparr>lg_ErrorCode = NONE, lg_Members = ms\<rparr>)"
  using assms
  by (simp add: HandleLeaveGroup_def Let_def leaveMembers_effect setGroupStatus_def
                fcard_0_eq fmdom_empty_iff)

lemma HandleLeaveGroup_invalid:
  assumes "gId = [] \<or> fmlookup (groupManager g) (username @ gId) = None"
  shows "HandleLeaveGroup g username gId ms
           = (g, \<lparr>lg_ErrorCode = INVALID_GROUP_ID, lg_Members = []\<rparr>)"
  using assms by (auto simp: HandleLeaveGroup_def)

text \<open>One call: what happens to the group stored under a key.\<close>

lemma handle_lookup:
  obtains (same) "fmlookup (groupManager (handle g call)) key = fmlookup (groupManager g) key"
  | (join) rt username gId mId cId pType sessionTimeout ps grp grp' lg out where
      "call = (rt, JoinGroup username gId mId cId pType sessionTimeout ps)"
      "key = username @ gId"
      "grp = (case fmlookup (groupManager g) key of
                Some grp0 \<Rightarrow> grp0 | None \<Rightarrow> newGroup gId pType sessionTimeout)"
      "joinGroup (kafsarConfig g) rt grp mId cId pType ps = (grp', lg, out)"
      "fmlookup (groupManager (handle g call)) key = Some grp'"
  | (sync) rt username gId mId generation groupAssignments grp grp' out where
      "call = (rt, SyncGroup username gId mId generation groupAssignments)"
      "key = username @ gId"
      "fmlookup (groupManager g) key = Some grp"
      "mId |\<in>| fmdom (members grp)"
      "syncCompleting rt grp mId groupAssignments = (grp', out)"
      "fmlookup (groupManager (handle g call)) key = Some grp'"
  | (leave) rt username gId ms grp where
      "call = (rt, LeaveGroup username gId ms)"
      "key = username @ gId"
      "fmlookup (groupManager g) key = Some grp"
      "fmlookup (groupManager (handle g call)) key =
         Some (grp\<lparr>leader := (if leader grp \<in> lm_MemberId ` set ms then [] else leader grp),
               members := fmfilter (\<lambda>k. k \<notin> lm_MemberId ` set ms) (members grp),
               generationId := generationId grp + 1,
               groupStatus := (if fmfilter (\<lambda>k. k \<notin> lm_MemberId ` set ms) (members grp) = fmempty
                               then Empty else PreparingRebalance)\<rparr>)"
proof -
  obtain rt req where call: "call = (rt, req)" by (cases call)
  show thesis
  proof (cases req)
    case (JoinGroup username gId mId cId pType sessionTimeout ps)
    obtain g' lg out where h:
      "HandleJoinGroup g rt username gId mId cId pType sessionTimeout ps = (g', lg, out)"
      by (cases "HandleJoinGroup g rt username gId mId cId pType sessionTimeout ps") auto
    then have hg: "handle g call = g'"
      by (simp add: call JoinGroup)
    from h show thesis
    proof (cases rule: HandleJoinGroup_cases)
      case params
      with hg show thesis by (auto intro: same)
    next
      case (joined grp grp')
      show thesis
      proof (cases "key = username @ gId")
        case True
        with joined hg call JoinGroup show thesis
          by (auto intro: join)
      next
        case False
        with joined hg show thesis
          by (auto intro: same)
      qed
    qed
  next
    case (SyncGroup username gId mId generation groupAssignments)
    obtain g' out where h:
      "HandleSyncGroup g rt username gId mId generation groupAssignments = (g', out)"
      by (cases "HandleSyncGroup g rt username gId mId generation groupAssignments")
    then have hg: "handle g call = g'"
      by (simp add: call SyncGroup)
    from h show thesis
    proof (cases rule: HandleSyncGroup_cases)
      case same
      with hg show thesis by (auto intro: that(1))
    next
      case (completing grp grp')
      show thesis
      proof (cases "key = username @ gId")
        case True
        with completing hg call SyncGroup show thesis
          by (auto intro: sync)
      next
        case False
        with completing hg show thesis
          by (auto intro: that(1))
      qed
    qed
  next
    case (Heartbeat username gId mId)
    with call show thesis by (auto intro: same)
  next
    case (LeaveGroup username gId ms)
    show thesis
    proof (cases "gId = [] \<or> fmlookup (groupManager g) (username @ gId) = None")
      case True
      from HandleLeaveGroup_invalid [OF this] call LeaveGroup show thesis
        by (auto intro: same)
    next
      case False
      then obtain grp where g: "gId \<noteq> []" "fmlookup (groupManager g) (username @ gId) = Some grp"
        by auto
      show thesis
      proof (cases "key = username @ gId")
        case True
        with HandleLeaveGroup_left [OF g] call LeaveGroup g show thesis
          by (auto intro: leave)
      next
        case False
        with HandleLeaveGroup_left [OF g] call LeaveGroup show thesis
          by (auto intro: same)
      qed
    qed
  qed
qed

lemma handle_members_status_inv:
  assumes "\<And>k grp. fmlookup (groupManager g) k = Some grp \<Longrightarrow> members_status_inv grp"
    and "fmlookup (groupManager (handle g call)) key = Some grp'"
  shows "members_status_inv grp'"
proof (cases rule: handle_lookup [of g call key])
  case same
  with assms show ?thesis by simp
next
  case (join rt username gId mId cId pType sessionTimeout ps grp grp1 lg out)
  have "members_status_inv grp"
    unfolding join(3) using assms(1) [of key]
    by (cases "fmlookup (groupManager g) key") (simp_all add: newGroup_inv)
  from joinGroup_members_status_inv [OF join(4) this] join(5) assms(2)
  show ?thesis by simp
next
  case (sync rt username gId mId generation groupAssignments grp grp1 out)
  from syncCompleting_effect [OF sync(5) sync(4)] sync(4)
  have "members grp1 \<noteq> fmempty"
    by auto
  with sync(6) assms(2) show ?thesis
    by (simp add: members_status_inv_def)
next
  case (leave rt username gId ms grp)
  with assms(2) show ?thesis
    by (auto simp: members_status_inv_def)
qed

lemma run_members_status_inv:
  assumes "\<And>k grp. fmlookup (groupManager g) k = Some grp \<Longrightarrow> members_status_inv grp"
    and "fmlookup (groupManager (run g calls)) key = Some grp'"
  shows "members_status_inv grp'"
  using assms
proof (induction calls arbitrary: g)
  case Nil
  then show ?case by simp
next
  case (Cons call calls)
  have "\<And>k grp. fmlookup (groupManager (handle g call)) k = Some grp \<Longrightarrow> members_status_inv grp"
    using handle_members_status_inv [of g call] Cons.prems(1) by blast
  from Cons.IH [OF this] Cons.prems(2) show ?case by simp
qed

lemma handle_generationId:
  assumes "fmlookup (groupManager g) key = Some grp"
  shows "\<exists>grp'. fmlookup (groupManager (handle g call)) key = Some grp'
           \<and> (generationId grp' = generationId grp \<or> generationId grp' = generationId grp + 1)"
proof (cases rule: handle_lookup [of g call key])
  case same
  with assms show ?thesis by simp
next
  case (join rt username gId mId cId pType sessionTimeout ps grp0 grp1 lg out)
  from join(3) assms have "grp0 = grp" by simp
  with joinGroup_generationId [OF join(4)] join(5) show ?thesis by simp
next
  case (sync rt username gId mId generation groupAssignments grp0 grp1 out)
  from sync(3) assms have "grp0 = grp" by simp
  with syncCompleting_effect [OF sync(5) sync(4)] sync(6) show ?thesis by simp
next
  case (leave rt username gId ms grp0)
  from leave(3) assms have "grp0 = grp" by simp
  with leave(4) show ?thesis by simp
qed

lemma run_generationId:
  assumes "fmlookup (groupManager g) key = Some grp"
  shows "\<exists>grp'. fmlookup (groupManager (run g calls)) key = Some grp'
           \<and> generationId grp \<le> generationId grp'
           \<and> generationId grp' \<le> generationId grp + int (length calls)"
  using assms
proof (induction calls arbitrary: g grp)
  case Nil
  then show ?case by simp
next
  case (Cons call calls)
  from handle_generationId [OF Cons.prems, of call]
  obtain grp1 where g1: "fmlookup (groupManager (handle g call)) key = Some grp1"
    and s1: "generationId grp1 = generationId grp \<or> generationId grp1 = generationId grp + 1"
    by blast
  from Cons.IH [OF g1] obtain grp' where
    "fmlookup (groupManager (run (handle g call) calls)) key = Some grp'"
    "generationId grp1 \<le> generationId grp'"
    "generationId grp' \<le> generationId grp1 + int (length calls)"
    by blast
  with s1 show ?case by auto
qed

text \<open>A group starts with generation 0 or 1: the call that creates it.\<close>

lemma handle_created_generationId:
  assumes "fmlookup (groupManager g) key = None"
    and "fmlookup (groupManager (handle g call)) key = Some grp'"
  shows "0 \<le> generationId grp' \<and> generationId grp' \<le> 1"
proof (cases rule: handle_lookup [of g call key])
  case same
  with assms show ?thesis by simp
next
  case (join rt username gId mId cId pType sessionTimeout ps grp0 grp1 lg out)
  from join(3) assms(1) have "generationId grp0 = 0" by (simp add: newGroup_def)
  with joinGroup_generationId [OF join(4)] join(5) assms(2) show ?thesis by auto
next
  case (sync rt username gId mId generation groupAssignments grp0 grp1 out)
  with assms(1) show ?thesis by simp
next
  case (leave rt username gId ms grp0)
  with assms(1) show ?thesis by simp
qed

lemma run_generationId_le_calls:
  assumes "fmlookup (groupManager (run g calls)) key = Some grp'"
    and "fmlookup (groupManager g) key = None"
  shows "0 \<le> generationId grp' \<and> generationId grp' \<le> int (length calls)"
  using assms
proof (induction calls arbitrary: g)
  case Nil
  then show ?case by simp
next
  case (Cons call calls)
  show ?case
  proof (cases "fmlookup (groupManager (handle g call)) key")
    case None
    from Cons.IH [OF _ None] Cons.prems(1) show ?thesis by auto
  next
    case (Some grp1)
    from handle_created_generationId [OF Cons.prems(2) Some]
    have b: "0 \<le> generationId grp1" "generationId grp1 \<le> 1" by simp_all
    from run_generationId [OF Some, of calls] Cons.prems(1)
    have "generationId grp1 \<le> generationId grp'"
      "generationId grp' \<le> generationId grp1 + int (length calls)"
      by auto
    with b show ?thesis by auto
  qed
qed

section \<open>The concrete states, evaluated\<close>

lemma coordinator2_config: "kafsarConfig coordinator2 = config0"
  by code_simp

lemma coordinator1_group: "fmlookup (groupManager coordinator1) ''usrg'' = Some group1"
  by code_simp

lemma coordinator2_group: "fmlookup (groupManager coordinator2) ''usrg'' = Some group2"
  by code_simp

lemma run_calls0_coordinator2:
  "run coordinator0 (take 2 calls0) = coordinator2"
  by (simp add: calls0_def coordinator2_def coordinator1_def)


lemma broker0_user:
  "fmlookup (userInfoManager broker0) ''10.0.0.1:4000''
     = Some \<lparr>userUsername = ''usr'', userClientId = ''c''\<rparr>"
  by (simp add: broker0_def)

lemma broker0_reader:
  "fmlookup (readerManager broker0) (''persistent://public/default/t-partition-0'' @ ''c'')
     = Some reader0"
  by (simp add: broker0_def)

text \<open>
  The calls of \<open>calls0\<close> as threads that take their steps one call after the other: the
  groups are those of the coordinator that takes each call as a whole. After the first
  consumer has joined and synced the groups are \<open>groups2\<close>.
\<close>

lemma schedule_one_at_a_time:
  "coordinatorOf config0 (fst (schedule config0 (scheduleBarrier @ turns 2 1 False)
                                 (fmempty, callersEvict)))
     = run coordinator0 calls0
   \<and> coordinatorOf config0 (fst (schedule config0 (turns 0 31 False @ turns 1 15 False)
                                 (fmempty, callersEvict)))
     = coordinator2
   \<and> fst (schedule config0 (turns 0 31 False @ turns 1 15 False) (fmempty, callersEvict)) = groups2"
  by code_simp

section \<open>JoinGroup: parameter validation\<close>

text \<open>
  Claim C5. \<^verbatim>\<open>HandleJoinGroup\<close> checks its parameters first, the group id before the
  session timeout. A call with the empty group id is answered \<^verbatim>\<open>INVALID_GROUP_ID\<close>; a
  call (with a group id) whose session timeout is below \<^verbatim>\<open>GroupMinSessionTimeoutMs\<close> or
  above \<^verbatim>\<open>GroupMaxSessionTimeoutMs\<close> is answered \<^verbatim>\<open>INVALID_SESSION_TIMEOUT\<close>. In both
  cases the call returns before any group is looked up or created: the coordinator,
  with its group map and every group in it, is returned as it was.
\<close>

theorem HandleJoinGroup_params_rejected:
  "(gId = [] \<longrightarrow>
      HandleJoinGroup g rt username gId mId cId pType sessionTimeout ps
        = (g, Some ParamsCheckFailed, Inr (joinErrorResp mId INVALID_GROUP_ID)))
   \<and> (gId \<noteq> [] \<and> (sessionTimeout < GroupMinSessionTimeoutMs (kafsarConfig g)
                     \<or> sessionTimeout > GroupMaxSessionTimeoutMs (kafsarConfig g)) \<longrightarrow>
      HandleJoinGroup g rt username gId mId cId pType sessionTimeout ps
        = (g, Some ParamsCheckFailed, Inr (joinErrorResp mId INVALID_SESSION_TIMEOUT)))"
  by (simp add: HandleJoinGroup_def joinGroupParamsCheck_def)

theorem HandleJoinGroup_params_rejected_witness:
  "HandleJoinGroup coordinator2 (runtime0 ''u2'') ''usr'' [] [] ''c'' ''consumer'' 10000 range1
     = (coordinator2, Some ParamsCheckFailed, Inr (joinErrorResp [] INVALID_GROUP_ID))
   \<and> HandleJoinGroup coordinator2 (runtime0 ''u2'') ''usr'' ''g'' [] ''c'' ''consumer'' 5999 range1
     = (coordinator2, Some ParamsCheckFailed, Inr (joinErrorResp [] INVALID_SESSION_TIMEOUT))
   \<and> HandleJoinGroup coordinator2 (runtime0 ''u2'') ''usr'' ''g'' [] ''c'' ''consumer'' 30001 range1
     = (coordinator2, Some ParamsCheckFailed, Inr (joinErrorResp [] INVALID_SESSION_TIMEOUT))"
  using HandleJoinGroup_params_rejected
          [where g = coordinator2 and rt = "runtime0 ''u2''" and username = "''usr''"
             and gId = "[]" and mId = "[]" and cId = "''c''" and pType = "''consumer''"
             and sessionTimeout = 10000 and ps = range1]
        HandleJoinGroup_params_rejected
          [where g = coordinator2 and rt = "runtime0 ''u2''" and username = "''usr''"
             and gId = "''g''" and mId = "[]" and cId = "''c''" and pType = "''consumer''"
             and sessionTimeout = 5999 and ps = range1]
        HandleJoinGroup_params_rejected
          [where g = coordinator2 and rt = "runtime0 ''u2''" and username = "''usr''"
             and gId = "''g''" and mId = "[]" and cId = "''c''" and pType = "''consumer''"
             and sessionTimeout = 30001 and ps = range1]
  by (simp add: coordinator2_config config0_def)

section \<open>Group invariants\<close>

text \<open>
  Claim C2 says that a group whose member map is empty has status Empty or Dead,
  whatever calls came before. Here four calls reach a new coordinator. A first consumer
  joins, gets the id \<^verbatim>\<open>c-u1\<close>, and syncs: the group is Stable. A second consumer joins
  with the empty id, is added as \<^verbatim>\<open>c-u2\<close> and waits at the join barrier, which times
  out since \<^verbatim>\<open>c-u1\<close> does not rejoin (\<open>scheduleBarrier\<close>). Between the return of
  \<^verbatim>\<open>awaitingJoin\<close> (line 202) and the \<^verbatim>\<open>deleteMember\<close> of line 206, a LeaveGroup call
  for \<^verbatim>\<open>c-u1\<close> runs: it removes \<^verbatim>\<open>c-u1\<close>, finds the map not empty (line 343) and sets
  PreparingRebalance. Then \<^verbatim>\<open>c-u2\<close> is removed. All four calls have answered, the
  member map is empty and the status is PreparingRebalance. \<^verbatim>\<open>HandleLeaveGroup\<close> sets
  the status Empty when it has emptied the map (line 344); the removal of a joiner
  after a failed barrier does not look at the map. With calls taken one after the other
  the claim holds (lemma \<open>run_members_status_inv\<close>): it takes a call that runs while
  another one is under way to come to this state.
\<close>

theorem evicted_joiner_leaves_empty_group_PreparingRebalance:
  "map_option (fmdom \<circ> members \<circ> theGroup)
       (fmlookup (fst (schedule config0 scheduleBarrier (fmempty, callersEvict))) ''usrg'')
     = Some {|''c-u1'', ''c-u2''|}
   \<and> map answerOf (snd (schedule config0 scheduleBarrier (fmempty, callersEvict)))
     = [JoinAnswer (Inr \<lparr>jg_ErrorCode = NONE, jg_GenerationId = 1,
                         jg_ProtocolType = Some ''consumer'', jg_ProtocolName = ''range'',
                         jg_LeaderId = ''c-u1'', jg_MemberId = ''c-u1'',
                         jg_Members = {|(''c-u1'', [1])|}\<rparr>),
        SyncAnswer (Inr \<lparr>sg_ErrorCode = NONE, sg_MemberAssignment = [7]\<rparr>),
        Running, Running]
   \<and> joinPlace (snd (schedule config0 scheduleBarrier (fmempty, callersEvict)) ! 2)
     = Some (Evict JoinWaitTimeout)
   \<and> map answerOf (snd (schedule config0 scheduleEvict (fmempty, callersEvict)))
     = [JoinAnswer (Inr \<lparr>jg_ErrorCode = NONE, jg_GenerationId = 1,
                         jg_ProtocolType = Some ''consumer'', jg_ProtocolName = ''range'',
                         jg_LeaderId = ''c-u1'', jg_MemberId = ''c-u1'',
                         jg_Members = {|(''c-u1'', [1])|}\<rparr>),
        SyncAnswer (Inr \<lparr>sg_ErrorCode = NONE, sg_MemberAssignment = [7]\<rparr>),
        JoinAnswer (Inr (joinErrorResp ''c-u2'' COORDINATOR_LOAD_IN_PROGRESS)),
        LeaveAnswer \<lparr>lg_ErrorCode = NONE, lg_Members = leave1\<rparr>]
   \<and> map_option (members \<circ> theGroup)
       (fmlookup (fst (schedule config0 scheduleEvict (fmempty, callersEvict))) ''usrg'')
     = Some fmempty
   \<and> map_option (groupStatus \<circ> theGroup)
       (fmlookup (fst (schedule config0 scheduleEvict (fmempty, callersEvict))) ''usrg'')
     = Some PreparingRebalance"
  by code_simp

text \<open>
  Claim C4. A call of the coordinator (JoinGroup with its rebalance driver, SyncGroup,
  Heartbeat, LeaveGroup) keeps every group, and leaves the group's generation as it is
  or increments it by one; so over any sequence of calls the generation of a group never
  decreases.
\<close>

theorem generationId_never_decreases:
  assumes "fmlookup (groupManager g) key = Some grp"
  shows "(\<exists>grp'. fmlookup (groupManager (handle g call)) key = Some grp'
            \<and> (generationId grp' = generationId grp \<or> generationId grp' = generationId grp + 1))
       \<and> (\<exists>grp'. fmlookup (groupManager (run g calls)) key = Some grp'
            \<and> generationId grp \<le> generationId grp')"
  using handle_generationId [OF assms, of call] run_generationId [OF assms, of calls]
  by blast

theorem generationId_never_decreases_witness:
  "fmlookup (groupManager coordinator2) ''usrg'' = Some group2
   \<and> (\<exists>grp'. fmlookup (groupManager
              (handle coordinator2 (runtime0 ''u2'', LeaveGroup ''usr'' ''g'' leave1))) ''usrg''
              = Some grp'
          \<and> (generationId grp' = generationId group2 \<or> generationId grp' = generationId group2 + 1))
   \<and> (\<exists>grp'. fmlookup (groupManager
              (run coordinator2 [(runtime0 ''u2'', LeaveGroup ''usr'' ''g'' leave1),
                                 (runtime0 ''u3'', Heartbeat ''usr'' ''g'' ''c-u1'')])) ''usrg''
              = Some grp'
          \<and> generationId group2 \<le> generationId grp')"
  using generationId_never_decreases [OF coordinator2_group,
          of "(runtime0 ''u2'', LeaveGroup ''usr'' ''g'' leave1)"
             "[(runtime0 ''u2'', LeaveGroup ''usr'' ''g'' leave1),
               (runtime0 ''u3'', Heartbeat ''usr'' ''g'' ''c-u1'')]"]
        coordinator2_group
  by simp

section \<open>JoinGroup: a joiner whose barrier fails\<close>

text \<open>
  Claim C3, as stated, counts as a new member also a caller whose non-empty member id
  the group does not hold. \<^verbatim>\<open>HandleJoinGroup\<close> adds such a caller like one with the empty
  id, but removes the added member after a failed barrier only when
  \<^verbatim>\<open>isNewMember\<close>, that is when the id passed was empty. Here the group of
  \<open>coordinator2\<close> is Stable with the member \<^verbatim>\<open>c-u1\<close>; a caller with the unknown id
  \<^verbatim>\<open>ghost\<close> is added, its barrier times out (the other member does not rejoin), the
  answer is \<^verbatim>\<open>COORDINATOR_LOAD_IN_PROGRESS\<close>, and \<^verbatim>\<open>ghost\<close> is still a member. The
  call is taken first as a whole, with nothing else going on, and then step by step
  among other callers that do nothing in the meantime (\<open>othersStable\<close>).
\<close>

theorem unknown_member_id_stays_after_barrier_timeout:
  "\<not> groupHasMember coordinator2 ''usr'' ''g'' ''ghost''
   \<and> fst (snd (HandleJoinGroup coordinator2 (runtime0 ''u2'') ''usr'' ''g'' ''ghost'' ''c''
                  ''consumer'' 10000 range1))
       = Some (JoinFailedCase JoinWaitTimeout)
   \<and> snd (snd (HandleJoinGroup coordinator2 (runtime0 ''u2'') ''usr'' ''g'' ''ghost'' ''c''
                  ''consumer'' 10000 range1))
       = Inr (joinErrorResp ''ghost'' COORDINATOR_LOAD_IN_PROGRESS)
   \<and> groupHasMember
        (fst (HandleJoinGroup coordinator2 (runtime0 ''u2'') ''usr'' ''g'' ''ghost'' ''c''
                ''consumer'' 10000 range1))
        ''usr'' ''g'' ''ghost''
   \<and> map_option (fmdom \<circ> members \<circ> theGroup) (fmlookup groups2 ''usrg'') = Some {|''c-u1''|}
   \<and> j_pc (snd (joinRun config0 othersStable groups2 (joinThread (joinAs ''ghost'' ''u2''))))
       = JoinDone (Some (JoinFailedCase JoinWaitTimeout))
           (Inr (joinErrorResp ''ghost'' COORDINATOR_LOAD_IN_PROGRESS))
   \<and> map_option (fmdom \<circ> members \<circ> theGroup)
         (fmlookup (fst (joinRun config0 othersStable groups2 (joinThread (joinAs ''ghost'' ''u2''))))
            ''usrg'')
       = Some {|''c-u1'', ''ghost''|}"
  by code_simp

text \<open>
  Facts about one step, and about a run, of a JoinGroup call with the empty member id
  among other callers.
\<close>

lemma joinAt_call:
  "j_call (snd (joinAt (j_pc t) config expired c t)) = j_call t"
  by (cases "j_pc t")
     (simp_all add: jump_def joinReturn_def
        enterBranch_def admitted_def rebalanced_def barrierFailed_def barrierPassed_def
        leaderPicked_def Let_def
      split: branch.splits rebalance_caller.splits option.splits sum.splits list.splits)

lemma joinAt_newIdInv:
  assumes "jc_memberId (j_call t) = EmptyMemberId" and "newIdInv t"
  shows "newIdInv (snd (joinAt (j_pc t) config expired c t))"
  using assms
  by (cases "j_pc t")
     (simp_all add: newIdInv_def beforeNewId_def joinFinished_def jump_def joinReturn_def
        enterBranch_def admitted_def rebalanced_def barrierFailed_def barrierPassed_def
        leaderPicked_def isNewMember_def EmptyMemberId_def Let_def
      split: branch.splits rebalance_caller.splits option.splits sum.splits list.splits)

lemma joinAt_barrier_failed:
  assumes "jc_memberId (j_call t) = EmptyMemberId" and "newIdInv t" and "\<not> joinFinished t"
    and "j_pc (snd (joinAt (j_pc t) config expired c t)) = JoinDone (Some (JoinFailedCase e)) out"
  shows "out = Inr (joinErrorResp (jc_clientId (j_call t) @ ''-'' @ jc_uuid (j_call t))
                      COORDINATOR_LOAD_IN_PROGRESS)
         \<and> fmlookup (members (theGroup (fst (joinAt (j_pc t) config expired c t))))
              (jc_clientId (j_call t) @ ''-'' @ jc_uuid (j_call t)) = None"
  using assms
  by (cases "j_pc t")
     (simp_all add: newIdInv_def beforeNewId_def joinFinished_def jump_def joinReturn_def
        enterBranch_def admitted_def rebalanced_def barrierFailed_def barrierPassed_def
        leaderPicked_def isNewMember_def EmptyMemberId_def Let_def removeMember_def
        deleteMember_def
      split: if_splits branch.splits rebalance_caller.splits option.splits sum.splits
             list.splits)

lemma joinStart_new_member:
  assumes "jc_memberId (j_call t) = EmptyMemberId" and "j_pc t = JoinStart"
  shows "j_call (snd (joinStart config groups t)) = j_call t
         \<and> newIdInv (snd (joinStart config groups t))
         \<and> (\<forall>e out. j_pc (snd (joinStart config groups t)) \<noteq> JoinDone (Some (JoinFailedCase e)) out)"
  using assms
  by (simp add: joinStart_def joinGroupParamsCheck_def newIdInv_def beforeNewId_def
        joinFinished_def EmptyMemberId_def)

lemma joinStep_new_member:
  assumes new: "jc_memberId (j_call t) = EmptyMemberId" and inv: "newIdInv t"
    and run: "\<not> joinFinished t"
  shows "j_call (snd (joinStep config expired groups t)) = j_call t
         \<and> newIdInv (snd (joinStep config expired groups t))
         \<and> (\<forall>e out. j_pc (snd (joinStep config expired groups t))
                        = JoinDone (Some (JoinFailedCase e)) out \<longrightarrow>
               out = Inr (joinErrorResp (jc_clientId (j_call t) @ ''-'' @ jc_uuid (j_call t))
                            COORDINATOR_LOAD_IN_PROGRESS)
               \<and> (\<exists>c. fmlookup (fst (joinStep config expired groups t)) (joinKey t) = Some c
                      \<and> fmlookup (members (theGroup c))
                           (jc_clientId (j_call t) @ ''-'' @ jc_uuid (j_call t)) = None))"
proof (cases "j_pc t = JoinStart")
  case True
  with joinStart_new_member [OF new True, of config groups] show ?thesis
    by (simp add: joinStep_def)
next
  case False
  show ?thesis
  proof (cases "fmlookup groups (joinKey t)")
    case None
    with False inv run show ?thesis
      by (auto simp: joinStep_def joinFinished_def)
  next
    case (Some c)
    obtain c1 t1 where at: "joinAt (j_pc t) config expired c t = (c1, t1)"
      by (cases "joinAt (j_pc t) config expired c t")
    with False Some have step: "joinStep config expired groups t = (fmupd (joinKey t) c1 groups, t1)"
      by (simp add: joinStep_def)
    from joinAt_call [of t config expired c] at have c: "j_call t1 = j_call t"
      by simp
    from joinAt_newIdInv [OF new inv, of config expired c] at have i: "newIdInv t1"
      by simp
    have "out = Inr (joinErrorResp (jc_clientId (j_call t) @ ''-'' @ jc_uuid (j_call t))
                            COORDINATOR_LOAD_IN_PROGRESS)
          \<and> fmlookup (members (theGroup c1))
               (jc_clientId (j_call t) @ ''-'' @ jc_uuid (j_call t)) = None"
      if "j_pc t1 = JoinDone (Some (JoinFailedCase e)) out" for e out
      using joinAt_barrier_failed [OF new inv run, of config expired c e out] at that
      by simp
    with c i show ?thesis
      unfolding step by simp
  qed
qed

lemma joinRun_finished: "joinFinished t \<Longrightarrow> joinRun config others groups t = (groups, t)"
  by (cases others) auto

lemma joinRun_new_member:
  assumes "jc_memberId (j_call t) = EmptyMemberId" and "newIdInv t" and "\<not> joinFinished t"
    and "joinRun config others groups t = (groups', t')"
    and "j_pc t' = JoinDone (Some (JoinFailedCase e)) out"
  shows "out = Inr (joinErrorResp (jc_clientId (j_call t) @ ''-'' @ jc_uuid (j_call t))
                      COORDINATOR_LOAD_IN_PROGRESS)
         \<and> (\<exists>c. fmlookup groups' (joinKey t) = Some c
                \<and> fmlookup (members (theGroup c))
                     (jc_clientId (j_call t) @ ''-'' @ jc_uuid (j_call t)) = None)"
  using assms
proof (induction others arbitrary: groups t)
  case Nil
  then show ?case
    by (simp add: joinFinished_def)
next
  case (Cons turn others)
  obtain expired env where turn: "turn = (expired, env)"
    by (cases turn)
  obtain groups1 t1 where step: "joinStep config expired (env groups) t = (groups1, t1)"
    by (cases "joinStep config expired (env groups) t")
  from Cons.prems(3,4) turn step have run: "joinRun config others groups1 t1 = (groups', t')"
    by simp
  from joinStep_new_member [OF Cons.prems(1,2,3), of config expired "env groups"] step
  have c: "j_call t1 = j_call t" and i: "newIdInv t1"
    and d: "\<And>e out. j_pc t1 = JoinDone (Some (JoinFailedCase e)) out \<Longrightarrow>
               out = Inr (joinErrorResp (jc_clientId (j_call t) @ ''-'' @ jc_uuid (j_call t))
                            COORDINATOR_LOAD_IN_PROGRESS)
               \<and> (\<exists>c. fmlookup groups1 (joinKey t) = Some c
                      \<and> fmlookup (members (theGroup c))
                           (jc_clientId (j_call t) @ ''-'' @ jc_uuid (j_call t)) = None)"
    by simp_all
  show ?case
  proof (cases "joinFinished t1")
    case True
    with run joinRun_finished [OF True, of config others groups1]
    have "groups' = groups1" "t' = t1"
      by simp_all
    with d [of e out] Cons.prems(5) show ?thesis
      by simp
  next
    case False
    from c have k: "joinKey t1 = joinKey t"
      by (simp add: joinKey_def)
    from Cons.IH [OF _ i False run Cons.prems(5)] c Cons.prems(1) k show ?thesis
      by simp
  qed
qed

text \<open>
  Claim C3, amended. For a JoinGroup caller with the empty member id whose await-join
  barrier fails (it times out, or finds the member gone), whatever the other callers do
  while the call is under way: the answer is \<^verbatim>\<open>COORDINATOR_LOAD_IN_PROGRESS\<close> with the
  generated id \<^verbatim>\<open>clientId-uuid\<close>, and when the call returns, right after its last step,
  the member map of the group does not hold that id. This holds in each of the three
  branches of \<^verbatim>\<open>HandleJoinGroup\<close> (lines 113-115, 160-162 and 205-207).
\<close>

theorem new_member_evicted_when_barrier_fails:
  assumes "jc_memberId call = EmptyMemberId"
    and "joinRun config others groups (joinThread call) = (groups', t)"
    and "j_pc t = JoinDone (Some (JoinFailedCase e)) out"
  shows "out = Inr (joinErrorResp (jc_clientId call @ ''-'' @ jc_uuid call)
                      COORDINATOR_LOAD_IN_PROGRESS)
         \<and> (\<exists>c. fmlookup groups' (jc_username call @ jc_groupId call) = Some c
                \<and> fmlookup (members (theGroup c)) (jc_clientId call @ ''-'' @ jc_uuid call) = None)"
proof -
  have c: "j_call (joinThread call) = call"
    and i: "newIdInv (joinThread call)"
    and f: "\<not> joinFinished (joinThread call)"
    using assms(1)
    by (simp_all add: joinThread_def newIdInv_def beforeNewId_def joinFinished_def)
  from joinRun_new_member [OF _ i f assms(2,3)] c assms(1) show ?thesis
    by (simp add: joinKey_def)
qed

text \<open>
  The four runs: the barrier fails in the Empty/Stable branch, in the PreparingRebalance
  branch and in the CompletingRebalance branch by its timeout, and once because the
  member is gone.
\<close>

lemma joinAs_new: "jc_memberId (joinAs [] ''u2'') = EmptyMemberId"
  by (simp add: joinAs_def EmptyMemberId_def)

lemma run_othersStable:
  "j_pc (snd (joinRun config0 othersStable groups2 (joinThread (joinAs [] ''u2''))))
     = JoinDone (Some (JoinFailedCase JoinWaitTimeout))
         (Inr (joinErrorResp ''c-u2'' COORDINATOR_LOAD_IN_PROGRESS))
   \<and> j_branch (snd (joinRun config0 othersStable groups2 (joinThread (joinAs [] ''u2''))))
       = OnStable"
  by code_simp

lemma run_othersPreparing:
  "j_pc (snd (joinRun config0 othersPreparing groupsPreparing
                (joinThread (joinAs [] ''u2''))))
     = JoinDone (Some (JoinFailedCase JoinWaitTimeout))
         (Inr (joinErrorResp ''c-u2'' COORDINATOR_LOAD_IN_PROGRESS))
   \<and> j_branch (snd (joinRun config0 othersPreparing groupsPreparing
                      (joinThread (joinAs [] ''u2''))))
       = OnPreparing"
  by code_simp

lemma run_othersCompleting:
  "j_pc (snd (joinRun config0 othersCompleting groupsCompleting
                (joinThread (joinAs [] ''u2''))))
     = JoinDone (Some (JoinFailedCase JoinWaitTimeout))
         (Inr (joinErrorResp ''c-u2'' COORDINATOR_LOAD_IN_PROGRESS))
   \<and> j_branch (snd (joinRun config0 othersCompleting groupsCompleting
                      (joinThread (joinAs [] ''u2''))))
       = OnCompleting"
  by code_simp

lemma run_othersMemberGone:
  "j_pc (snd (joinRun config0 othersMemberGone groups2 (joinThread (joinAs [] ''u2''))))
     = JoinDone (Some (JoinFailedCase CurMemberMissing))
         (Inr (joinErrorResp ''c-u2'' COORDINATOR_LOAD_IN_PROGRESS))"
  by code_simp

theorem new_member_evicted_when_barrier_fails_witness:
  "jc_memberId (joinAs [] ''u2'') = EmptyMemberId
   \<and> (j_pc (snd (joinRun config0 othersStable groups2 (joinThread (joinAs [] ''u2''))))
         = JoinDone (Some (JoinFailedCase JoinWaitTimeout))
             (Inr (joinErrorResp ''c-u2'' COORDINATOR_LOAD_IN_PROGRESS))
       \<and> j_branch (snd (joinRun config0 othersStable groups2 (joinThread (joinAs [] ''u2''))))
           = OnStable)
   \<and> (\<exists>c. fmlookup (fst (joinRun config0 othersStable groups2 (joinThread (joinAs [] ''u2''))))
            ''usrg'' = Some c
        \<and> fmlookup (members (theGroup c)) ''c-u2'' = None)
   \<and> (j_pc (snd (joinRun config0 othersPreparing groupsPreparing
                    (joinThread (joinAs [] ''u2''))))
         = JoinDone (Some (JoinFailedCase JoinWaitTimeout))
             (Inr (joinErrorResp ''c-u2'' COORDINATOR_LOAD_IN_PROGRESS))
       \<and> j_branch (snd (joinRun config0 othersPreparing groupsPreparing
                          (joinThread (joinAs [] ''u2''))))
           = OnPreparing)
   \<and> (\<exists>c. fmlookup (fst (joinRun config0 othersPreparing
                            groupsPreparing
                            (joinThread (joinAs [] ''u2''))))
            ''usrg'' = Some c
        \<and> fmlookup (members (theGroup c)) ''c-u2'' = None)
   \<and> (j_pc (snd (joinRun config0 othersCompleting groupsCompleting
                    (joinThread (joinAs [] ''u2''))))
         = JoinDone (Some (JoinFailedCase JoinWaitTimeout))
             (Inr (joinErrorResp ''c-u2'' COORDINATOR_LOAD_IN_PROGRESS))
       \<and> j_branch (snd (joinRun config0 othersCompleting
                          groupsCompleting
                          (joinThread (joinAs [] ''u2''))))
           = OnCompleting)
   \<and> (\<exists>c. fmlookup (fst (joinRun config0 othersCompleting
                            groupsCompleting
                            (joinThread (joinAs [] ''u2''))))
            ''usrg'' = Some c
        \<and> fmlookup (members (theGroup c)) ''c-u2'' = None)
   \<and> j_pc (snd (joinRun config0 othersMemberGone groups2 (joinThread (joinAs [] ''u2''))))
         = JoinDone (Some (JoinFailedCase CurMemberMissing))
             (Inr (joinErrorResp ''c-u2'' COORDINATOR_LOAD_IN_PROGRESS))
   \<and> (\<exists>c. fmlookup (fst (joinRun config0 othersMemberGone groups2
                            (joinThread (joinAs [] ''u2''))))
            ''usrg'' = Some c
        \<and> fmlookup (members (theGroup c)) ''c-u2'' = None)"
proof -
  have ids: "jc_clientId (joinAs [] ''u2'') @ ''-'' @ jc_uuid (joinAs [] ''u2'') = ''c-u2''"
    "jc_username (joinAs [] ''u2'') @ jc_groupId (joinAs [] ''u2'') = ''usrg''"
    by (simp_all add: joinAs_def)
  note evicted = new_member_evicted_when_barrier_fails [OF joinAs_new prod.collapse [symmetric],
                   THEN conjunct2, unfolded ids]
  from evicted [OF run_othersStable [THEN conjunct1]]
       evicted [OF run_othersPreparing [THEN conjunct1]]
       evicted [OF run_othersCompleting [THEN conjunct1]]
       evicted [OF run_othersMemberGone]
       joinAs_new run_othersStable run_othersPreparing run_othersCompleting run_othersMemberGone
  show ?thesis
    by (intro conjI) (erule conjunct1 conjunct2 | assumption)+
qed

section \<open>SyncGroup\<close>

text \<open>
  Claim C6. \<^verbatim>\<open>HandleSyncGroup\<close> makes its checks in this order: the empty group id is
  answered \<^verbatim>\<open>INVALID_GROUP_ID\<close>, then the empty member id \<^verbatim>\<open>MEMBER_ID_REQUIRED\<close>, then
  an unknown group \<^verbatim>\<open>INVALID_GROUP_ID\<close>, then an unknown member \<^verbatim>\<open>UNKNOWN_MEMBER_ID\<close>.
  When the group holds the member, status Empty or Dead is answered
  \<^verbatim>\<open>UNKNOWN_MEMBER_ID\<close>, PreparingRebalance \<^verbatim>\<open>REBALANCE_IN_PROGRESS\<close>, and Stable
  \<^verbatim>\<open>NONE\<close> with the assignment stored for the member. None of these calls changes the
  coordinator.
\<close>

theorem HandleSyncGroup_validation:
  "(gId = [] \<longrightarrow>
      HandleSyncGroup g rt username gId mId generation groupAssignments
        = (g, Inr \<lparr>sg_ErrorCode = INVALID_GROUP_ID, sg_MemberAssignment = []\<rparr>))
   \<and> (gId \<noteq> [] \<and> mId = [] \<longrightarrow>
      HandleSyncGroup g rt username gId mId generation groupAssignments
        = (g, Inr \<lparr>sg_ErrorCode = MEMBER_ID_REQUIRED, sg_MemberAssignment = []\<rparr>))
   \<and> (gId \<noteq> [] \<and> mId \<noteq> [] \<and> fmlookup (groupManager g) (username @ gId) = None \<longrightarrow>
      HandleSyncGroup g rt username gId mId generation groupAssignments
        = (g, Inr \<lparr>sg_ErrorCode = INVALID_GROUP_ID, sg_MemberAssignment = []\<rparr>))
   \<and> (\<forall>grp. gId \<noteq> [] \<and> mId \<noteq> [] \<and> fmlookup (groupManager g) (username @ gId) = Some grp
          \<and> fmlookup (members grp) mId = None \<longrightarrow>
      HandleSyncGroup g rt username gId mId generation groupAssignments
        = (g, Inr \<lparr>sg_ErrorCode = UNKNOWN_MEMBER_ID, sg_MemberAssignment = []\<rparr>))
   \<and> (\<forall>grp curMember. gId \<noteq> [] \<and> mId \<noteq> []
          \<and> fmlookup (groupManager g) (username @ gId) = Some grp
          \<and> fmlookup (members grp) mId = Some curMember \<longrightarrow>
        (groupStatus grp = Empty \<or> groupStatus grp = Dead \<longrightarrow>
           HandleSyncGroup g rt username gId mId generation groupAssignments
             = (g, Inr \<lparr>sg_ErrorCode = UNKNOWN_MEMBER_ID, sg_MemberAssignment = []\<rparr>))
      \<and> (groupStatus grp = PreparingRebalance \<longrightarrow>
           HandleSyncGroup g rt username gId mId generation groupAssignments
             = (g, Inr \<lparr>sg_ErrorCode = REBALANCE_IN_PROGRESS, sg_MemberAssignment = []\<rparr>))
      \<and> (groupStatus grp = Stable \<longrightarrow>
           HandleSyncGroup g rt username gId mId generation groupAssignments
             = (g, Inr \<lparr>sg_ErrorCode = NONE, sg_MemberAssignment = assignment curMember\<rparr>)))"
  by (simp add: HandleSyncGroup_def syncGroupParamsCheck_def)

theorem HandleSyncGroup_validation_witness:
  "HandleSyncGroup coordinator0 (runtime0 ''u1'') ''usr'' [] ''c-u1'' 1 assign1
     = (coordinator0, Inr \<lparr>sg_ErrorCode = INVALID_GROUP_ID, sg_MemberAssignment = []\<rparr>)
   \<and> HandleSyncGroup coordinator0 (runtime0 ''u1'') ''usr'' ''g'' [] 1 assign1
     = (coordinator0, Inr \<lparr>sg_ErrorCode = MEMBER_ID_REQUIRED, sg_MemberAssignment = []\<rparr>)
   \<and> HandleSyncGroup coordinator0 (runtime0 ''u1'') ''usr'' ''g'' ''c-u1'' 1 assign1
     = (coordinator0, Inr \<lparr>sg_ErrorCode = INVALID_GROUP_ID, sg_MemberAssignment = []\<rparr>)
   \<and> HandleSyncGroup (coordinatorWith group2) (runtime0 ''u1'') ''usr'' ''g'' ''ghost'' 1 assign1
     = (coordinatorWith group2, Inr \<lparr>sg_ErrorCode = UNKNOWN_MEMBER_ID, sg_MemberAssignment = []\<rparr>)
   \<and> HandleSyncGroup (coordinatorWith (group2\<lparr>groupStatus := Empty\<rparr>)) (runtime0 ''u1'')
        ''usr'' ''g'' ''c-u1'' 1 assign1
     = (coordinatorWith (group2\<lparr>groupStatus := Empty\<rparr>),
        Inr \<lparr>sg_ErrorCode = UNKNOWN_MEMBER_ID, sg_MemberAssignment = []\<rparr>)
   \<and> HandleSyncGroup (coordinatorWith (group2\<lparr>groupStatus := PreparingRebalance\<rparr>))
        (runtime0 ''u1'') ''usr'' ''g'' ''c-u1'' 1 assign1
     = (coordinatorWith (group2\<lparr>groupStatus := PreparingRebalance\<rparr>),
        Inr \<lparr>sg_ErrorCode = REBALANCE_IN_PROGRESS, sg_MemberAssignment = []\<rparr>)
   \<and> HandleSyncGroup (coordinatorWith group2) (runtime0 ''u1'') ''usr'' ''g'' ''c-u1'' 1 []
     = (coordinatorWith group2, Inr \<lparr>sg_ErrorCode = NONE, sg_MemberAssignment = [7]\<rparr>)"
  using HandleSyncGroup_validation
          [where g = coordinator0 and rt = "runtime0 ''u1''" and username = "''usr''"
             and gId = "[]" and mId = "''c-u1''" and generation = 1 and groupAssignments = assign1]
        HandleSyncGroup_validation
          [where g = coordinator0 and rt = "runtime0 ''u1''" and username = "''usr''"
             and gId = "''g''" and mId = "[]" and generation = 1 and groupAssignments = assign1]
        HandleSyncGroup_validation
          [where g = coordinator0 and rt = "runtime0 ''u1''" and username = "''usr''"
             and gId = "''g''" and mId = "''c-u1''" and generation = 1
             and groupAssignments = assign1]
        HandleSyncGroup_validation
          [where g = "coordinatorWith group2" and rt = "runtime0 ''u1''" and username = "''usr''"
             and gId = "''g''" and mId = "''ghost''" and generation = 1
             and groupAssignments = assign1]
        HandleSyncGroup_validation
          [where g = "coordinatorWith (group2\<lparr>groupStatus := Empty\<rparr>)"
             and rt = "runtime0 ''u1''" and username = "''usr''"
             and gId = "''g''" and mId = "''c-u1''" and generation = 1
             and groupAssignments = assign1]
        HandleSyncGroup_validation
          [where g = "coordinatorWith (group2\<lparr>groupStatus := PreparingRebalance\<rparr>)"
             and rt = "runtime0 ''u1''" and username = "''usr''"
             and gId = "''g''" and mId = "''c-u1''" and generation = 1
             and groupAssignments = assign1]
        HandleSyncGroup_validation
          [where g = "coordinatorWith group2" and rt = "runtime0 ''u1''" and username = "''usr''"
             and gId = "''g''" and mId = "''c-u1''" and generation = 1
             and groupAssignments = "[]"]
  by (simp add: coordinator0_def NewGroupCoordinatorStandalone_def coordinatorWith_def group2_def)

section \<open>LeaveGroup\<close>




section \<open>SyncGroup: the assignments of the leader\<close>

lemma storeAssignments_unknown:
  "\<exists>a \<in> set as. fmlookup ms (ga_MemberId a) = None \<Longrightarrow>
     snd (storeAssignments ms as) = Some NilPointerDereference"
proof (induction as arbitrary: ms)
  case Nil
  then show ?case by simp
next
  case (Cons a as)
  show ?case
  proof (cases "fmlookup ms (ga_MemberId a)")
    case None
    then show ?thesis by simp
  next
    case (Some member)
    let ?ms = "fmupd (ga_MemberId a) (member\<lparr>assignment := ga_MemberAssignment a\<rparr>) ms"
    from Cons.prems Some obtain b where "b \<in> set as" "fmlookup ms (ga_MemberId b) = None"
      by auto
    with Some have "\<exists>b \<in> set as. fmlookup ?ms (ga_MemberId b) = None"
      by (intro bexI [of _ b]) auto
    from Cons.IH [OF this] Some show ?thesis by simp
  qed
qed

text \<open>
  A leader that syncs in CompletingRebalance with an assignment for an id the group does
  not hold: the handler faults.
\<close>

lemma HandleSyncGroup_unknown_assignee:
  assumes "gId \<noteq> []" and "mId \<noteq> []"
    and "fmlookup (groupManager g) (username @ gId) = Some grp"
    and "fmlookup (members grp) mId = Some curMember"
    and "groupStatus grp = CompletingRebalance"
    and "leader grp = mId"
    and "\<exists>a \<in> set groupAssignments. fmlookup (members grp) (ga_MemberId a) = None"
  shows "snd (HandleSyncGroup g rt username gId mId generation groupAssignments)
           = Inl NilPointerDereference"
proof -
  obtain ms1 where "storeAssignments (members grp) groupAssignments
                      = (ms1, Some NilPointerDereference)"
    using storeAssignments_unknown [OF assms(7)]
    by (cases "storeAssignments (members grp) groupAssignments") auto
  with assms(1-6) show ?thesis
    by (simp add: HandleSyncGroup_def syncGroupParamsCheck_def syncCompleting_def
                  isMemberLeader_def)
qed

text \<open>
  Claim C10 says that \<^verbatim>\<open>HandleSyncGroup\<close> returns a response for every call of the
  leader in CompletingRebalance, whatever the assignment list. The group of
  \<open>coordinator1\<close> is in CompletingRebalance with the leader \<^verbatim>\<open>c-u1\<close> as its only member;
  the leader syncs with an assignment for \<^verbatim>\<open>ghost\<close>, and the call ends in a nil-pointer
  dereference at line 273 instead of a response.
\<close>

theorem HandleSyncGroup_faults_at_unknown_assignee:
  "map_option groupStatus (GetGroup coordinator1 ''usr'' ''g'') = Some CompletingRebalance
   \<and> map_option leader (GetGroup coordinator1 ''usr'' ''g'') = Some ''c-u1''
   \<and> groupHasMember coordinator1 ''usr'' ''g'' ''c-u1''
   \<and> \<not> groupHasMember coordinator1 ''usr'' ''g'' ''ghost''
   \<and> snd (HandleSyncGroup coordinator1 (runtime0 ''u1'') ''usr'' ''g'' ''c-u1'' 1 assignGhost)
       = Inl NilPointerDereference"
  by code_simp

section \<open>Produce from an address without a user\<close>

lemma Produce_without_user:
  "fmlookup (userInfoManager b) addr = None \<Longrightarrow>
     Produce ext b addr kafkaTopic partitionId batch = (b, Panics NilPointerDereference)"
  by (simp add: Produce_def)

text \<open>
  Claim C9 says that \<^verbatim>\<open>Produce\<close>, called from an address with no user in
  \<^verbatim>\<open>userInfoManager\<close>, returns \<^verbatim>\<open>TOPIC_AUTHORIZATION_FAILED\<close> without a fault. No user is
  registered for the address \<^verbatim>\<open>10.0.0.9:5000\<close> in \<open>broker0\<close>; the call ends in the
  nil-pointer dereference of \<^verbatim>\<open>user.username\<close> at line 140 and returns no response.
\<close>

theorem Produce_without_user_panics:
  "fmlookup (userInfoManager broker0) ''10.0.0.9:5000'' = None
   \<and> Produce externals0 broker0 ''10.0.0.9:5000'' ''t'' 0 [\<lparr>pr_Key = None, pr_Value = [1]\<rparr>]
       = (broker0, Panics NilPointerDereference)"
  by (simp add: Produce_def broker0_def)

section \<open>OffsetCommitPartition\<close>

lemma commitLoop_walk:
  "i + length fifo = len \<Longrightarrow>
   commitLoop ext user kafkaTopic gId req i len fifo om =
     (case commitWalk (oc_Offset req) fifo of
        (fifo1, None) \<Rightarrow> (fifo1, om, False)
      | (fifo1, Some p) \<Rightarrow>
          if CommitOffsetFails ext
               \<lparr>commitUsername = user, commitKafkaTopic = kafkaTopic, commitGroupId = gId,
                commitPartitionId = oc_PartitionId req, commitPair = p\<rparr>
          then (p # fifo1, om, True)
          else (fifo1,
                om @ [\<lparr>commitUsername = user, commitKafkaTopic = kafkaTopic, commitGroupId = gId,
                       commitPartitionId = oc_PartitionId req, commitPair = p\<rparr>],
                False))"
proof (induction "oc_Offset req" fifo arbitrary: i rule: commitWalk.induct)
  case 1
  then show ?case
    by (subst commitLoop.simps) simp
next
  case (2 p)
  then have "i < len" "i = len - 1" by simp_all
  then show ?case
    by (subst commitLoop.simps) (auto simp: CommitOffset_def)
next
  case (3 p q rest)
  from "3.prems" have i: "i < len" "i \<noteq> len - 1" by simp_all
  show ?case
  proof (cases "Offset p < oc_Offset req")
    case True
    from "3.prems" have "(i + 1) + length (q # rest) = len" by simp
    from "3.hyps" [OF _ True this] True i show ?thesis
      by (subst commitLoop.simps) simp
  next
    case False
    with i show ?thesis
      by (subst commitLoop.simps) (auto simp: CommitOffset_def)
  qed
qed

text \<open>
  Claim C1, as stated, promises the answer \<^verbatim>\<open>NONE\<close> for every OffsetCommit on a reader
  that exists. The reader of \<open>broker0\<close> holds the offsets 3, 5 and 7 and the target is 5;
  when \<^verbatim>\<open>CommitOffset\<close> returns an error for the entry with offset 5, the answer is
  \<^verbatim>\<open>UNKNOWN_SERVER_ERROR\<close>, that entry is still the head of the FIFO (the entry with
  offset 3 was dropped), and nothing is persisted.
\<close>

theorem OffsetCommit_error_when_CommitOffset_fails:
  "fmlookup (readerManager broker0) ''persistent://public/default/t-partition-0c'' = Some reader0
   \<and> snd (OffsetCommitPartition externalsCommitFails broker0 ''10.0.0.1:4000'' ''t'' ''c''
             commitReq5)
       = \<lparr>ocr_PartitionId = 0, ocr_ErrorCode = UNKNOWN_SERVER_ERROR\<rparr>
   \<and> map_option messageIds
         (fmlookup (readerManager
            (fst (OffsetCommitPartition externalsCommitFails broker0 ''10.0.0.1:4000'' ''t'' ''c''
                    commitReq5)))
            ''persistent://public/default/t-partition-0c'')
       = Some [\<lparr>MessageId = 2, Offset = 5\<rparr>, \<lparr>MessageId = 3, Offset = 7\<rparr>]
   \<and> offsetManager
         (fst (OffsetCommitPartition externalsCommitFails broker0 ''10.0.0.1:4000'' ''t'' ''c''
                 commitReq5)) = []"
  by code_simp

text \<open>
  Claim C1, amended. For an OffsetCommit with target offset \<open>O\<close> from a connection with a
  user, on a partitioned topic and client id with a reader, the FIFO is walked from its
  head: an entry with offset below \<open>O\<close> that is not the last one is removed without
  being persisted; the first entry with offset \<open>O\<close>, or with an offset below \<open>O\<close> when
  it is the last entry, is passed to \<^verbatim>\<open>CommitOffset\<close> with its (message id, offset)
  pair, the user, the Kafka topic, the reader's group id and the partition; the walk
  stops there, and it stops at the first entry with an offset above \<open>O\<close>, which stays
  in the FIFO with all later entries. When \<^verbatim>\<open>CommitOffset\<close> was not called or returned
  no error, the entry passed to it is removed and the answer is \<^verbatim>\<open>NONE\<close>; when it
  returned an error, the entry stays at the head of the FIFO, nothing is persisted and
  the answer is \<^verbatim>\<open>UNKNOWN_SERVER_ERROR\<close>.
\<close>

theorem OffsetCommitPartition_walk:
  assumes "fmlookup (userInfoManager b) addr = Some user"
    and "partitionedTopicOf ext user kafkaTopic (oc_PartitionId req) = Some pTopic"
    and "fmlookup (readerManager b) (pTopic @ clientID) = Some readerMessages"
    and "commitWalk (oc_Offset req) (messageIds readerMessages) = (fifo, persist)"
  shows "OffsetCommitPartition ext b addr kafkaTopic clientID req =
     (case persist of
        None \<Rightarrow>
          (b\<lparr>readerManager := fmupd (pTopic @ clientID) (readerMessages\<lparr>messageIds := fifo\<rparr>)
                                (readerManager b),
             offsetManager := offsetManager b\<rparr>,
           \<lparr>ocr_PartitionId = oc_PartitionId req, ocr_ErrorCode = NONE\<rparr>)
      | Some p \<Rightarrow>
          if CommitOffsetFails ext
               \<lparr>commitUsername = userUsername user, commitKafkaTopic = kafkaTopic,
                commitGroupId = readerGroupId readerMessages,
                commitPartitionId = oc_PartitionId req, commitPair = p\<rparr>
          then (b\<lparr>readerManager := fmupd (pTopic @ clientID)
                                     (readerMessages\<lparr>messageIds := p # fifo\<rparr>) (readerManager b),
                  offsetManager := offsetManager b\<rparr>,
                \<lparr>ocr_PartitionId = oc_PartitionId req, ocr_ErrorCode = UNKNOWN_SERVER_ERROR\<rparr>)
          else (b\<lparr>readerManager := fmupd (pTopic @ clientID)
                                     (readerMessages\<lparr>messageIds := fifo\<rparr>) (readerManager b),
                  offsetManager := offsetManager b @
                    [\<lparr>commitUsername = userUsername user, commitKafkaTopic = kafkaTopic,
                      commitGroupId = readerGroupId readerMessages,
                      commitPartitionId = oc_PartitionId req, commitPair = p\<rparr>]\<rparr>,
                \<lparr>ocr_PartitionId = oc_PartitionId req, ocr_ErrorCode = NONE\<rparr>))"
proof -
  have "0 + length (messageIds readerMessages) = length (messageIds readerMessages)"
    by simp
  note loop = commitLoop_walk [OF this, of ext "userUsername user" kafkaTopic
                                 "readerGroupId readerMessages" req "offsetManager b"]
  show ?thesis
    unfolding OffsetCommitPartition_def
    by (cases persist) (simp_all add: assms loop del: commitLoop.simps)
qed

lemma broker0_topic:
  "partitionedTopicOf externals0 \<lparr>userUsername = ''usr'', userClientId = ''c''\<rparr> ''t''
       (oc_PartitionId commitReq5)
     = Some ''persistent://public/default/t-partition-0''"
  by (simp add: partitionedTopicOf_def externals0_def)

lemma broker0_topic_fails:
  "partitionedTopicOf externalsCommitFails \<lparr>userUsername = ''usr'', userClientId = ''c''\<rparr> ''t''
       (oc_PartitionId commitReq5)
     = Some ''persistent://public/default/t-partition-0''"
  by (simp add: partitionedTopicOf_def externals0_def externalsCommitFails_def)

lemma reader0_walk:
  "commitWalk (oc_Offset commitReq5) (messageIds reader0)
     = ([\<lparr>MessageId = 3, Offset = 7\<rparr>], Some \<lparr>MessageId = 2, Offset = 5\<rparr>)"
  by (simp add: commitReq5_def reader0_def)

theorem OffsetCommitPartition_walk_witness:
  "OffsetCommitPartition externals0 broker0 ''10.0.0.1:4000'' ''t'' ''c'' commitReq5
     = (broker0\<lparr>readerManager := fmupd ''persistent://public/default/t-partition-0c''
                    (reader0\<lparr>messageIds := [\<lparr>MessageId = 3, Offset = 7\<rparr>]\<rparr>)
                    (readerManager broker0),
                offsetManager :=
                  [\<lparr>commitUsername = ''usr'', commitKafkaTopic = ''t'', commitGroupId = ''g'',
                    commitPartitionId = 0, commitPair = \<lparr>MessageId = 2, Offset = 5\<rparr>\<rparr>]\<rparr>,
        \<lparr>ocr_PartitionId = 0, ocr_ErrorCode = NONE\<rparr>)
   \<and> OffsetCommitPartition externalsCommitFails broker0 ''10.0.0.1:4000'' ''t'' ''c'' commitReq5
     = (broker0\<lparr>readerManager := fmupd ''persistent://public/default/t-partition-0c''
                    (reader0\<lparr>messageIds := [\<lparr>MessageId = 2, Offset = 5\<rparr>,
                                             \<lparr>MessageId = 3, Offset = 7\<rparr>]\<rparr>)
                    (readerManager broker0),
                offsetManager := []\<rparr>,
        \<lparr>ocr_PartitionId = 0, ocr_ErrorCode = UNKNOWN_SERVER_ERROR\<rparr>)"
  using OffsetCommitPartition_walk [OF broker0_user broker0_topic broker0_reader reader0_walk]
        OffsetCommitPartition_walk [OF broker0_user broker0_topic_fails broker0_reader reader0_walk]
  by (simp add: externals0_def externalsCommitFails_def commitReq5_def reader0_def broker0_def)

section \<open>FetchPartition: the read loop\<close>

lemma accept_fields:
  "records (accept ext config st m) =
     records st @ [\<lparr>Value = msgPayload m,
                    RelativeOffset = wrap64 (convOffset ext m (ContinuousOffset config)
                       - (if fistMessage st then convOffset ext m (ContinuousOffset config)
                          else baseOffset st))\<rparr>]"
  "pendingMessageIds (accept ext config st m) =
     pendingMessageIds st @ [\<lparr>MessageId = msgID m,
                              Offset = convOffset ext m (ContinuousOffset config)\<rparr>]"
  "baseOffset (accept ext config st m) =
     (if fistMessage st then convOffset ext m (ContinuousOffset config) else baseOffset st)"
  "fistMessage (accept ext config st m) = False"
  "byteLength (accept ext config st m) = wrap64 (byteLength st + CalculateMsgLength ext m)"
  by (simp_all add: accept_def Let_def)

lemma acceptAll_append:
  "acceptAll ext config st (ms @ ms') = acceptAll ext config (acceptAll ext config st ms) ms'"
  by (induction ms arbitrary: st) simp_all

lemma messagesOf_append: "messagesOf (ts @ ts') = messagesOf ts @ messagesOf ts'"
  by (induction ts) (simp_all split: read_result.splits)

lemma acceptAll_later:
  "\<not> fistMessage st \<Longrightarrow>
   records (acceptAll ext config st ms) =
     records st @ map (\<lambda>m. \<lparr>Value = msgPayload m,
                            RelativeOffset = wrap64 (convOffset ext m (ContinuousOffset config)
                                                     - baseOffset st)\<rparr>) ms
   \<and> pendingMessageIds (acceptAll ext config st ms) = pendingMessageIds st @ pairsFor ext config ms
   \<and> baseOffset (acceptAll ext config st ms) = baseOffset st"
proof (induction ms arbitrary: st)
  case Nil
  show ?case by (simp add: pairsFor_def)
next
  case (Cons m ms)
  have "\<not> fistMessage (accept ext config st m)"
    by (simp add: accept_fields)
  from Cons.IH [OF this] Cons.prems show ?case
    by (simp add: accept_fields pairsFor_def)
qed

text \<open>From the variables before the loop: the batch and the FIFO after taking \<open>ms\<close> in.\<close>

lemma acceptAll_fetchStart:
  "records (acceptAll ext config (fetchStart r) ms) = recordsFor ext config ms
   \<and> pendingMessageIds (acceptAll ext config (fetchStart r) ms)
       = messageIds r @ pairsFor ext config ms
   \<and> baseOffset (acceptAll ext config (fetchStart r) ms)
       = (case ms of [] \<Rightarrow> 0 | m # _ \<Rightarrow> convOffset ext m (ContinuousOffset config))"
proof (cases ms)
  case Nil
  then show ?thesis
    by (simp add: fetchStart_def recordsFor_def pairsFor_def)
next
  case (Cons m ms')
  let ?st1 = "accept ext config (fetchStart r) m"
  have nf: "\<not> fistMessage ?st1"
    by (simp add: accept_fields)
  have s1: "records ?st1 = [\<lparr>Value = msgPayload m, RelativeOffset = wrap64 0\<rparr>]"
    "pendingMessageIds ?st1 = messageIds r @ [\<lparr>MessageId = msgID m,
                              Offset = convOffset ext m (ContinuousOffset config)\<rparr>]"
    "baseOffset ?st1 = convOffset ext m (ContinuousOffset config)"
    by (simp_all add: accept_fields fetchStart_def)
  from acceptAll_later [OF nf, of ext config ms'] s1 Cons show ?thesis
    by (simp add: recordsFor_def pairsFor_def)
qed

text \<open>The byte counter of the loop is the sum of the lengths of the messages taken.\<close>

lemma byteLength_acceptAll:
  "byteLength (acceptAll ext config st ms)
     = foldl (\<lambda>total message. wrap64 (total + CalculateMsgLength ext message)) (byteLength st) ms"
  by (induction ms arbitrary: st) (simp_all add: accept_fields)

lemma byteLength_fetchStart:
  "byteLength (acceptAll ext config (fetchStart r) ms) = bytesOf ext ms"
  by (simp add: byteLength_acceptAll bytesOf_def fetchStart_def)

lemma length_records_fetchStart:
  "length (records (acceptAll ext config (fetchStart r) ms)) = length ms"
  by (simp add: acceptAll_fetchStart recordsFor_def)

text \<open>One iteration of the loop, when the messages \<open>ms\<close> have been taken.\<close>

lemma fetchLoop_leaves:
  assumes "leavesLoop ext config maxBytes minBytes maxWaitMs ms t"
  shows "fetchLoop ext config maxBytes minBytes maxWaitMs (t # ts)
           (acceptAll ext config (fetchStart r) ms)
         = Some (acceptAll ext config (fetchStart r)
                   (if stopsBeforeRead config maxWaitMs ms t then ms else ms @ messagesOf [t]))"
proof (cases "nextResult t")
  case (NextMessage m)
  have "byteLength (accept ext config (acceptAll ext config (fetchStart r) ms) m)
        = bytesOf ext (ms @ [m])"
    using byteLength_fetchStart [of ext config r "ms @ [m]"] by (simp add: acceptAll_append)
  with assms NextMessage show ?thesis
    by (auto simp: leavesLoop_def stopsBeforeRead_def stopsAfterAccept_def Let_def
          length_records_fetchStart acceptAll_append)
next
  case NextDeadline
  with assms show ?thesis
    by (auto simp: leavesLoop_def stopsBeforeRead_def stopsAfterAccept_def
          length_records_fetchStart)
next
  case NextError
  with assms show ?thesis
    by (auto simp: leavesLoop_def stopsBeforeRead_def stopsAfterAccept_def
          length_records_fetchStart)
qed

lemma fetchLoop_goes_on:
  assumes "\<not> leavesLoop ext config maxBytes minBytes maxWaitMs ms t"
  shows "fetchLoop ext config maxBytes minBytes maxWaitMs (t # ts)
           (acceptAll ext config (fetchStart r) ms)
         = fetchLoop ext config maxBytes minBytes maxWaitMs ts
             (acceptAll ext config (fetchStart r) (ms @ messagesOf [t]))"
proof (cases "nextResult t")
  case (NextMessage m)
  have "byteLength (accept ext config (acceptAll ext config (fetchStart r) ms) m)
        = bytesOf ext (ms @ [m])"
    using byteLength_fetchStart [of ext config r "ms @ [m]"] by (simp add: acceptAll_append)
  with assms NextMessage show ?thesis
    by (auto simp: leavesLoop_def stopsBeforeRead_def stopsAfterAccept_def Let_def
          length_records_fetchStart acceptAll_append)
next
  case NextDeadline
  with assms show ?thesis
    by (auto simp: leavesLoop_def stopsBeforeRead_def stopsAfterAccept_def
          length_records_fetchStart)
next
  case NextError
  with assms show ?thesis
    by (auto simp: leavesLoop_def stopsBeforeRead_def stopsAfterAccept_def
          length_records_fetchStart)
qed

lemma messagesOf_take_Suc:
  "messagesOf (take (Suc i) (t # ts)) = messagesOf [t] @ messagesOf (take i ts)"
  by (simp split: read_result.splits)

lemma fetchLoop_prefix:
  assumes "\<forall>i<length pre. \<not> leavesLoop ext config maxBytes minBytes maxWaitMs
                              (ms @ messagesOf (take i pre)) (pre ! i)"
  shows "fetchLoop ext config maxBytes minBytes maxWaitMs (pre @ rest)
           (acceptAll ext config (fetchStart r) ms)
         = fetchLoop ext config maxBytes minBytes maxWaitMs rest
             (acceptAll ext config (fetchStart r) (ms @ messagesOf pre))"
  using assms
proof (induction pre arbitrary: ms)
  case Nil
  show ?case by simp
next
  case (Cons t pre)
  from Cons.prems have first: "\<not> leavesLoop ext config maxBytes minBytes maxWaitMs ms t"
    by (auto dest: spec [of _ 0])
  have "\<forall>i<length pre. \<not> leavesLoop ext config maxBytes minBytes maxWaitMs
                              ((ms @ messagesOf [t]) @ messagesOf (take i pre)) (pre ! i)"
  proof (intro allI impI)
    fix i assume "i < length pre"
    with Cons.prems have "\<not> leavesLoop ext config maxBytes minBytes maxWaitMs
                              (ms @ messagesOf (take (Suc i) (t # pre))) ((t # pre) ! Suc i)"
      by (metis Suc_less_eq length_Cons)
    then show "\<not> leavesLoop ext config maxBytes minBytes maxWaitMs
                              ((ms @ messagesOf [t]) @ messagesOf (take i pre)) (pre ! i)"
      by (simp only: messagesOf_take_Suc append_assoc nth_Cons_Suc not_False_eq_True)
  qed
  from Cons.IH [OF this] fetchLoop_goes_on [OF first, where ts = "pre @ rest" and r = r] show ?case
    using messagesOf_append [of "[t]" pre] by simp
qed

lemma fetchLoop_None:
  "fetchLoop ext config maxBytes minBytes maxWaitMs ticks
       (acceptAll ext config (fetchStart r) ms) = None \<longleftrightarrow>
     (\<forall>i<length ticks. \<not> leavesLoop ext config maxBytes minBytes maxWaitMs
                            (ms @ messagesOf (take i ticks)) (ticks ! i))"
proof (induction ticks arbitrary: ms)
  case Nil
  show ?case by simp
next
  case (Cons t ticks)
  show ?case
  proof (cases "leavesLoop ext config maxBytes minBytes maxWaitMs ms t")
    case True
    then have "\<not> (\<forall>i<length (t # ticks). \<not> leavesLoop ext config maxBytes minBytes maxWaitMs
                            (ms @ messagesOf (take i (t # ticks))) ((t # ticks) ! i))"
      by (auto intro!: exI [of _ 0])
    with fetchLoop_leaves [OF True, where ts = ticks and r = r] show ?thesis
      by simp
  next
    case False
    have "(\<forall>i<length (t # ticks). \<not> leavesLoop ext config maxBytes minBytes maxWaitMs
                            (ms @ messagesOf (take i (t # ticks))) ((t # ticks) ! i))
          \<longleftrightarrow> (\<forall>i<length ticks. \<not> leavesLoop ext config maxBytes minBytes maxWaitMs
                            ((ms @ messagesOf [t]) @ messagesOf (take i ticks)) (ticks ! i))"
      (is "?L \<longleftrightarrow> ?R")
    proof
      assume l: ?L
      show ?R
      proof (intro allI impI)
        fix i assume "i < length ticks"
        with l have "\<not> leavesLoop ext config maxBytes minBytes maxWaitMs
                            (ms @ messagesOf (take (Suc i) (t # ticks))) ((t # ticks) ! Suc i)"
          by (metis Suc_less_eq length_Cons)
        then show "\<not> leavesLoop ext config maxBytes minBytes maxWaitMs
                            ((ms @ messagesOf [t]) @ messagesOf (take i ticks)) (ticks ! i)"
          by (simp only: messagesOf_take_Suc append_assoc nth_Cons_Suc not_False_eq_True)
      qed
    next
      assume r: ?R
      show ?L
      proof (intro allI impI)
        fix i assume i: "i < length (t # ticks)"
        show "\<not> leavesLoop ext config maxBytes minBytes maxWaitMs
                            (ms @ messagesOf (take i (t # ticks))) ((t # ticks) ! i)"
        proof (cases i)
          case 0
          with False show ?thesis by simp
        next
          case (Suc j)
          with i r have "\<not> leavesLoop ext config maxBytes minBytes maxWaitMs
                            ((ms @ messagesOf [t]) @ messagesOf (take j ticks)) (ticks ! j)"
            by simp
          then show ?thesis
            unfolding Suc by (simp only: messagesOf_take_Suc append_assoc nth_Cons_Suc not_False_eq_True)
        qed
      qed
    qed
    with fetchLoop_goes_on [OF False, where ts = ticks and r = r] Cons.IH [of "ms @ messagesOf [t]"]
    show ?thesis
      by simp
  qed
qed

lemma fetchLoop_bound:
  "fetchLoop ext config maxBytes minBytes maxWaitMs ticks st = Some st' \<Longrightarrow>
     int (length (records st')) \<le> max (MaxFetchRecord config) (int (length (records st)))"
proof (induction ticks arbitrary: st)
  case Nil
  then show ?case by simp
next
  case (Cons t ticks)
  show ?case
  proof (cases "elapsedAtHead t \<ge> maxWaitMs \<or> int (length (records st)) \<ge> MaxFetchRecord config
                \<or> \<not> flowQuota t")
    case True
    with Cons.prems have "st' = st" by (auto split: if_splits)
    then show ?thesis by simp
  next
    case False
    show ?thesis
    proof (cases "nextResult t")
      case (NextMessage m)
      let ?st1 = "accept ext config st m"
      have l1: "int (length (records ?st1)) \<le> MaxFetchRecord config"
        using False by (simp add: accept_fields)
      from Cons.prems False NextMessage
      have "st' = ?st1 \<or> fetchLoop ext config maxBytes minBytes maxWaitMs ticks ?st1 = Some st'"
        by (auto simp: Let_def split: if_splits)
      then show ?thesis
      proof
        assume "st' = ?st1"
        with l1 show ?thesis by simp
      next
        assume "fetchLoop ext config maxBytes minBytes maxWaitMs ticks ?st1 = Some st'"
        from Cons.IH [OF this] l1 show ?thesis by simp
      qed
    next
      case NextDeadline
      with Cons.prems False have "st' = st" by simp
      then show ?thesis by simp
    next
      case NextError
      with Cons.prems False
      have "fetchLoop ext config maxBytes minBytes maxWaitMs ticks st = Some st'"
        by simp
      from Cons.IH [OF this] show ?thesis .
    qed
  qed
qed

text \<open>
  Claim C8, as stated, has the loop end exactly when the first of the listed conditions
  holds. In \<open>ticks0\<close> the first message (three bytes, more than \<^verbatim>\<open>minBytes\<close>) is taken
  after 10 ms, before \<^verbatim>\<open>MinFetchWaitMs\<close>, and the second iteration waits in the read from
  10 ms to 300 ms. After 100 ms "bytes above \<^verbatim>\<open>minBytes\<close> and elapsed at least
  \<^verbatim>\<open>MinFetchWaitMs\<close>" holds, with one message taken. The source tests that condition
  only right after it has taken a message: it waits on, takes the second message and
  returns two records, where a loop that ends as soon as a listed condition holds
  returns the first message alone.
\<close>

theorem fetch_loop_reads_on_after_min_wait:
  "messagesOf (take 1 ticks0) = [message1]
   \<and> exitCondition externals0 config0 1000 1 500 [message1] 100 True
   \<and> elapsedAtHead (ticks0 ! 1) \<le> 100 \<and> 100 \<le> elapsedAfterRead (ticks0 ! 1)
   \<and> map_option (rb_Records \<circ> fp_RecordBatch \<circ> snd)
         (FetchPartition externals0 broker0 ''10.0.0.1:4000'' ''t'' ''c'' fetchReq0 1000 1 500 ticks0)
       = Some [\<lparr>Value = [1, 2, 3], RelativeOffset = 0\<rparr>, \<lparr>Value = [4], RelativeOffset = 1\<rparr>]
   \<and> fetchLoopSpec externals0 config0 1000 1 500 ticks0 [] = Some [message1]"
  by code_simp

text \<open>
  Claim C8, amended. For a FetchPartition call from a connection with a user, on a
  partitioned topic and client id with a reader, the read loop ends at the first
  iteration in which one of its tests fires, each test made where the source makes it:
  at the head of the iteration, the wait deadline has elapsed or the number of messages
  taken has reached \<^verbatim>\<open>MaxFetchRecord\<close>; then, the flow quota is denied; then, the read
  fails with the deadline expired; or, right after a message was taken into the batch,
  the sum of the lengths of the messages taken exceeds \<^verbatim>\<open>minBytes\<close> while at least
  \<^verbatim>\<open>MinFetchWaitMs\<close> have elapsed, or it exceeds \<^verbatim>\<open>maxBytes\<close>. (Time passing alone does
  not end the loop before the deadline, and a read error without the deadline is
  retried.) The call then answers \<^verbatim>\<open>NONE\<close> with the batch of the messages taken, in the
  order taken, each with its payload and its offset relative to the first, and exactly
  these messages were appended in that order, with their converted offsets, to the
  reader's FIFO; the batch holds at most \<^verbatim>\<open>MaxFetchRecord\<close> records (none when that is
  negative). As long as no test has fired the loop is still running; it ends at the
  latest at a loop head where the clock has reached the deadline.
\<close>

theorem FetchPartition_read_loop:
  assumes "fmlookup (userInfoManager b) addr = Some user"
    and "partitionedTopicOf ext user kafkaTopic (fr_PartitionId req) = Some pTopic"
    and "fmlookup (readerManager b) (pTopic @ clientID) = Some readerMetadata"
  shows
    "(\<forall>pre t post.
        ticks = pre @ t # post
        \<and> (\<forall>i<length pre. \<not> leavesLoop ext (brokerConfig b) maxBytes minBytes maxWaitMs
               (messagesOf (take i pre)) (pre ! i))
        \<and> leavesLoop ext (brokerConfig b) maxBytes minBytes maxWaitMs (messagesOf pre) t
        \<longrightarrow>
        (let accepted = messagesOf
               (if stopsBeforeRead (brokerConfig b) maxWaitMs (messagesOf pre) t
                then pre else pre @ [t])
         in FetchPartition ext b addr kafkaTopic clientID req maxBytes minBytes maxWaitMs ticks
              = Some (b\<lparr>readerManager := fmupd (pTopic @ clientID)
                          (readerMetadata\<lparr>messageIds := messageIds readerMetadata
                                             @ pairsFor ext (brokerConfig b) accepted\<rparr>)
                          (readerManager b)\<rparr>,
                      \<lparr>fp_PartitionIndex = fr_PartitionId req, fp_ErrorCode = NONE,
                       fp_LastStableOffset = 0, fp_LogStartOffset = 0,
                       fp_RecordBatch =
                         \<lparr>rb_Offset = (case accepted of [] \<Rightarrow> 0
                                       | m # _ \<Rightarrow> convOffset ext m (ContinuousOffset (brokerConfig b))),
                          rb_Records = recordsFor ext (brokerConfig b) accepted\<rparr>\<rparr>)
            \<and> int (length accepted) \<le> max (MaxFetchRecord (brokerConfig b)) 0))
     \<and> ((\<forall>i<length ticks. \<not> leavesLoop ext (brokerConfig b) maxBytes minBytes maxWaitMs
               (messagesOf (take i ticks)) (ticks ! i))
          \<longrightarrow> FetchPartition ext b addr kafkaTopic clientID req maxBytes minBytes maxWaitMs ticks
                = None)
     \<and> ((\<exists>t \<in> set ticks. elapsedAtHead t \<ge> maxWaitMs)
          \<longrightarrow> FetchPartition ext b addr kafkaTopic clientID req maxBytes minBytes maxWaitMs ticks
                \<noteq> None)"
proof -
  let ?cfg = "brokerConfig b"
  let ?st0 = "fetchStart readerMetadata"
  let ?loop = "fetchLoop ext ?cfg maxBytes minBytes maxWaitMs"
  have st0: "?st0 = acceptAll ext ?cfg ?st0 []"
    by simp
  have fp: "FetchPartition ext b addr kafkaTopic clientID req maxBytes minBytes maxWaitMs ticks =
      (case ?loop ticks ?st0 of
         None \<Rightarrow> None
       | Some st \<Rightarrow>
           Some (b\<lparr>readerManager := fmupd (pTopic @ clientID)
                      (readerMetadata\<lparr>messageIds := pendingMessageIds st\<rparr>) (readerManager b)\<rparr>,
                 \<lparr>fp_PartitionIndex = fr_PartitionId req, fp_ErrorCode = NONE,
                  fp_LastStableOffset = 0, fp_LogStartOffset = 0,
                  fp_RecordBatch = \<lparr>rb_Offset = baseOffset st, rb_Records = records st\<rparr>\<rparr>))"
    by (simp add: FetchPartition_def assms)
  have first: "let accepted = messagesOf
               (if stopsBeforeRead ?cfg maxWaitMs (messagesOf pre) t then pre else pre @ [t])
         in FetchPartition ext b addr kafkaTopic clientID req maxBytes minBytes maxWaitMs ticks
              = Some (b\<lparr>readerManager := fmupd (pTopic @ clientID)
                          (readerMetadata\<lparr>messageIds := messageIds readerMetadata
                                             @ pairsFor ext ?cfg accepted\<rparr>)
                          (readerManager b)\<rparr>,
                      \<lparr>fp_PartitionIndex = fr_PartitionId req, fp_ErrorCode = NONE,
                       fp_LastStableOffset = 0, fp_LogStartOffset = 0,
                       fp_RecordBatch =
                         \<lparr>rb_Offset = (case accepted of [] \<Rightarrow> 0
                                       | m # _ \<Rightarrow> convOffset ext m (ContinuousOffset ?cfg)),
                          rb_Records = recordsFor ext ?cfg accepted\<rparr>\<rparr>)
            \<and> int (length accepted) \<le> max (MaxFetchRecord ?cfg) 0"
    if dec: "ticks = pre @ t # post"
      and before: "\<forall>i<length pre. \<not> leavesLoop ext ?cfg maxBytes minBytes maxWaitMs
               (messagesOf (take i pre)) (pre ! i)"
      and at: "leavesLoop ext ?cfg maxBytes minBytes maxWaitMs (messagesOf pre) t"
    for pre t post
  proof -
    define accepted where "accepted = messagesOf
               (if stopsBeforeRead ?cfg maxWaitMs (messagesOf pre) t then pre else pre @ [t])"
    from before
    have before': "\<forall>i<length pre. \<not> leavesLoop ext ?cfg maxBytes minBytes maxWaitMs
               ([] @ messagesOf (take i pre)) (pre ! i)"
      by simp
    have "?loop ticks ?st0 = ?loop (pre @ t # post) (acceptAll ext ?cfg ?st0 [])"
      unfolding dec by simp
    also have "\<dots> = ?loop (t # post) (acceptAll ext ?cfg ?st0 ([] @ messagesOf pre))"
      by (rule fetchLoop_prefix [OF before'])
    also have "\<dots> = ?loop (t # post) (acceptAll ext ?cfg ?st0 (messagesOf pre))"
      by simp
    also have "\<dots> = Some (acceptAll ext ?cfg ?st0
                   (if stopsBeforeRead ?cfg maxWaitMs (messagesOf pre) t then messagesOf pre
                    else messagesOf pre @ messagesOf [t]))"
      by (rule fetchLoop_leaves [OF at])
    also have "(if stopsBeforeRead ?cfg maxWaitMs (messagesOf pre) t then messagesOf pre
                    else messagesOf pre @ messagesOf [t]) = accepted"
      by (simp add: accepted_def messagesOf_append)
    finally have loop: "?loop ticks ?st0 = Some (acceptAll ext ?cfg ?st0 accepted)" .
    have "records ?st0 = []"
      by (simp add: fetchStart_def)
    with fetchLoop_bound [OF loop]
    have "int (length accepted) \<le> max (MaxFetchRecord ?cfg) 0"
      by (simp add: length_records_fetchStart)
    with loop show ?thesis
      unfolding accepted_def [symmetric] Let_def fp
      by (simp add: acceptAll_fetchStart)
  qed
  have iff: "?loop ticks ?st0 = None \<longleftrightarrow>
       (\<forall>i<length ticks. \<not> leavesLoop ext ?cfg maxBytes minBytes maxWaitMs
               (messagesOf (take i ticks)) (ticks ! i))"
    using fetchLoop_None [of ext ?cfg maxBytes minBytes maxWaitMs ticks readerMetadata "[]"]
    by simp
  have none: "FetchPartition ext b addr kafkaTopic clientID req maxBytes minBytes maxWaitMs ticks
                = None"
    if "\<forall>i<length ticks. \<not> leavesLoop ext ?cfg maxBytes minBytes maxWaitMs
               (messagesOf (take i ticks)) (ticks ! i)"
    using that iff by (simp add: fp)
  have total: "FetchPartition ext b addr kafkaTopic clientID req maxBytes minBytes maxWaitMs ticks
                \<noteq> None"
    if "\<exists>t \<in> set ticks. elapsedAtHead t \<ge> maxWaitMs"
  proof -
    from that obtain i where i: "i < length ticks" "elapsedAtHead (ticks ! i) \<ge> maxWaitMs"
      by (auto simp: in_set_conv_nth)
    then have "leavesLoop ext ?cfg maxBytes minBytes maxWaitMs
               (messagesOf (take i ticks)) (ticks ! i)"
      by (simp add: leavesLoop_def stopsBeforeRead_def)
    with i(1) have "?loop ticks ?st0 \<noteq> None"
      unfolding iff by blast
    then show ?thesis
      by (auto simp: fp)
  qed
  from first none total show ?thesis
    by blast
qed

lemma ticks0_first_goes_on:
  "\<not> leavesLoop externals0 config0 1000 1 500 (messagesOf []) (ticks0 ! 0)"
  by code_simp

lemma ticks0_second_leaves:
  "leavesLoop externals0 config0 1000 1 500 (messagesOf [ticks0 ! 0]) (ticks0 ! 1)
   \<and> \<not> stopsBeforeRead config0 500 (messagesOf [ticks0 ! 0]) (ticks0 ! 1)"
  by code_simp

lemma ticks0_split: "ticks0 = [ticks0 ! 0] @ (ticks0 ! 1) # []"
  by (simp add: ticks0_def)

lemma ticks0_messages: "messagesOf ([ticks0 ! 0] @ [ticks0 ! 1]) = [message1, message2]"
  by code_simp

lemma ticks0_records:
  "recordsFor externals0 config0 [message1, message2]
     = [\<lparr>Value = [1, 2, 3], RelativeOffset = 0\<rparr>, \<lparr>Value = [4], RelativeOffset = 1\<rparr>]
   \<and> pairsFor externals0 config0 [message1, message2]
     = [\<lparr>MessageId = 11, Offset = 11\<rparr>, \<lparr>MessageId = 12, Offset = 12\<rparr>]
   \<and> convOffset externals0 message1 (ContinuousOffset config0) = 11"
  by code_simp

theorem FetchPartition_read_loop_witness:
  "FetchPartition externals0 broker0 ''10.0.0.1:4000'' ''t'' ''c'' fetchReq0 1000 1 500 ticks0
     = Some (broker0\<lparr>readerManager :=
                       fmupd ''persistent://public/default/t-partition-0c''
                         (reader0\<lparr>messageIds := messageIds reader0
                                     @ [\<lparr>MessageId = 11, Offset = 11\<rparr>,
                                        \<lparr>MessageId = 12, Offset = 12\<rparr>]\<rparr>)
                         (readerManager broker0)\<rparr>,
             \<lparr>fp_PartitionIndex = 0, fp_ErrorCode = NONE,
              fp_LastStableOffset = 0, fp_LogStartOffset = 0,
              fp_RecordBatch =
                \<lparr>rb_Offset = 11,
                 rb_Records = [\<lparr>Value = [1, 2, 3], RelativeOffset = 0\<rparr>,
                               \<lparr>Value = [4], RelativeOffset = 1\<rparr>]\<rparr>\<rparr>)"
proof -
  have cfg: "brokerConfig broker0 = config0"
    by (simp add: broker0_def)
  have key: "''persistent://public/default/t-partition-0'' @ ''c''
             = ''persistent://public/default/t-partition-0c''"
    by simp
  have before: "\<forall>i<length [ticks0 ! 0].
      \<not> leavesLoop externals0 (brokerConfig broker0) 1000 1 500
          (messagesOf (take i [ticks0 ! 0])) ([ticks0 ! 0] ! i)"
    using ticks0_first_goes_on by (simp add: cfg)
  have at: "leavesLoop externals0 (brokerConfig broker0) 1000 1 500
      (messagesOf [ticks0 ! 0]) (ticks0 ! 1)"
    using ticks0_second_leaves [THEN conjunct1] by (simp only: cfg)
  have req: "fr_PartitionId fetchReq0 = 0"
    by (simp add: fetchReq0_def)
  have topic: "partitionedTopicOf externals0 \<lparr>userUsername = ''usr'', userClientId = ''c''\<rparr>
                 ''t'' (fr_PartitionId fetchReq0)
               = Some ''persistent://public/default/t-partition-0''"
    by (simp add: partitionedTopicOf_def externals0_def)
  note loop = FetchPartition_read_loop
         [where b = broker0 and addr = "''10.0.0.1:4000''"
            and user = "\<lparr>userUsername = ''usr'', userClientId = ''c''\<rparr>"
            and ext = externals0 and kafkaTopic = "''t''" and req = fetchReq0
            and pTopic = "''persistent://public/default/t-partition-0''"
            and clientID = "''c''" and readerMetadata = reader0 and ticks = ticks0
            and maxBytes = 1000 and minBytes = 1 and maxWaitMs = 500,
          OF broker0_user topic broker0_reader, THEN conjunct1,
          THEN spec [where x = "[ticks0 ! 0]"], THEN spec [where x = "ticks0 ! 1"],
          THEN spec [where x = "[]"], THEN mp, OF conjI [OF ticks0_split conjI [OF before at]]]
  have nb: "\<not> stopsBeforeRead (brokerConfig broker0) 500 (messagesOf [ticks0 ! 0]) (ticks0 ! 1)"
    using ticks0_second_leaves [THEN conjunct2] by (simp only: cfg not_False_eq_True)
  from loop show ?thesis
    unfolding Let_def if_not_P [OF nb] ticks0_messages
    by (simp only: cfg key req ticks0_records list.case)
qed

end
